theory Spec2Isabelle
  imports Complex_Main
begin

section \<open>Strings, query values and JSON\<close>

text \<open>
  The server (\<^verbatim>\<open>src/server/index.ts\<close>) is a set of Express request handlers over a
  MongoDB database, the zod validation library, bcrypt, and a chat-completion provider.
  A handler becomes a function from the request's inputs and the database to a response
  and the database after the request. What a library call returns by chance or by time
  (a fresh \<^verbatim>\<open>ObjectId\<close>, \<^verbatim>\<open>new Date()\<close>, the salt of a hash, the provider's reply) is an
  input of the handler.

  A JavaScript string is a \<^typ>\<open>string\<close>. \<^verbatim>\<open>toLowerCase\<close> and \<^verbatim>\<open>trim\<close> are modelled on
  ASCII text: the letters A to Z are lowered, and the white space removed is tab, line
  feed, vertical tab, form feed, carriage return and space.
\<close>

definition lowerChar :: "char \<Rightarrow> char" where
  "lowerChar c =
     (case map_of (zip ''ABCDEFGHIJKLMNOPQRSTUVWXYZ'' ''abcdefghijklmnopqrstuvwxyz'') c of
        Some d \<Rightarrow> d
      | None \<Rightarrow> c)"

definition toLowerCase :: "string \<Rightarrow> string" where
  "toLowerCase s = map lowerChar s"

definition isSpace :: "char \<Rightarrow> bool" where
  "isSpace c = (c \<in> set [CHR 0x09, CHR 0x0A, CHR 0x0B, CHR 0x0C, CHR 0x0D, CHR '' ''])"

definition trim :: "string \<Rightarrow> string" where
  "trim s = rev (dropWhile isSpace (rev (dropWhile isSpace s)))"

text \<open>\<^verbatim>\<open>msg.includes(pat)\<close>: the pattern occurs somewhere in the message.\<close>

fun str_includes :: "string \<Rightarrow> string \<Rightarrow> bool" where
  "str_includes [] pat = (pat = [])"
| "str_includes (c # cs) pat = (take (length pat) (c # cs) = pat \<or> str_includes cs pat)"

text \<open>
  A value of \<^verbatim>\<open>req.query\<close>: absent, a string, or something else (a repeated parameter
  gives an array, a bracketed one an object).
\<close>

datatype QueryValue = QUndefined | QString string | QOther

text \<open>
  \<^verbatim>\<open>function qString(v) { return typeof v === "string" && v.trim() ? v.trim() : undefined; }\<close>
\<close>

fun qString :: "QueryValue \<Rightarrow> string option" where
  "qString (QString v) = (if trim v \<noteq> [] then Some (trim v) else None)"
| "qString _ = None"

text \<open>\<^verbatim>\<open>function normalizeTag(s) { return s.trim().toLowerCase(); }\<close>\<close>

definition normalizeTag :: "string \<Rightarrow> string" where
  "normalizeTag s = toLowerCase (trim s)"

text \<open>
  A parsed JSON value (a request body after \<^verbatim>\<open>express.json()\<close>, or the result of
  \<^verbatim>\<open>JSON.parse\<close>). An object is the list of its entries in key order; its keys are
  distinct, as those of a JavaScript object are. A number is the rational it denotes.
\<close>

datatype json =
    JNull
  | JBool bool
  | JNum rat
  | JStr string
  | JArr "json list"
  | JObj "(string \<times> json) list"

section \<open>The validation library\<close>

text \<open>
  A zod schema parses a value (absent when the key is missing) into issues and, unless
  the parse was aborted, a value. An issue is a code and the path of the offending part.
  A wrong type aborts; a failed check (length, range, format) marks the result dirty and
  keeps the value. \<^verbatim>\<open>safeParse\<close> succeeds when there is a value and no issue.
\<close>

datatype ZodIssueCode =
  invalid_type | too_small | too_big | invalid_string | invalid_enum_value | custom

datatype PathSeg = Key string | Index nat

type_synonym ZodIssue = "ZodIssueCode \<times> PathSeg list"

type_synonym 'a ZodResult = "ZodIssue list \<times> 'a option"

definition safeParse :: "'a ZodResult \<Rightarrow> ZodIssue list + 'a" where
  "safeParse r = (case r of ([], Some v) \<Rightarrow> Inr v | (iss, _) \<Rightarrow> Inl iss)"

text \<open>\<^verbatim>\<open>z.string().min(n)\<close>\<close>

definition z_string_min :: "nat \<Rightarrow> PathSeg list \<Rightarrow> json option \<Rightarrow> string ZodResult" where
  "z_string_min n path v =
     (case v of
        Some (JStr s) \<Rightarrow> (if length s < n then [(too_small, path)] else [], Some s)
      | _ \<Rightarrow> ([(invalid_type, path)], None))"

text \<open>\<^verbatim>\<open>z.string().trim().min(n)\<close>: the check and the value are of the trimmed string.\<close>

definition z_string_trim_min :: "nat \<Rightarrow> PathSeg list \<Rightarrow> json option \<Rightarrow> string ZodResult" where
  "z_string_trim_min n path v =
     (case v of
        Some (JStr s) \<Rightarrow> (if length (trim s) < n then [(too_small, path)] else [], Some (trim s))
      | _ \<Rightarrow> ([(invalid_type, path)], None))"

text \<open>
  \<^verbatim>\<open>z.string().email()\<close>; the library's test of an address is the parameter \<open>isEmail\<close>.
\<close>

definition z_string_email ::
  "(string \<Rightarrow> bool) \<Rightarrow> PathSeg list \<Rightarrow> json option \<Rightarrow> string ZodResult" where
  "z_string_email isEmail path v =
     (case v of
        Some (JStr s) \<Rightarrow> (if isEmail s then [] else [(invalid_string, path)], Some s)
      | _ \<Rightarrow> ([(invalid_type, path)], None))"

text \<open>\<^verbatim>\<open>z.number().int().min(lo).max(hi)\<close>\<close>

definition z_number_int_range ::
  "int \<Rightarrow> int \<Rightarrow> PathSeg list \<Rightarrow> json option \<Rightarrow> int ZodResult" where
  "z_number_int_range lo hi path v =
     (case v of
        Some (JNum r) \<Rightarrow>
          ((if of_int \<lfloor>r\<rfloor> = r then [] else [(invalid_type, path)]) @
           (if r < of_int lo then [(too_small, path)] else []) @
           (if of_int hi < r then [(too_big, path)] else []),
           Some \<lfloor>r\<rfloor>)
      | _ \<Rightarrow> ([(invalid_type, path)], None))"

text \<open>\<^verbatim>\<open>z.enum([...])\<close>\<close>

definition z_enum :: "string list \<Rightarrow> PathSeg list \<Rightarrow> json option \<Rightarrow> string ZodResult" where
  "z_enum allowed path v =
     (case v of
        Some (JStr s) \<Rightarrow>
          (if s \<in> set allowed then ([], Some s) else ([(invalid_enum_value, path)], None))
      | _ \<Rightarrow> ([(invalid_type, path)], None))"

text \<open>
  \<^verbatim>\<open>z.array(elem).min(lo).max(hi)\<close> (a bound that the schema does not set is \<open>None\<close>):
  the length checks, then every element at its index; an aborted element aborts the array.
\<close>

definition z_array ::
  "(PathSeg list \<Rightarrow> json option \<Rightarrow> 'a ZodResult) \<Rightarrow> nat option \<Rightarrow> nat option \<Rightarrow>
   PathSeg list \<Rightarrow> json option \<Rightarrow> 'a list ZodResult" where
  "z_array elem lo hi path v =
     (case v of
        Some (JArr xs) \<Rightarrow>
          (let rs = map (\<lambda>(i, x). elem (path @ [Index i]) (Some x)) (enumerate 0 xs)
           in ((case lo of Some m \<Rightarrow> if length xs < m then [(too_small, path)] else [] | None \<Rightarrow> []) @
               (case hi of Some m \<Rightarrow> if m < length xs then [(too_big, path)] else [] | None \<Rightarrow> []) @
               concat (map fst rs),
               those (map snd rs)))
      | _ \<Rightarrow> ([(invalid_type, path)], None))"

text \<open>
  \<^verbatim>\<open>z.record(value)\<close>: an object, every entry's value parsed at its key; an aborted
  value aborts the record. The library builds the parsed record entry by entry and leaves
  out an entry whose key is \<^verbatim>\<open>__proto__\<close> (its value is parsed like the others, and its
  issues count); the other keys keep their order.
\<close>

definition z_record ::
  "(PathSeg list \<Rightarrow> json option \<Rightarrow> 'a ZodResult) \<Rightarrow> PathSeg list \<Rightarrow> json option \<Rightarrow>
   (string \<times> 'a) list ZodResult" where
  "z_record val path v =
     (case v of
        Some (JObj kvs) \<Rightarrow>
          (let rs = map (\<lambda>(k, x). val (path @ [Key k]) (Some x)) kvs
           in (concat (map fst rs),
               map_option (\<lambda>vs. filter (\<lambda>(k, y). k \<noteq> ''__proto__'') (zip (map fst kvs) vs))
                 (those (map snd rs))))
      | _ \<Rightarrow> ([(invalid_type, path)], None))"

text \<open>
  \<^verbatim>\<open>z.object({...})\<close>: the input must be an object; every declared key is parsed (keys the
  schema does not declare are dropped), the issues of all keys are collected, and one
  aborted key aborts the object. \<open>z_field\<close> joins the result of one more key.
\<close>

definition z_object ::
  "PathSeg list \<Rightarrow> json option \<Rightarrow> ((string \<Rightarrow> json option) \<Rightarrow> 'a ZodResult) \<Rightarrow> 'a ZodResult" where
  "z_object path v fields =
     (case v of
        Some (JObj kvs) \<Rightarrow> fields (map_of kvs)
      | _ \<Rightarrow> ([(invalid_type, path)], None))"

definition z_field :: "'a ZodResult \<Rightarrow> 'b ZodResult \<Rightarrow> ('a \<times> 'b) ZodResult" where
  "z_field a b =
     (fst a @ fst b,
      case snd a of None \<Rightarrow> None | Some x \<Rightarrow> (case snd b of None \<Rightarrow> None | Some y \<Rightarrow> Some (x, y)))"

definition z_map :: "('a \<Rightarrow> 'b) \<Rightarrow> 'a ZodResult \<Rightarrow> 'b ZodResult" where
  "z_map f a = (fst a, map_option f (snd a))"

section \<open>The data model\<close>

text \<open>
  The document types of the source. A \<^verbatim>\<open>Date\<close> is its time value in milliseconds;
  an \<^verbatim>\<open>ObjectId\<close> is its hexadecimal string. \<^verbatim>\<open>EducationLevel\<close> is a string at
  run time (a query parameter is cast to it unchecked); \<open>educationLevels\<close> lists its
  members. A field that two record types of the source share a name for carries a prefix
  in all but one of them.
\<close>

type_synonym Date = nat

datatype ObjectId = ObjectId string

fun toHexString :: "ObjectId \<Rightarrow> string" where
  "toHexString (ObjectId h) = h"

type_synonym EducationLevel = string

definition educationLevels :: "EducationLevel list" where
  "educationLevels =
     [''Middle School'', ''High School'', ''Diploma'', ''Undergraduate'', ''Postgraduate'']"

record UserProfile =
  fullName :: string
  age :: int
  educationLevel :: EducationLevel
  interests :: "string list"

record PsychometricSubmission =
  answers :: "(string \<times> string) list"
  submittedAt :: Date

record CourseRecommendation =
  course :: string
  reason :: string

record AiAnalyzeResult =
  primaryDomain :: string
  recommendedCourses :: "CourseRecommendation list"

record AiPortfolio =
  strengthSummary :: string
  recommendedSkills :: "string list"
  learningFocusAreas :: "string list"
  suggestedProjects :: "string list"

record AiRoadmapStage =
  stage :: string
  whatToStudy :: "string list"
  skillsToLearn :: "string list"
  certifications :: "string list"
  projects :: "string list"
  internships :: "string list"

record AiRoadmap =
  roadmap_primaryDomain :: string
  stages :: "AiRoadmapStage list"
  roadmap_notes :: string

text \<open>A cached result: \<^verbatim>\<open>{ data, createdAt, model }\<close>.\<close>

record 'a AiSlot =
  data :: 'a
  slot_createdAt :: Date
  slot_model :: string

record AiBundle =
  analysis :: "AiAnalyzeResult option"
  portfolio :: "AiPortfolio AiSlot option"
  roadmap :: "AiRoadmap AiSlot option"
  ai_createdAt :: "Date option"
  ai_model :: "string option"

text \<open>
  \<^verbatim>\<open>UserDoc\<close>. The fields other than \<^verbatim>\<open>passwordHash\<close> form the record \<open>UserFields\<close>,
  which is what a query with the projection \<^verbatim>\<open>{ passwordHash: 0 }\<close> returns.
\<close>

record UserFields =
  user_id :: ObjectId
  email :: string
  createdAt :: Date
  updatedAt :: Date
  profile :: "UserProfile option"
  psychometric :: "PsychometricSubmission option"
  ai :: "AiBundle option"

record UserDoc = UserFields +
  passwordHash :: string

datatype DemandLevel = Low | Medium | High

record JobRoleDoc =
  role_id :: ObjectId
  title :: string
  domain :: string
  salaryRangeInr :: "int \<times> int"
  requiredSkills :: "string list"
  demandLevel :: DemandLevel
  role_courseTags :: "string list option"

record ScholarshipDoc =
  scholarship_id :: ObjectId
  name :: string
  url :: string
  courseTags :: "string list"
  category :: "string option"
  academicLevel :: EducationLevel
  deadline :: "string option"
  amountInr :: "(int option \<times> int option) option"
  eligibility :: "string option"

text \<open>The database \<^verbatim>\<open>careercraft\<close>: its three collections, each in store order.\<close>

record Db =
  users :: "UserDoc list"
  job_roles :: "JobRoleDoc list"
  scholarships :: "ScholarshipDoc list"

section \<open>The database driver\<close>

text \<open>
  The calls the handlers make on a collection. \<^verbatim>\<open>users\<close> has the unique index on
  \<^verbatim>\<open>_id\<close> that every collection has and the unique index on \<^verbatim>\<open>email\<close> that
  \<^verbatim>\<open>getUsersCollection\<close> creates: \<^verbatim>\<open>insertOne\<close> throws the duplicate key error
  (its message is returned on the left) when either is violated.
\<close>

definition findOneById :: "UserDoc list \<Rightarrow> ObjectId \<Rightarrow> UserDoc option" where
  "findOneById us oid = find (\<lambda>u. user_id u = oid) us"

definition findOneByEmail :: "UserDoc list \<Rightarrow> string \<Rightarrow> UserDoc option" where
  "findOneByEmail us e = find (\<lambda>u. email u = e) us"

definition findOneById_noHash :: "UserDoc list \<Rightarrow> ObjectId \<Rightarrow> UserFields option" where
  "findOneById_noHash us oid = map_option UserFields.truncate (findOneById us oid)"

definition insertOne :: "UserDoc list \<Rightarrow> UserDoc \<Rightarrow> string + UserDoc list" where
  "insertOne us doc =
     (if \<exists>u \<in> set us. user_id u = user_id doc \<or> email u = email doc
      then Inl ''E11000 duplicate key error collection: careercraft.users''
      else Inr (us @ [doc]))"

text \<open>
  \<^verbatim>\<open>updateOne({ _id }, { $set: ... })\<close>: the first document with the id is changed by the
  \<^verbatim>\<open>$set\<close>; the result carries \<^verbatim>\<open>matchedCount\<close>.
\<close>

fun updateOne :: "ObjectId \<Rightarrow> (UserDoc \<Rightarrow> UserDoc) \<Rightarrow> UserDoc list \<Rightarrow> UserDoc list \<times> nat" where
  "updateOne oid upd [] = ([], 0)"
| "updateOne oid upd (u # us) =
     (if user_id u = oid then (upd u # us, 1)
      else (u # fst (updateOne oid upd us), snd (updateOne oid upd us)))"

text \<open>
  \<^verbatim>\<open>$set\<close> on the path \<^verbatim>\<open>ai.portfolio\<close> (resp. \<^verbatim>\<open>ai.roadmap\<close>) creates the \<^verbatim>\<open>ai\<close>
  object when the document has none.
\<close>

definition emptyBundle :: AiBundle where
  "emptyBundle =
     \<lparr>analysis = None, portfolio = None, roadmap = None, ai_createdAt = None, ai_model = None\<rparr>"

definition set_ai_portfolio :: "AiPortfolio AiSlot \<Rightarrow> Date \<Rightarrow> UserDoc \<Rightarrow> UserDoc" where
  "set_ai_portfolio slot now u =
     u\<lparr>ai := Some ((case ai u of None \<Rightarrow> emptyBundle | Some b \<Rightarrow> b)\<lparr>portfolio := Some slot\<rparr>),
       updatedAt := now\<rparr>"

definition set_ai_roadmap :: "AiRoadmap AiSlot \<Rightarrow> Date \<Rightarrow> UserDoc \<Rightarrow> UserDoc" where
  "set_ai_roadmap slot now u =
     u\<lparr>ai := Some ((case ai u of None \<Rightarrow> emptyBundle | Some b \<Rightarrow> b)\<lparr>roadmap := Some slot\<rparr>),
       updatedAt := now\<rparr>"

text \<open>
  A query \<^verbatim>\<open>{ field: { $in: tags } }\<close> on an array field: the document matches when the
  field is there and one of its elements is among the tags.
\<close>

definition tags_in :: "string list option \<Rightarrow> string list \<Rightarrow> bool" where
  "tags_in field tags = (case field of None \<Rightarrow> False | Some ts \<Rightarrow> \<exists>t \<in> set ts. t \<in> set tags)"

text \<open>
  The filter object of \<^verbatim>\<open>/ai/job-roles\<close>: \<^verbatim>\<open>domain\<close> when set, and \<^verbatim>\<open>$or\<close> when set, a
  list of \<^verbatim>\<open>{ courseTags: { $in: tags } }\<close> clauses. The keys of a filter are joined by and.
\<close>

record JobRoleFilter =
  filter_domain :: "string option"
  filter_or :: "string list list option"

definition matchesJobRole :: "JobRoleFilter \<Rightarrow> JobRoleDoc \<Rightarrow> bool" where
  "matchesJobRole f r =
     ((case filter_domain f of None \<Rightarrow> True | Some d \<Rightarrow> domain r = d) \<and>
      (case filter_or f of
         None \<Rightarrow> True
       | Some clauses \<Rightarrow> \<exists>tags \<in> set clauses. tags_in (role_courseTags r) tags))"

text \<open>
  The filter object of \<^verbatim>\<open>/scholarships\<close>: \<^verbatim>\<open>academicLevel\<close>, \<^verbatim>\<open>category\<close> when set, and
  \<^verbatim>\<open>courseTags: { $in: tags }\<close> when set.
\<close>

record ScholarshipFilter =
  filter_academicLevel :: EducationLevel
  filter_category :: "string option"
  filter_courseTags :: "string list option"

definition matchesScholarship :: "ScholarshipFilter \<Rightarrow> ScholarshipDoc \<Rightarrow> bool" where
  "matchesScholarship f s =
     (academicLevel s = filter_academicLevel f \<and>
      (case filter_category f of None \<Rightarrow> True | Some c \<Rightarrow> category s = Some c) \<and>
      (case filter_courseTags f of None \<Rightarrow> True | Some tags \<Rightarrow> tags_in (Some (courseTags s)) tags))"

text \<open>\<^verbatim>\<open>col.find(filter).limit(n).toArray()\<close>\<close>

definition find_limit :: "('d \<Rightarrow> bool) \<Rightarrow> nat \<Rightarrow> 'd list \<Rightarrow> 'd list" where
  "find_limit matches n docs = take n (filter matches docs)"

section \<open>The schemas\<close>

text \<open>
  \<^verbatim>\<open>signupSchema = z.object({ email: z.string().email(), password: z.string().min(6) })\<close>;
  \<^verbatim>\<open>loginSchema\<close> is the same object.
\<close>

definition signupSchema :: "(string \<Rightarrow> bool) \<Rightarrow> json \<Rightarrow> (string \<times> string) ZodResult" where
  "signupSchema isEmail body =
     z_object [] (Some body) (\<lambda>get.
       z_field (z_string_email isEmail [Key ''email''] (get ''email''))
               (z_string_min 6 [Key ''password''] (get ''password'')))"

definition loginSchema :: "(string \<Rightarrow> bool) \<Rightarrow> json \<Rightarrow> (string \<times> string) ZodResult" where
  "loginSchema isEmail body =
     z_object [] (Some body) (\<lambda>get.
       z_field (z_string_email isEmail [Key ''email''] (get ''email''))
               (z_string_min 6 [Key ''password''] (get ''password'')))"

text \<open>
  \<^verbatim>\<open>profileSchema\<close>: \<^verbatim>\<open>fullName: z.string().trim().min(2)\<close>,
  \<^verbatim>\<open>age: z.number().int().min(12).max(100)\<close>, \<^verbatim>\<open>educationLevel: z.enum([...])\<close>,
  \<^verbatim>\<open>interests: z.array(z.string().trim().min(1)).min(1)\<close>.
\<close>

definition profileSchema :: "json \<Rightarrow> UserProfile ZodResult" where
  "profileSchema body =
     z_object [] (Some body) (\<lambda>get.
       z_map (\<lambda>(n, a, e, i). \<lparr>fullName = n, age = a, educationLevel = e, interests = i\<rparr>)
         (z_field (z_string_trim_min 2 [Key ''fullName''] (get ''fullName''))
         (z_field (z_number_int_range 12 100 [Key ''age''] (get ''age''))
         (z_field (z_enum educationLevels [Key ''educationLevel''] (get ''educationLevel''))
                  (z_array (z_string_trim_min 1) (Some 1) None [Key ''interests'']
                     (get ''interests''))))))"

text \<open>
  \<^verbatim>\<open>psychometricSchema = z.object({ answers: z.record(z.string().min(1)) }).superRefine(...)\<close>:
  unless the object was aborted, the refinement counts \<^verbatim>\<open>Object.keys(val.answers)\<close>, the
  keys of the parsed record (so not a key \<^verbatim>\<open>__proto__\<close> of the request body), and adds a
  custom issue when there are fewer than 8 or more than 10. The parsed value is the
  \<^verbatim>\<open>answers\<close> record.
\<close>

definition psychometricSchema :: "json \<Rightarrow> (string \<times> string) list ZodResult" where
  "psychometricSchema body =
     (let inner = z_object [] (Some body) (\<lambda>get.
                    z_record (z_string_min 1) [Key ''answers''] (get ''answers''))
      in case snd inner of
           None \<Rightarrow> inner
         | Some val \<Rightarrow>
             (let n = length (map fst val)
              in if n < 8 \<or> n > 10 then (fst inner @ [(custom, [Key ''answers''])], Some val)
                 else inner))"

text \<open>
  \<^verbatim>\<open>aiPortfolioSchema\<close>: \<^verbatim>\<open>strengthSummary: z.string().min(1)\<close>,
  \<^verbatim>\<open>recommendedSkills: z.array(z.string().min(1)).min(3).max(12)\<close>,
  \<^verbatim>\<open>learningFocusAreas: z.array(z.string().min(1)).min(3).max(12)\<close>,
  \<^verbatim>\<open>suggestedProjects: z.array(z.string().min(1)).min(2).max(10)\<close>.
\<close>

definition aiPortfolioSchema :: "json \<Rightarrow> AiPortfolio ZodResult" where
  "aiPortfolioSchema j =
     z_object [] (Some j) (\<lambda>get.
       z_map (\<lambda>(s, r, l, p). \<lparr>strengthSummary = s, recommendedSkills = r,
                              learningFocusAreas = l, suggestedProjects = p\<rparr>)
         (z_field (z_string_min 1 [Key ''strengthSummary''] (get ''strengthSummary''))
         (z_field (z_array (z_string_min 1) (Some 3) (Some 12) [Key ''recommendedSkills'']
                     (get ''recommendedSkills''))
         (z_field (z_array (z_string_min 1) (Some 3) (Some 12) [Key ''learningFocusAreas'']
                     (get ''learningFocusAreas''))
                  (z_array (z_string_min 1) (Some 2) (Some 10) [Key ''suggestedProjects'']
                     (get ''suggestedProjects''))))))"

text \<open>
  \<^verbatim>\<open>aiRoadmapSchema\<close>: \<^verbatim>\<open>primaryDomain: z.string().min(1)\<close>, \<^verbatim>\<open>stages\<close> an array of 3 to
  8 stage objects, \<^verbatim>\<open>notes: z.string().min(1)\<close>. A stage has \<^verbatim>\<open>stage: z.string().min(1)\<close>
  and five arrays of non-empty strings, each of at most 10, where \<^verbatim>\<open>whatToStudy\<close>,
  \<^verbatim>\<open>skillsToLearn\<close> and \<^verbatim>\<open>projects\<close> have at least 1.
\<close>

definition aiRoadmapStageSchema :: "PathSeg list \<Rightarrow> json option \<Rightarrow> AiRoadmapStage ZodResult" where
  "aiRoadmapStageSchema path v =
     z_object path v (\<lambda>get.
       z_map (\<lambda>(st, w, sk, c, p, i). \<lparr>stage = st, whatToStudy = w, skillsToLearn = sk,
                                      certifications = c, projects = p, internships = i\<rparr>)
         (z_field (z_string_min 1 (path @ [Key ''stage'']) (get ''stage''))
         (z_field (z_array (z_string_min 1) (Some 1) (Some 10) (path @ [Key ''whatToStudy''])
                     (get ''whatToStudy''))
         (z_field (z_array (z_string_min 1) (Some 1) (Some 10) (path @ [Key ''skillsToLearn''])
                     (get ''skillsToLearn''))
         (z_field (z_array (z_string_min 1) None (Some 10) (path @ [Key ''certifications''])
                     (get ''certifications''))
         (z_field (z_array (z_string_min 1) (Some 1) (Some 10) (path @ [Key ''projects''])
                     (get ''projects''))
                  (z_array (z_string_min 1) None (Some 10) (path @ [Key ''internships''])
                     (get ''internships''))))))))"

definition aiRoadmapSchema :: "json \<Rightarrow> AiRoadmap ZodResult" where
  "aiRoadmapSchema j =
     z_object [] (Some j) (\<lambda>get.
       z_map (\<lambda>(d, ss, n). \<lparr>roadmap_primaryDomain = d, stages = ss, roadmap_notes = n\<rparr>)
         (z_field (z_string_min 1 [Key ''primaryDomain''] (get ''primaryDomain''))
         (z_field (z_array aiRoadmapStageSchema (Some 3) (Some 8) [Key ''stages''] (get ''stages''))
                  (z_string_min 1 [Key ''notes''] (get ''notes'')))))"

section \<open>Responses, libraries and the provider\<close>

text \<open>
  A response is a status and a JSON body; \<open>Body\<close> has one constructor for each shape of
  body that a handler sends. \<^verbatim>\<open>parsed.error.flatten()\<close> is the list of issues. A signed
  token is its payload (\<^verbatim>\<open>sub\<close>, \<^verbatim>\<open>email\<close>).
\<close>

datatype Token = Token string string

datatype JobRoleItem =
  JobRoleItem string string string "int \<times> int" "string list" DemandLevel

datatype ScholarshipItem =
  ScholarshipItem string string string "string option" EducationLevel "string option"
    "(int option \<times> int option) option" "string option"

datatype Body =
    OkTrue
  | ErrorBody string
  | ErrorDetails string "ZodIssue list"
  | ErrorRaw string string
  | AuthBody Token string string
  | MeBody string string "UserProfile option" "Date option"
  | PortfolioBody string Date AiPortfolio
  | RoadmapBody string Date AiRoadmap
  | JobRolesBody "string option" nat "JobRoleItem list"
  | ScholarshipsBody "string option" "string option" EducationLevel nat "ScholarshipItem list"

record Response =
  status :: nat
  body :: Body

definition respond :: "nat \<Rightarrow> Body \<Rightarrow> Response" where
  "respond code b = \<lparr>status = code, body = b\<rparr>"

text \<open>
  The library functions whose code is not the repository's: the address test of zod,
  \<^verbatim>\<open>bcrypt.hash\<close> (of a salt, the password and the number of rounds), \<^verbatim>\<open>bcrypt.compare\<close>
  and \<^verbatim>\<open>JSON.parse\<close> (\<open>None\<close> when it throws).
\<close>

record Lib =
  isEmail :: "string \<Rightarrow> bool"
  bcrypt_hash :: "string \<Rightarrow> string \<Rightarrow> nat \<Rightarrow> string"
  bcrypt_compare :: "string \<Rightarrow> string \<Rightarrow> bool"
  JSON_parse :: "string \<Rightarrow> json option"

record Env =
  OPENAI_API_KEY :: "string option"

definition AI_MODEL :: string where
  "AI_MODEL = ''gpt-4-turbo-preview''"

definition signToken :: "ObjectId \<Rightarrow> string \<Rightarrow> Token" where
  "signToken oid e = Token (toHexString oid) e"

text \<open>
  The openai client. \<^verbatim>\<open>new OpenAI({ apiKey })\<close> passes no \<^verbatim>\<open>maxRetries\<close>, so the client
  has the library's default of 2. \<^verbatim>\<open>getOpenAIClient\<close> throws when the key is undefined or
  empty.
\<close>

record OpenAI =
  apiKey :: string
  maxRetries :: nat

definition new_OpenAI :: "string \<Rightarrow> OpenAI" where
  "new_OpenAI key = \<lparr>apiKey = key, maxRetries = 2\<rparr>"

definition getOpenAIClient :: "Env \<Rightarrow> string + OpenAI" where
  "getOpenAIClient env =
     (case OPENAI_API_KEY env of
        None \<Rightarrow> Inl ''OpenAI API key not configured''
      | Some k \<Rightarrow> if k = [] then Inl ''OpenAI API key not configured'' else Inr (new_OpenAI k))"

fun join :: "string \<Rightarrow> string list \<Rightarrow> string" where
  "join sep [] = []"
| "join sep [x] = x"
| "join sep (x # y # ys) = x @ sep @ join sep (y # ys)"

definition buildAnswerContext :: "(string \<times> string) list \<Rightarrow> string" where
  "buildAnswerContext ans =
     join [CHR 0x0A, CHR 0x0A] (map (\<lambda>(q, a). ''Q: '' @ q @ [CHR 0x0A] @ ''A: '' @ a) ans)"

text \<open>
  The argument of \<^verbatim>\<open>client.chat.completions.create\<close>. The user message is the
  \<^verbatim>\<open>JSON.stringify\<close> of the prompt object; the model keeps the object.
\<close>

record Prompt =
  prompt_profile :: UserProfile
  prompt_psychometric :: string
  prompt_analysis :: AiAnalyzeResult
  outputJsonShape :: json
  constraints :: json

record ChatRequest =
  request_model :: string
  temperature :: rat
  system_message :: string
  user_message :: Prompt

text \<open>
  What one request to the provider comes to. \<open>Failed retryable err\<close>: it failed, with the
  message of the error that the client throws for it (\<open>None\<close> when the thrown value is no
  \<^verbatim>\<open>Error\<close>); \<open>retryable\<close> is the library's classification of the failure (it retries
  a connection failure or timeout and the statuses 408, 409, 429 and 500 or above).
  \<open>Answered content\<close>: a completion came back, of which the handler reads
  \<^verbatim>\<open>choices[0]?.message?.content\<close> (a completion has the array \<^verbatim>\<open>choices\<close> by its type;
  the content is \<open>None\<close> when the array is empty or the message or its content is
  missing). The provider is an input of the handler: what it answers, under a key, to a
  request sent for the \<open>n\<close>-th time (counted from 0).
\<close>

datatype Attempt = Failed bool "string option" | Answered "string option"

type_synonym Provider = "string \<Rightarrow> ChatRequest \<Rightarrow> nat \<Rightarrow> Attempt"

text \<open>
  What \<^verbatim>\<open>client.chat.completions.create\<close> does: it throws, or it returns a completion.
\<close>

datatype ProviderResult = Threw "string option" | Completed "string option"

text \<open>
  The library's request loop, with the retries that remain and the number of requests
  sent so far: a failed request is sent again while it is retryable and retries remain.
  The result comes with the number of requests sent.
\<close>

fun makeRequest :: "(nat \<Rightarrow> Attempt) \<Rightarrow> nat \<Rightarrow> nat \<Rightarrow> ProviderResult \<times> nat" where
  "makeRequest reply 0 n =
     (case reply n of
        Answered content \<Rightarrow> (Completed content, Suc n)
      | Failed retryable err \<Rightarrow> (Threw err, Suc n))"
| "makeRequest reply (Suc retriesRemaining) n =
     (case reply n of
        Answered content \<Rightarrow> (Completed content, Suc n)
      | Failed retryable err \<Rightarrow>
          if retryable then makeRequest reply retriesRemaining (Suc n) else (Threw err, Suc n))"

definition chat_completions_create ::
  "Provider \<Rightarrow> OpenAI \<Rightarrow> ChatRequest \<Rightarrow> ProviderResult \<times> nat" where
  "chat_completions_create provider client request =
     makeRequest (provider (apiKey client) request) (maxRetries client) 0"

text \<open>
  A call of the client as a handler reports it: the argument of
  \<^verbatim>\<open>client.chat.completions.create\<close> and the number of requests that went to the provider.
\<close>

record ClientCall =
  call_request :: ChatRequest
  requests_sent :: nat

definition portfolioRequest :: "UserProfile \<Rightarrow> string \<Rightarrow> AiAnalyzeResult \<Rightarrow> ChatRequest" where
  "portfolioRequest profile' answerContext analysis' =
     \<lparr>request_model = AI_MODEL,
      temperature = 3 / 10,
      system_message = join '' ''
        [''You are CareerCraft AI.'',
         ''Generate a student portfolio section based on profile + psychometric answers + the chosen domain.'',
         ''Return ONLY valid JSON. No markdown.'',
         ''Keep content beginner-friendly and directly renderable in a UI.''],
      user_message =
        \<lparr>prompt_profile = profile',
         prompt_psychometric = answerContext,
         prompt_analysis = analysis',
         outputJsonShape = JObj
           [(''strengthSummary'', JStr ''string (short paragraph)''),
            (''recommendedSkills'', JArr [JStr ''string'']),
            (''learningFocusAreas'', JArr [JStr ''string'']),
            (''suggestedProjects'', JArr [JStr ''string''])],
         constraints = JObj
           [(''recommendedSkillsCount'', JStr ''5-8''),
            (''learningFocusAreasCount'', JStr ''4-8''),
            (''projectsCount'', JStr ''3-6''),
            (''avoid'', JArr [JStr ''medical/legal advice'', JStr ''guarantees about jobs'']),
            (''countryContext'', JStr ''India'')]\<rparr>\<rparr>"

text \<open>
  The same for the roadmap; the text of \<^verbatim>\<open>stageStyle\<close> is written here without its quotes
  and with ASCII dashes.
\<close>

definition roadmapRequest :: "UserProfile \<Rightarrow> string \<Rightarrow> AiAnalyzeResult \<Rightarrow> ChatRequest" where
  "roadmapRequest profile' answerContext analysis' =
     \<lparr>request_model = AI_MODEL,
      temperature = 35 / 100,
      system_message = join '' ''
        [''You are CareerCraft AI.'',
         ''Create a step-by-step beginner-friendly career roadmap for a student in India.'',
         ''Make it stage-wise/year-wise, actionable, and realistic.'',
         ''Return ONLY valid JSON (no markdown).''],
      user_message =
        \<lparr>prompt_profile = profile',
         prompt_psychometric = answerContext,
         prompt_analysis = analysis',
         outputJsonShape = JObj
           [(''primaryDomain'', JStr ''string''),
            (''stages'', JArr [JObj
               [(''stage'', JStr ''string''),
                (''whatToStudy'', JArr [JStr ''string'']),
                (''skillsToLearn'', JArr [JStr ''string'']),
                (''certifications'', JArr [JStr ''string'']),
                (''projects'', JArr [JStr ''string'']),
                (''internships'', JArr [JStr ''string''])]]),
            (''notes'', JStr ''string'')],
         constraints = JObj
           [(''stages'', JStr ''4-6 stages''),
            (''stageStyle'', JStr ''Use a mix like: 0-3 months, 3-6 months, 6-12 months, Year 2, etc.''),
            (''avoid'', JArr [JStr ''medical/legal advice'', JStr ''guarantees about placements/salary'']),
            (''includeIndiaContext'', JBool True)]\<rparr>\<rparr>"

section \<open>The handlers\<close>

text \<open>
  Each handler runs after the \<^verbatim>\<open>auth\<close> middleware, which has put the subject of the
  verified token into \<^verbatim>\<open>req.userId\<close>; \<open>userId\<close> is \<^verbatim>\<open>new ObjectId(req.userId)\<close>.
  A handler returns its response and the database after it; the two handlers that may
  call the client also return the list of the calls they made, each with the number of
  requests that it sent to the provider.
\<close>

text \<open>\<^verbatim>\<open>POST /auth/signup\<close>\<close>

definition signup ::
  "Lib \<Rightarrow> ObjectId \<Rightarrow> string \<Rightarrow> Date \<Rightarrow> Db \<Rightarrow> json \<Rightarrow> Response \<times> Db" where
  "signup L newId salt now db reqBody =
     (case safeParse (signupSchema (isEmail L) reqBody) of
        Inl iss \<Rightarrow> (respond 400 (ErrorDetails ''Invalid input'' iss), db)
      | Inr (email', password) \<Rightarrow>
          (let passwordHash' = bcrypt_hash L salt password 10
           in case insertOne (users db)
                     \<lparr>user_id = newId, email = toLowerCase email', createdAt = now,
                      updatedAt = now, profile = None, psychometric = None, ai = None,
                      passwordHash = passwordHash'\<rparr> of
                Inr us' \<Rightarrow>
                  (respond 201
                     (AuthBody (signToken newId (toLowerCase email')) (toHexString newId)
                        (toLowerCase email')),
                   db\<lparr>users := us'\<rparr>)
              | Inl msg \<Rightarrow>
                  if str_includes msg ''E11000''
                  then (respond 409 (ErrorBody ''Email already exists''), db)
                  else (respond 500 (ErrorBody ''Failed to create user''), db)))"

text \<open>\<^verbatim>\<open>POST /auth/login\<close>\<close>

definition login :: "Lib \<Rightarrow> Db \<Rightarrow> json \<Rightarrow> Response \<times> Db" where
  "login L db reqBody =
     (case safeParse (loginSchema (isEmail L) reqBody) of
        Inl iss \<Rightarrow> (respond 400 (ErrorDetails ''Invalid input'' iss), db)
      | Inr (email', password) \<Rightarrow>
          (case findOneByEmail (users db) (toLowerCase email') of
             None \<Rightarrow> (respond 401 (ErrorBody ''Invalid email or password''), db)
           | Some user \<Rightarrow>
               if \<not> bcrypt_compare L password (passwordHash user)
               then (respond 401 (ErrorBody ''Invalid email or password''), db)
               else (respond 200
                       (AuthBody (signToken (user_id user) (email user))
                          (toHexString (user_id user)) (email user)),
                     db)))"

text \<open>\<^verbatim>\<open>GET /me\<close>\<close>

definition me :: "Db \<Rightarrow> ObjectId \<Rightarrow> Response \<times> Db" where
  "me db userId =
     (case findOneById_noHash (users db) userId of
        None \<Rightarrow> (respond 404 (ErrorBody ''User not found''), db)
      | Some user \<Rightarrow>
          (respond 200
             (MeBody (toHexString (user_id user)) (email user) (profile user)
                (case psychometric user of
                   Some psy \<Rightarrow> Some (submittedAt psy)
                 | None \<Rightarrow> None)),
           db))"

text \<open>\<^verbatim>\<open>POST /user/profile\<close>\<close>

definition user_profile :: "Date \<Rightarrow> Db \<Rightarrow> ObjectId \<Rightarrow> json \<Rightarrow> Response \<times> Db" where
  "user_profile now db userId reqBody =
     (case safeParse (profileSchema reqBody) of
        Inl iss \<Rightarrow> (respond 400 (ErrorDetails ''Invalid input'' iss), db)
      | Inr parsed \<Rightarrow>
          (let result = updateOne userId (\<lambda>u. u\<lparr>profile := Some parsed, updatedAt := now\<rparr>)
                          (users db)
           in if snd result = 0
              then (respond 404 (ErrorBody ''User not found''), db\<lparr>users := fst result\<rparr>)
              else (respond 200 OkTrue, db\<lparr>users := fst result\<rparr>)))"

text \<open>\<^verbatim>\<open>POST /user/psychometric\<close>\<close>

definition user_psychometric :: "Date \<Rightarrow> Db \<Rightarrow> ObjectId \<Rightarrow> json \<Rightarrow> Response \<times> Db" where
  "user_psychometric now db userId reqBody =
     (case safeParse (psychometricSchema reqBody) of
        Inl iss \<Rightarrow> (respond 400 (ErrorDetails ''Invalid input'' iss), db)
      | Inr parsed \<Rightarrow>
          (let result = updateOne userId
                          (\<lambda>u. u\<lparr>psychometric := Some \<lparr>answers = parsed, submittedAt = now\<rparr>,
                                 updatedAt := now\<rparr>)
                          (users db)
           in if snd result = 0
              then (respond 404 (ErrorBody ''User not found''), db\<lparr>users := fst result\<rparr>)
              else (respond 200 OkTrue, db\<lparr>users := fst result\<rparr>)))"

text \<open>
  \<^verbatim>\<open>GET /ai/portfolio\<close>. \<^verbatim>\<open>user.ai?.portfolio?.data\<close> is an object when the slot is there,
  and so is \<^verbatim>\<open>user.psychometric?.answers\<close> when the submission is there.
\<close>

definition ai_portfolio ::
  "Lib \<Rightarrow> Env \<Rightarrow> Provider \<Rightarrow> Date \<Rightarrow> Db \<Rightarrow> ObjectId \<Rightarrow> QueryValue \<Rightarrow>
   Response \<times> Db \<times> ClientCall list" where
  "ai_portfolio L env provider now db userId refreshQ =
     (let refresh = (qString refreshQ = Some ''1'')
      in case findOneById (users db) userId of
        None \<Rightarrow> (respond 404 (ErrorBody ''User not found''), db, [])
      | Some user \<Rightarrow>
       (case (if refresh then None else Option.bind (ai user) portfolio) of
          Some cached \<Rightarrow>
            (respond 200 (PortfolioBody (slot_model cached) (slot_createdAt cached) (data cached)),
             db, [])
        | None \<Rightarrow>
         (case profile user of
            None \<Rightarrow>
              (respond 400 (ErrorBody ''Profile is missing. Save /user/profile first.''), db, [])
          | Some profile' \<Rightarrow>
           (case psychometric user of
              None \<Rightarrow>
                (respond 400
                   (ErrorBody ''Psychometric answers are missing. Save /user/psychometric first.''),
                 db, [])
            | Some psy \<Rightarrow>
             (case Option.bind (ai user) analysis of
                None \<Rightarrow>
                  (respond 400 (ErrorBody ''AI analysis is missing. Run POST /ai/analyze first.''),
                   db, [])
              | Some analysis' \<Rightarrow>
               (case getOpenAIClient env of
                  Inl msg \<Rightarrow> (respond 500 (ErrorBody msg), db, [])
                | Inr client \<Rightarrow>
                 (let answerContext = buildAnswerContext (answers psy);
                      request = portfolioRequest profile' answerContext analysis';
                      completion = chat_completions_create provider client request;
                      calls = [\<lparr>call_request = request, requests_sent = snd completion\<rparr>]
                  in case fst completion of
                    Threw err \<Rightarrow>
                      (respond 502
                         (ErrorBody (case err of Some msg \<Rightarrow> msg | None \<Rightarrow> ''OpenAI request failed'')),
                       db, calls)
                  | Completed content \<Rightarrow>
                     (case (case content of Some c \<Rightarrow> if c = [] then None else Some c | None \<Rightarrow> None) of
                        None \<Rightarrow>
                          (respond 502 (ErrorBody ''AI returned an empty response''), db, calls)
                      | Some c \<Rightarrow>
                         (case JSON_parse L c of
                            None \<Rightarrow>
                              (respond 502 (ErrorRaw ''AI returned non-JSON output'' c), db, calls)
                          | Some j \<Rightarrow>
                             (case safeParse (aiPortfolioSchema j) of
                                Inl iss \<Rightarrow>
                                  (respond 502
                                     (ErrorDetails ''AI output did not match expected schema'' iss),
                                   db, calls)
                              | Inr parsed \<Rightarrow>
                                  (respond 200 (PortfolioBody AI_MODEL now parsed),
                                   db\<lparr>users := fst (updateOne (user_id user)
                                      (set_ai_portfolio
                                         \<lparr>data = parsed, slot_createdAt = now, slot_model = AI_MODEL\<rparr>
                                         now)
                                      (users db))\<rparr>,
                                   calls)))))))))))"

text \<open>\<^verbatim>\<open>GET /ai/career-roadmap\<close>\<close>

definition ai_career_roadmap ::
  "Lib \<Rightarrow> Env \<Rightarrow> Provider \<Rightarrow> Date \<Rightarrow> Db \<Rightarrow> ObjectId \<Rightarrow> QueryValue \<Rightarrow>
   Response \<times> Db \<times> ClientCall list" where
  "ai_career_roadmap L env provider now db userId refreshQ =
     (let refresh = (qString refreshQ = Some ''1'')
      in case findOneById (users db) userId of
        None \<Rightarrow> (respond 404 (ErrorBody ''User not found''), db, [])
      | Some user \<Rightarrow>
       (case (if refresh then None else Option.bind (ai user) roadmap) of
          Some cached \<Rightarrow>
            (respond 200 (RoadmapBody (slot_model cached) (slot_createdAt cached) (data cached)),
             db, [])
        | None \<Rightarrow>
         (case profile user of
            None \<Rightarrow>
              (respond 400 (ErrorBody ''Profile is missing. Save /user/profile first.''), db, [])
          | Some profile' \<Rightarrow>
           (case psychometric user of
              None \<Rightarrow>
                (respond 400
                   (ErrorBody ''Psychometric answers are missing. Save /user/psychometric first.''),
                 db, [])
            | Some psy \<Rightarrow>
             (case Option.bind (ai user) analysis of
                None \<Rightarrow>
                  (respond 400 (ErrorBody ''AI analysis is missing. Run POST /ai/analyze first.''),
                   db, [])
              | Some analysis' \<Rightarrow>
               (case getOpenAIClient env of
                  Inl msg \<Rightarrow> (respond 500 (ErrorBody msg), db, [])
                | Inr client \<Rightarrow>
                 (let answerContext = buildAnswerContext (answers psy);
                      request = roadmapRequest profile' answerContext analysis';
                      completion = chat_completions_create provider client request;
                      calls = [\<lparr>call_request = request, requests_sent = snd completion\<rparr>]
                  in case fst completion of
                    Threw err \<Rightarrow>
                      (respond 502
                         (ErrorBody (case err of Some msg \<Rightarrow> msg | None \<Rightarrow> ''OpenAI request failed'')),
                       db, calls)
                  | Completed content \<Rightarrow>
                     (case (case content of Some c \<Rightarrow> if c = [] then None else Some c | None \<Rightarrow> None) of
                        None \<Rightarrow>
                          (respond 502 (ErrorBody ''AI returned an empty response''), db, calls)
                      | Some c \<Rightarrow>
                         (case JSON_parse L c of
                            None \<Rightarrow>
                              (respond 502 (ErrorRaw ''AI returned non-JSON output'' c), db, calls)
                          | Some j \<Rightarrow>
                             (case safeParse (aiRoadmapSchema j) of
                                Inl iss \<Rightarrow>
                                  (respond 502
                                     (ErrorDetails ''AI output did not match expected schema'' iss),
                                   db, calls)
                              | Inr parsed \<Rightarrow>
                                  (respond 200 (RoadmapBody AI_MODEL now parsed),
                                   db\<lparr>users := fst (updateOne (user_id user)
                                      (set_ai_roadmap
                                         \<lparr>data = parsed, slot_createdAt = now, slot_model = AI_MODEL\<rparr>
                                         now)
                                      (users db))\<rparr>,
                                   calls)))))))))))"

text \<open>
  \<^verbatim>\<open>.filter((x): x is string => Boolean(x))\<close> on a list of strings, some undefined: the
  undefined and the empty ones go.
\<close>

fun filterBoolean :: "string option list \<Rightarrow> string list" where
  "filterBoolean [] = []"
| "filterBoolean (None # xs) = filterBoolean xs"
| "filterBoolean (Some x # xs) = (if x = [] then filterBoolean xs else x # filterBoolean xs)"

definition jobRoleItem :: "JobRoleDoc \<Rightarrow> JobRoleItem" where
  "jobRoleItem r =
     JobRoleItem (toHexString (role_id r)) (title r) (domain r) (salaryRangeInr r)
       (requiredSkills r) (demandLevel r)"

definition scholarshipItem :: "ScholarshipDoc \<Rightarrow> ScholarshipItem" where
  "scholarshipItem s =
     ScholarshipItem (toHexString (scholarship_id s)) (name s) (url s) (category s)
       (academicLevel s) (deadline s) (amountInr s) (eligibility s)"

text \<open>
  \<^verbatim>\<open>GET /ai/job-roles\<close>. The filter gets \<^verbatim>\<open>domain\<close> when the resolved domain is a
  non-empty string (\<^verbatim>\<open>if (domain)\<close>), and \<^verbatim>\<open>$or\<close> when there is a course tag.
\<close>

definition ai_job_roles :: "Db \<Rightarrow> ObjectId \<Rightarrow> QueryValue \<Rightarrow> QueryValue \<Rightarrow> Response \<times> Db" where
  "ai_job_roles db userId domainQ courseQ =
     (let explicitDomain = qString domainQ;
          explicitCourse = qString courseQ
      in case findOneById (users db) userId of
        None \<Rightarrow> (respond 404 (ErrorBody ''User not found''), db)
      | Some user \<Rightarrow>
         (let analysis' = Option.bind (ai user) analysis
          in if analysis' = None \<and> explicitDomain = None \<and> explicitCourse = None
             then (respond 400
                     (ErrorBody ''AI analysis missing. Run POST /ai/analyze or pass ?domain= / ?course=.''),
                   db)
             else
              (let domain' = (case explicitDomain of
                                Some d \<Rightarrow> Some d
                              | None \<Rightarrow> map_option primaryDomain analysis');
                   courseTags' = map normalizeTag (filterBoolean
                     (explicitCourse #
                      (case analysis' of
                         Some a \<Rightarrow> map (\<lambda>x. Some (course x)) (recommendedCourses a)
                       | None \<Rightarrow> [])));
                   or = (if length courseTags' > 0 then [courseTags'] else []);
                   filter' = \<lparr>filter_domain =
                                (case domain' of
                                   Some d \<Rightarrow> if d \<noteq> [] then Some d else None
                                 | None \<Rightarrow> None),
                              filter_or = (if length or > 0 then Some or else None)\<rparr>;
                   roles = find_limit (matchesJobRole filter') 30 (job_roles db)
               in (respond 200 (JobRolesBody domain' (length roles) (map jobRoleItem roles)), db))))"

text \<open>
  \<^verbatim>\<open>GET /scholarships\<close>. \<^verbatim>\<open>if (!academicLevel)\<close> holds for an undefined and for an empty
  level; \<^verbatim>\<open>if (course)\<close> holds for a non-empty course.
\<close>

definition scholarships_handler ::
  "Db \<Rightarrow> ObjectId \<Rightarrow> QueryValue \<Rightarrow> QueryValue \<Rightarrow> QueryValue \<Rightarrow> Response \<times> Db" where
  "scholarships_handler db userId courseQ categoryQ academicLevelQ =
     (let explicitCourse = qString courseQ;
          explicitCategory = qString categoryQ;
          explicitAcademicLevel = qString academicLevelQ
      in case findOneById (users db) userId of
        None \<Rightarrow> (respond 404 (ErrorBody ''User not found''), db)
      | Some user \<Rightarrow>
         (let analysis' = Option.bind (ai user) analysis;
              profile' = profile user;
              course' = (case explicitCourse of
                           Some c \<Rightarrow> Some c
                         | None \<Rightarrow>
                             (case analysis' of
                                Some a \<Rightarrow>
                                  (case recommendedCourses a of
                                     x # _ \<Rightarrow> Some (course x)
                                   | [] \<Rightarrow> None)
                              | None \<Rightarrow> None));
              academicLevel' = (case explicitAcademicLevel of
                                  Some l \<Rightarrow> Some l
                                | None \<Rightarrow> map_option educationLevel profile')
          in case (case academicLevel' of Some l \<Rightarrow> if l = [] then None else Some l | None \<Rightarrow> None) of
               None \<Rightarrow>
                 (respond 400
                    (ErrorBody ''Academic level missing. Save /user/profile or pass ?academicLevel=.''),
                  db)
             | Some level \<Rightarrow>
                 (let filter' = \<lparr>filter_academicLevel = level,
                                 filter_category = explicitCategory,
                                 filter_courseTags =
                                   (case course' of
                                      Some c \<Rightarrow> if c \<noteq> [] then Some [normalizeTag c] else None
                                    | None \<Rightarrow> None)\<rparr>;
                      items = find_limit (matchesScholarship filter') 50 (scholarships db)
                  in (respond 200
                        (ScholarshipsBody course' explicitCategory level (length items)
                           (map scholarshipItem items)),
                      db))))"

section \<open>The router\<close>

text \<open>
  A request is one of the routes with the inputs of its handler: what the client sent, and
  what the handler draws from libraries, the clock and the provider. \<open>run\<close> is the
  database after a sequence of requests. These handlers are the only writers of the
  database in the source.
\<close>

datatype Request =
    PostSignup ObjectId string Date json
  | PostLogin json
  | GetMe ObjectId
  | PostProfile Date ObjectId json
  | PostPsychometric Date ObjectId json
  | GetPortfolio Provider Date ObjectId QueryValue
  | GetRoadmap Provider Date ObjectId QueryValue
  | GetJobRoles ObjectId QueryValue QueryValue
  | GetScholarships ObjectId QueryValue QueryValue QueryValue

fun handle :: "Lib \<Rightarrow> Env \<Rightarrow> Db \<Rightarrow> Request \<Rightarrow> Response \<times> Db" where
  "handle L env db (PostSignup newId salt now reqBody) = signup L newId salt now db reqBody"
| "handle L env db (PostLogin reqBody) = login L db reqBody"
| "handle L env db (GetMe userId) = me db userId"
| "handle L env db (PostProfile now userId reqBody) = user_profile now db userId reqBody"
| "handle L env db (PostPsychometric now userId reqBody) = user_psychometric now db userId reqBody"
| "handle L env db (GetPortfolio provider now userId refreshQ) =
     (fst (ai_portfolio L env provider now db userId refreshQ),
      fst (snd (ai_portfolio L env provider now db userId refreshQ)))"
| "handle L env db (GetRoadmap provider now userId refreshQ) =
     (fst (ai_career_roadmap L env provider now db userId refreshQ),
      fst (snd (ai_career_roadmap L env provider now db userId refreshQ)))"
| "handle L env db (GetJobRoles userId domainQ courseQ) = ai_job_roles db userId domainQ courseQ"
| "handle L env db (GetScholarships userId courseQ categoryQ academicLevelQ) =
     scholarships_handler db userId courseQ categoryQ academicLevelQ"

fun run :: "Lib \<Rightarrow> Env \<Rightarrow> Db \<Rightarrow> Request list \<Rightarrow> Db" where
  "run L env db [] = db"
| "run L env db (r # rs) = run L env (snd (handle L env db r)) rs"

section \<open>The contracts in the words of the specification\<close>

text \<open>
  What the specification says a value must look like, stated on the JSON value itself,
  to be compared with what the schemas of the source accept.
\<close>

fun nonEmptyString :: "json \<Rightarrow> bool" where
  "nonEmptyString (JStr s) = (s \<noteq> [])"
| "nonEmptyString _ = False"

fun stringOf :: "json \<Rightarrow> string" where
  "stringOf (JStr s) = s"
| "stringOf _ = []"

definition stringArray :: "nat \<Rightarrow> nat \<Rightarrow> json option \<Rightarrow> bool" where
  "stringArray lo hi v =
     (case v of
        Some (JArr xs) \<Rightarrow> lo \<le> length xs \<and> length xs \<le> hi \<and> list_all nonEmptyString xs
      | _ \<Rightarrow> False)"

definition fieldNonEmpty :: "json option \<Rightarrow> bool" where
  "fieldNonEmpty v = (case v of Some x \<Rightarrow> nonEmptyString x | None \<Rightarrow> False)"

definition portfolioContract :: "json \<Rightarrow> bool" where
  "portfolioContract j =
     (case j of
        JObj kvs \<Rightarrow>
          fieldNonEmpty (map_of kvs ''strengthSummary'') \<and>
          stringArray 3 12 (map_of kvs ''recommendedSkills'') \<and>
          stringArray 3 12 (map_of kvs ''learningFocusAreas'') \<and>
          stringArray 2 10 (map_of kvs ''suggestedProjects'')
      | _ \<Rightarrow> False)"

definition stageContract :: "json \<Rightarrow> bool" where
  "stageContract x =
     (case x of
        JObj kvs \<Rightarrow>
          fieldNonEmpty (map_of kvs ''stage'') \<and>
          stringArray 1 10 (map_of kvs ''whatToStudy'') \<and>
          stringArray 1 10 (map_of kvs ''skillsToLearn'') \<and>
          stringArray 0 10 (map_of kvs ''certifications'') \<and>
          stringArray 1 10 (map_of kvs ''projects'') \<and>
          stringArray 0 10 (map_of kvs ''internships'')
      | _ \<Rightarrow> False)"

definition roadmapContract :: "json \<Rightarrow> bool" where
  "roadmapContract j =
     (case j of
        JObj kvs \<Rightarrow>
          fieldNonEmpty (map_of kvs ''primaryDomain'') \<and>
          (case map_of kvs ''stages'' of
             Some (JArr xs) \<Rightarrow> 3 \<le> length xs \<and> length xs \<le> 8 \<and> list_all stageContract xs
           | _ \<Rightarrow> False) \<and>
          fieldNonEmpty (map_of kvs ''notes'')
      | _ \<Rightarrow> False)"

text \<open>
  The entries of the \<^verbatim>\<open>answers\<close> object of a request body, and the submissions that the
  specification accepts: 8 to 10 entries, every value a non-empty string.
\<close>

definition answersOf :: "json \<Rightarrow> (string \<times> json) list option" where
  "answersOf reqBody =
     (case reqBody of
        JObj kvs \<Rightarrow> (case map_of kvs ''answers'' of Some (JObj entries) \<Rightarrow> Some entries | _ \<Rightarrow> None)
      | _ \<Rightarrow> None)"

definition psychometricAcceptable :: "json \<Rightarrow> bool" where
  "psychometricAcceptable reqBody =
     (case answersOf reqBody of
        Some entries \<Rightarrow>
          8 \<le> length entries \<and> length entries \<le> 10 \<and> list_all (\<lambda>(k, v). nonEmptyString v) entries
      | None \<Rightarrow> False)"

text \<open>
  What the handler accepts: the parsed record has no entry for the key \<^verbatim>\<open>__proto__\<close>, so
  such an entry of the submitted object is neither counted nor stored, while its value
  must be a non-empty string like the others.
\<close>

definition countedEntries :: "(string \<times> 'a) list \<Rightarrow> (string \<times> 'a) list" where
  "countedEntries entries = filter (\<lambda>(k, v). k \<noteq> ''__proto__'') entries"

definition psychometricAccepted :: "json \<Rightarrow> bool" where
  "psychometricAccepted reqBody =
     (case answersOf reqBody of
        Some entries \<Rightarrow>
          8 \<le> length (countedEntries entries) \<and> length (countedEntries entries) \<le> 10 \<and>
          list_all (\<lambda>(k, v). nonEmptyString v) entries
      | None \<Rightarrow> False)"

text \<open>The provider credential is configured: the key is set and not empty.\<close>

definition providerConfigured :: "Env \<Rightarrow> bool" where
  "providerConfigured env = (case OPENAI_API_KEY env of Some k \<Rightarrow> k \<noteq> [] | None \<Rightarrow> False)"

text \<open>
  The requests of one call of a client with the default of two retries: the request is
  sent, and sent again after a failure that the library retries, at most twice more; the
  call ends with what the last request came to. A generation succeeds when that is
  content which is not empty, parses as JSON and passes the schema; its value is the
  parsed one.
\<close>

fun retried :: "Attempt \<Rightarrow> bool" where
  "retried (Failed retryable err) = retryable"
| "retried (Answered content) = False"

definition requestsSent :: "(nat \<Rightarrow> Attempt) \<Rightarrow> nat" where
  "requestsSent reply = (if retried (reply 0) then (if retried (reply 1) then 3 else 2) else 1)"

definition lastAttempt :: "(nat \<Rightarrow> Attempt) \<Rightarrow> Attempt" where
  "lastAttempt reply = reply (requestsSent reply - 1)"

definition generated :: "Lib \<Rightarrow> (json \<Rightarrow> 'a ZodResult) \<Rightarrow> Attempt \<Rightarrow> 'a option" where
  "generated L schema a =
     (case a of
        Answered (Some c) \<Rightarrow>
          (if c = [] then None
           else case JSON_parse L c of
                  Some j \<Rightarrow> (case safeParse (schema j) of Inr v \<Rightarrow> Some v | Inl iss \<Rightarrow> None)
                | None \<Rightarrow> None)
      | _ \<Rightarrow> None)"

text \<open>
  The prerequisite gates of a generation in the order of the specification, what opens
  each, the error of each, and the first gate that is closed.
\<close>

datatype Gate = ProfileGate | PsychometricGate | AnalysisGate | ProviderGate

definition gateOrder :: "Gate list" where
  "gateOrder = [ProfileGate, PsychometricGate, AnalysisGate, ProviderGate]"

fun gateOpen :: "Env \<Rightarrow> UserDoc \<Rightarrow> Gate \<Rightarrow> bool" where
  "gateOpen env u ProfileGate = (profile u \<noteq> None)"
| "gateOpen env u PsychometricGate = (psychometric u \<noteq> None)"
| "gateOpen env u AnalysisGate = (Option.bind (ai u) analysis \<noteq> None)"
| "gateOpen env u ProviderGate = providerConfigured env"

fun gateError :: "Gate \<Rightarrow> Response" where
  "gateError ProfileGate = respond 400 (ErrorBody ''Profile is missing. Save /user/profile first.'')"
| "gateError PsychometricGate =
     respond 400 (ErrorBody ''Psychometric answers are missing. Save /user/psychometric first.'')"
| "gateError AnalysisGate =
     respond 400 (ErrorBody ''AI analysis is missing. Run POST /ai/analyze first.'')"
| "gateError ProviderGate = respond 500 (ErrorBody ''OpenAI API key not configured'')"

definition firstClosedGate :: "Env \<Rightarrow> UserDoc \<Rightarrow> Gate option" where
  "firstClosedGate env u = find (\<lambda>g. \<not> gateOpen env u g) gateOrder"

text \<open>
  The catalogue queries. The effective domain is the explicit parameter, else the primary
  domain of the analysis. The course names are the explicit course and the course names of
  the analysis; \<open>claimedCourseTags\<close> normalises all of them, as the specification says,
  and \<open>effectiveCourseTags\<close> only the non-empty ones. A role matches when its domain is the
  effective domain (if that is a non-empty string) and one of its course tags is among the
  tags (if there are any). The effective academic level is the explicit parameter, else
  the education level of the profile; the effective course is the explicit parameter, else
  the first course name of the analysis. A scholarship matches when its level is the
  effective level, its category the given one (if one is given), and the normalised
  effective course is among its course tags (if the course is a non-empty string).
\<close>

definition effectiveDomain :: "string option \<Rightarrow> AiAnalyzeResult option \<Rightarrow> string option" where
  "effectiveDomain explicitDomain an =
     (case explicitDomain of Some d \<Rightarrow> Some d | None \<Rightarrow> map_option primaryDomain an)"

definition courseNames :: "string option \<Rightarrow> AiAnalyzeResult option \<Rightarrow> string list" where
  "courseNames explicitCourse an =
     (case explicitCourse of Some c \<Rightarrow> [c] | None \<Rightarrow> []) @
     (case an of Some a \<Rightarrow> map course (recommendedCourses a) | None \<Rightarrow> [])"

definition claimedCourseTags :: "string option \<Rightarrow> AiAnalyzeResult option \<Rightarrow> string list" where
  "claimedCourseTags explicitCourse an = map normalizeTag (courseNames explicitCourse an)"

definition effectiveCourseTags :: "string option \<Rightarrow> AiAnalyzeResult option \<Rightarrow> string list" where
  "effectiveCourseTags explicitCourse an =
     map normalizeTag (filter (\<lambda>c. c \<noteq> []) (courseNames explicitCourse an))"

definition roleMatches :: "string option \<Rightarrow> string list \<Rightarrow> JobRoleDoc \<Rightarrow> bool" where
  "roleMatches dm tags r =
     ((case dm of Some d \<Rightarrow> d = [] \<or> domain r = d | None \<Rightarrow> True) \<and>
      (tags = [] \<or> (case role_courseTags r of Some ts \<Rightarrow> \<exists>t \<in> set ts. t \<in> set tags | None \<Rightarrow> False)))"

definition effectiveAcademicLevel :: "string option \<Rightarrow> UserProfile option \<Rightarrow> string option" where
  "effectiveAcademicLevel explicitLevel prof =
     (case explicitLevel of Some l \<Rightarrow> Some l | None \<Rightarrow> map_option educationLevel prof)"

definition effectiveCourse :: "string option \<Rightarrow> AiAnalyzeResult option \<Rightarrow> string option" where
  "effectiveCourse explicitCourse an =
     (case explicitCourse of
        Some c \<Rightarrow> Some c
      | None \<Rightarrow>
          (case an of
             Some a \<Rightarrow> (case recommendedCourses a of x # _ \<Rightarrow> Some (course x) | [] \<Rightarrow> None)
           | None \<Rightarrow> None))"

definition scholarshipMatches ::
  "string \<Rightarrow> string option \<Rightarrow> string option \<Rightarrow> ScholarshipDoc \<Rightarrow> bool" where
  "scholarshipMatches level cat crs s =
     (academicLevel s = level \<and>
      (case cat of Some c \<Rightarrow> category s = Some c | None \<Rightarrow> True) \<and>
      (case crs of Some c \<Rightarrow> c = [] \<or> normalizeTag c \<in> set (courseTags s) | None \<Rightarrow> True))"

section \<open>Sample data\<close>

text \<open>
  A small database and stand-ins for the library functions, on which the properties
  below are evaluated.
\<close>

definition demoProfile :: UserProfile where
  "demoProfile =
     \<lparr>fullName = ''Asha Rao'', age = 19, educationLevel = ''Undergraduate'', interests = [''coding'']\<rparr>"

definition demoAnswers :: "(string \<times> string) list" where
  "demoAnswers =
     [(''q1'', ''a''), (''q2'', ''b''), (''q3'', ''c''), (''q4'', ''d''),
      (''q5'', ''a''), (''q6'', ''b''), (''q7'', ''c''), (''q8'', ''d'')]"

definition demoTenAnswers :: "(string \<times> string) list" where
  "demoTenAnswers = demoAnswers @ [(''q9'', ''a''), (''q10'', ''b'')]"

definition demoAnalysis :: AiAnalyzeResult where
  "demoAnalysis =
     \<lparr>primaryDomain = ''Engineering'',
      recommendedCourses = [\<lparr>course = ''Mechanical '', reason = ''likes machines''\<rparr>,
                            \<lparr>course = ''Civil'', reason = ''likes bridges''\<rparr>]\<rparr>"

definition demoPortfolio :: AiPortfolio where
  "demoPortfolio =
     \<lparr>strengthSummary = ''Curious and practical.'',
      recommendedSkills = [''CAD'', ''Python'', ''Statics''],
      learningFocusAreas = [''Mechanics'', ''Materials'', ''Design''],
      suggestedProjects = [''Bridge model'', ''Line follower'']\<rparr>"

definition demoStalePortfolio :: AiPortfolio where
  "demoStalePortfolio = demoPortfolio\<lparr>strengthSummary := ''Likes to tinker.''\<rparr>"

definition demoPortfolioJson :: json where
  "demoPortfolioJson = JObj
     [(''strengthSummary'', JStr ''Curious and practical.''),
      (''recommendedSkills'', JArr [JStr ''CAD'', JStr ''Python'', JStr ''Statics'']),
      (''learningFocusAreas'', JArr [JStr ''Mechanics'', JStr ''Materials'', JStr ''Design'']),
      (''suggestedProjects'', JArr [JStr ''Bridge model'', JStr ''Line follower''])]"

definition demoStage :: "string \<Rightarrow> AiRoadmapStage" where
  "demoStage label =
     \<lparr>stage = label, whatToStudy = [''Statics''], skillsToLearn = [''CAD''], certifications = [],
      projects = [''Bridge model''], internships = []\<rparr>"

definition demoStageJson :: "string \<Rightarrow> json" where
  "demoStageJson label = JObj
     [(''stage'', JStr label),
      (''whatToStudy'', JArr [JStr ''Statics'']),
      (''skillsToLearn'', JArr [JStr ''CAD'']),
      (''certifications'', JArr []),
      (''projects'', JArr [JStr ''Bridge model'']),
      (''internships'', JArr [])]"

definition demoRoadmap :: AiRoadmap where
  "demoRoadmap =
     \<lparr>roadmap_primaryDomain = ''Engineering'',
      stages = [demoStage ''0-3 months'', demoStage ''3-6 months'', demoStage ''Year 2''],
      roadmap_notes = ''Adjust as you go.''\<rparr>"

definition demoRoadmapJson :: json where
  "demoRoadmapJson = JObj
     [(''primaryDomain'', JStr ''Engineering''),
      (''stages'', JArr [demoStageJson ''0-3 months'', demoStageJson ''3-6 months'',
                         demoStageJson ''Year 2'']),
      (''notes'', JStr ''Adjust as you go.'')]"

definition demoLib :: Lib where
  "demoLib =
     \<lparr>isEmail = (\<lambda>s. CHR ''@'' \<in> set s),
      bcrypt_hash = (\<lambda>salt password rounds. salt @ ''$'' @ rev password),
      bcrypt_compare = (\<lambda>password h. take (Suc (length password)) (rev h) = password @ ''$''),
      JSON_parse = map_of [(''{portfolio}'', demoPortfolioJson), (''{roadmap}'', demoRoadmapJson),
                           (''{}'', JObj [])]\<rparr>"

definition demoUser :: UserDoc where
  "demoUser =
     \<lparr>user_id = ObjectId ''65a1'', email = ''a@x.com'', createdAt = 1000, updatedAt = 1000,
      profile = Some demoProfile,
      psychometric = Some \<lparr>answers = demoAnswers, submittedAt = 2000\<rparr>,
      ai = Some \<lparr>analysis = Some demoAnalysis,
                 portfolio = Some \<lparr>data = demoStalePortfolio, slot_createdAt = 3000,
                                   slot_model = AI_MODEL\<rparr>,
                 roadmap = None, ai_createdAt = None, ai_model = None\<rparr>,
      passwordHash = ''salt$1terces''\<rparr>"

definition demoDb :: Db where
  "demoDb = \<lparr>users = [demoUser], job_roles = [], scholarships = []\<rparr>"

definition credentials :: "string \<Rightarrow> string \<Rightarrow> json" where
  "credentials e p = JObj [(''email'', JStr e), (''password'', JStr p)]"

definition psychometricBody :: "(string \<times> string) list \<Rightarrow> json" where
  "psychometricBody ans = JObj [(''answers'', JObj (map (\<lambda>(k, s). (k, JStr s)) ans))]"

definition demoElevenBody :: json where
  "demoElevenBody = psychometricBody (demoTenAnswers @ [(''__proto__'', ''x'')])"

definition demoEightBody :: json where
  "demoEightBody = psychometricBody (tl demoAnswers @ [(''__proto__'', ''x'')])"

definition demoProvider :: Provider where
  "demoProvider k request n =
     (if k = ''sk-good''
      then Answered (Some (if temperature request = 3 / 10 then ''{portfolio}'' else ''{roadmap}''))
      else if k = ''sk-empty'' then Answered None
      else if k = ''sk-text'' then Answered (Some ''not json'')
      else if k = ''sk-short'' then Answered (Some ''{}'')
      else if k = ''sk-flaky''
      then (if n < 2 then Failed True (Some ''overloaded'') else Answered (Some ''{roadmap}''))
      else if k = ''sk-denied'' then Failed False (Some ''invalid key'')
      else Failed True (Some ''timeout''))"

definition demoRoles :: "JobRoleDoc list" where
  "demoRoles =
     [\<lparr>role_id = ObjectId ''a1'', title = ''Design engineer'', domain = ''Engineering'',
       salaryRangeInr = (400000, 900000), requiredSkills = [''CAD''], demandLevel = High,
       role_courseTags = Some [''mechanical'']\<rparr>,
      \<lparr>role_id = ObjectId ''a2'', title = ''Site supervisor'', domain = ''Engineering'',
       salaryRangeInr = (300000, 600000), requiredSkills = [''Surveying''], demandLevel = Medium,
       role_courseTags = None\<rparr>,
      \<lparr>role_id = ObjectId ''a3'', title = ''Urban planner'', domain = ''Design'',
       salaryRangeInr = (350000, 700000), requiredSkills = [''Drawing''], demandLevel = Low,
       role_courseTags = Some [''civil'']\<rparr>]"

definition demoScholarships :: "ScholarshipDoc list" where
  "demoScholarships =
     [\<lparr>scholarship_id = ObjectId ''b1'', name = ''Merit grant'', url = ''https://example.org/b1'',
       courseTags = [''mechanical''], category = Some ''Merit'', academicLevel = ''Undergraduate'',
       deadline = None, amountInr = None, eligibility = None\<rparr>,
      \<lparr>scholarship_id = ObjectId ''b2'', name = ''Arts award'', url = ''https://example.org/b2'',
       courseTags = [''arts''], category = None, academicLevel = ''Undergraduate'',
       deadline = None, amountInr = None, eligibility = None\<rparr>,
      \<lparr>scholarship_id = ObjectId ''b3'', name = ''Research grant'', url = ''https://example.org/b3'',
       courseTags = [''mechanical''], category = Some ''Merit'', academicLevel = ''Postgraduate'',
       deadline = None, amountInr = None, eligibility = None\<rparr>]"

definition demoCatalogDb :: "AiAnalyzeResult \<Rightarrow> Db" where
  "demoCatalogDb an =
     \<lparr>users = [demoUser\<lparr>ai := Some \<lparr>analysis = Some an, portfolio = None, roadmap = None,
                                     ai_createdAt = None, ai_model = None\<rparr>\<rparr>],
      job_roles = demoRoles, scholarships = demoScholarships\<rparr>"

definition demoBlankCourse :: AiAnalyzeResult where
  "demoBlankCourse =
     \<lparr>primaryDomain = ''Engineering'', recommendedCourses = [\<lparr>course = [], reason = ''none''\<rparr>]\<rparr>"

definition demoBlankDomain :: AiAnalyzeResult where
  "demoBlankDomain =
     \<lparr>primaryDomain = [], recommendedCourses = [\<lparr>course = ''Civil'', reason = ''likes bridges''\<rparr>]\<rparr>"

section \<open>Facts about the driver and the validation library\<close>

lemma findOneById_Some_id: "findOneById us oid = Some u \<Longrightarrow> user_id u = oid"
  by (induction us) (auto simp: findOneById_def split: if_splits)

lemma findOneById_Some_mem: "findOneById us oid = Some u \<Longrightarrow> u \<in> set us"
  by (induction us) (auto simp: findOneById_def split: if_splits)

lemma updateOne_matched_zero: "(snd (updateOne oid upd us) = 0) = (findOneById us oid = None)"
  by (induction us) (auto simp: findOneById_def)

lemma updateOne_matched: "snd (updateOne oid upd us) = (if findOneById us oid = None then 0 else 1)"
  by (induction us) (auto simp: findOneById_def)

lemma updateOne_none: "findOneById us oid = None \<Longrightarrow> fst (updateOne oid upd us) = us"
  by (induction us) (auto simp: findOneById_def split: if_splits)

lemma updateOne_find_same:
  "findOneById us oid = Some u \<Longrightarrow> user_id (upd u) = user_id u \<Longrightarrow>
   findOneById (fst (updateOne oid upd us)) oid = Some (upd u)"
  by (induction us) (auto simp: findOneById_def split: if_splits)

lemma updateOne_find_other:
  "oid' \<noteq> oid \<Longrightarrow> (\<And>u. user_id (upd u) = user_id u) \<Longrightarrow>
   findOneById (fst (updateOne oid upd us)) oid' = findOneById us oid'"
  by (induction us) (auto simp: findOneById_def split: if_splits)

lemma updateOne_emails:
  "(\<And>u. email (upd u) = email u) \<Longrightarrow> map email (fst (updateOne oid upd us)) = map email us"
  by (induction us) auto

lemma updateOne_length: "length (fst (updateOne oid upd us)) = length us"
  by (induction us) auto

lemma safeParse_Inr: "(safeParse r = Inr v) = (r = ([], Some v))"
  by (auto simp: safeParse_def split: prod.splits list.splits option.splits)

lemma safeParse_Inl: "(safeParse r = Inl iss) = (fst r = iss \<and> (iss \<noteq> [] \<or> snd r = None))"
  by (auto simp: safeParse_def split: prod.splits list.splits option.splits)

lemma z_string_min_valid:
  "(z_string_min n path v = ([], Some s)) = (v = Some (JStr s) \<and> n \<le> length s)"
  by (auto simp: z_string_min_def split: option.splits json.splits)

lemma z_string_min_sound: "snd (z_string_min n path v) = None \<Longrightarrow> fst (z_string_min n path v) \<noteq> []"
  by (auto simp: z_string_min_def split: option.splits json.splits)

lemma z_field_valid:
  "(z_field a b = ([], Some (x, y))) = (a = ([], Some x) \<and> b = ([], Some y))"
  by (cases a; cases b) (auto simp: z_field_def split: option.splits)

lemma z_map_valid:
  "(z_map f a = ([], Some y)) = (\<exists>x. a = ([], Some x) \<and> f x = y)"
  by (cases a) (auto simp: z_map_def)

lemma those_eq_Some: "(those xs = Some ys) = (xs = map Some ys)"
proof (induction xs arbitrary: ys)
  case Nil then show ?case by auto
next
  case (Cons x xs) then show ?case by (cases x; cases ys) (auto split: option.splits)
qed

lemma those_None: "those xs = None \<Longrightarrow> None \<in> set xs"
  by (induction xs) (auto split: option.splits)

lemma nonEmptyString_iff: "nonEmptyString x = (\<exists>s. x = JStr s \<and> s \<noteq> [])"
  by (cases x) auto

lemma map_elem_valid:
  "(map (\<lambda>(i, x). z_string_min (Suc 0) (path @ [Index i]) (Some x)) (enumerate k xs) = map (\<lambda>s. ([], Some s)) ys)
   = (xs = map JStr ys \<and> (\<forall>s \<in> set ys. s \<noteq> []))"
proof (induction xs arbitrary: ys k)
  case Nil then show ?case by auto
next
  case (Cons x xs)
  show ?case
  proof (cases ys)
    case Nil then show ?thesis by auto
  next
    case (Cons y ys')
    then show ?thesis using Cons.IH[of "Suc k" ys']
      by (auto simp: z_string_min_valid Suc_le_eq)
  qed
qed

lemma z_array_valid_gen:
  "(z_array elem lo hi path v = ([], Some ys)) =
   (\<exists>xs. v = Some (JArr xs) \<and> (case lo of Some m \<Rightarrow> m \<le> length xs | None \<Rightarrow> True) \<and>
      (case hi of Some m \<Rightarrow> length xs \<le> m | None \<Rightarrow> True) \<and>
      map (\<lambda>(i, x). elem (path @ [Index i]) (Some x)) (enumerate 0 xs) = map (\<lambda>y. ([], Some y)) ys)"
  (is "?L = ?R")
proof
  assume L: ?L
  then obtain xs where v: "v = Some (JArr xs)"
    by (auto simp: z_array_def split: option.splits json.splits)
  let ?rs = "map (\<lambda>(i, x). elem (path @ [Index i]) (Some x)) (enumerate 0 xs)"
  from L v have th: "those (map snd ?rs) = Some ys" and iss: "concat (map fst ?rs) = []"
    and lo: "(case lo of Some m \<Rightarrow> m \<le> length xs | None \<Rightarrow> True)"
    and hi: "(case hi of Some m \<Rightarrow> length xs \<le> m | None \<Rightarrow> True)"
    by (auto simp: z_array_def Let_def split: option.splits if_splits)
  from th have s: "map snd ?rs = map Some ys" by (simp add: those_eq_Some)
  from iss have f: "\<forall>r \<in> set ?rs. fst r = []" by auto
  have "?rs = map (\<lambda>y. ([], Some y)) ys"
  proof (rule nth_equalityI)
    show "length ?rs = length (map (\<lambda>y. ([], Some y)) ys)"
      using arg_cong[OF s, of length] by simp
  next
    fix i assume i: "i < length ?rs"
    then have "fst (?rs ! i) = []" using f nth_mem by blast
    moreover have "snd (?rs ! i) = Some (ys ! i)"
      using arg_cong[OF s, of "\<lambda>l. l ! i"] i arg_cong[OF s, of length] by simp
    ultimately show "?rs ! i = map (\<lambda>y. ([], Some y)) ys ! i"
      using i arg_cong[OF s, of length] by (simp add: prod_eq_iff)
  qed
  with v lo hi show ?R by auto
next
  assume ?R
  then obtain xs where v: "v = Some (JArr xs)"
    and lo: "(case lo of Some m \<Rightarrow> m \<le> length xs | None \<Rightarrow> True)"
    and hi: "(case hi of Some m \<Rightarrow> length xs \<le> m | None \<Rightarrow> True)"
    and rs: "map (\<lambda>(i, x). elem (path @ [Index i]) (Some x)) (enumerate 0 xs) = map (\<lambda>y. ([], Some y)) ys"
    by auto
  have c: "concat (map fst (map (\<lambda>y. ([], Some y)) ys)) = ([] :: ZodIssue list)"
    by (induction ys) auto
  have t: "those (map snd (map (\<lambda>y. ([] :: ZodIssue list, Some y)) ys)) = Some ys"
    by (simp add: those_eq_Some comp_def)
  show ?L using v lo hi c t
    by (auto simp: z_array_def Let_def rs split: option.splits)
qed

lemma z_string_array_valid:
  "(z_array (z_string_min (Suc 0)) (Some lo) (Some hi) path v = ([], Some ys)) =
   (stringArray lo hi v \<and> v = Some (JArr (map JStr ys)))"
  by (auto simp: z_array_valid_gen map_elem_valid stringArray_def list_all_iff
           split: option.splits json.splits)

lemma z_string_nonempty_ex:
  "(\<exists>s. z_string_min (Suc 0) path v = ([], Some s)) = fieldNonEmpty v"
  by (auto simp: z_string_min_valid fieldNonEmpty_def nonEmptyString_iff Suc_le_eq split: option.splits)

lemma stringArray_strings:
  "stringArray lo hi v \<Longrightarrow> \<exists>ys. v = Some (JArr (map JStr ys))"
proof -
  assume a: "stringArray lo hi v"
  then obtain xs where v: "v = Some (JArr xs)" and all: "list_all nonEmptyString xs"
    by (auto simp: stringArray_def split: option.splits json.splits)
  have "xs = map JStr (map stringOf xs)" using all
    by (induction xs) (auto simp: nonEmptyString_iff)
  with v show ?thesis by blast
qed

lemma z_string_array_ex:
  "(\<exists>ys. z_array (z_string_min (Suc 0)) (Some lo) (Some hi) path v = ([], Some ys)) = stringArray lo hi v"
  using stringArray_strings by (auto simp: z_string_array_valid)

lemma z_string_array_nolo_valid:
  "(z_array (z_string_min (Suc 0)) None (Some hi) path v = ([], Some ys)) =
   (stringArray 0 hi v \<and> v = Some (JArr (map JStr ys)))"
  by (auto simp: z_array_valid_gen map_elem_valid stringArray_def list_all_iff
           split: option.splits json.splits)

lemma z_string_array_nolo_ex:
  "(\<exists>ys. z_array (z_string_min (Suc 0)) None (Some hi) path v = ([], Some ys)) = stringArray 0 hi v"
  using stringArray_strings by (auto simp: z_string_array_nolo_valid)

lemma z_object_valid:
  "(z_object path v flds = ([], Some y)) = (\<exists>kvs. v = Some (JObj kvs) \<and> flds (map_of kvs) = ([], Some y))"
  by (auto simp: z_object_def split: option.splits json.splits)

lemma aiPortfolioSchema_valid:
  "(aiPortfolioSchema j = ([], Some p)) =
   (\<exists>kvs. j = JObj kvs \<and>
      z_string_min (Suc 0) [Key ''strengthSummary''] (map_of kvs ''strengthSummary'') = ([], Some (strengthSummary p)) \<and>
      z_array (z_string_min (Suc 0)) (Some 3) (Some 12) [Key ''recommendedSkills''] (map_of kvs ''recommendedSkills'') = ([], Some (recommendedSkills p)) \<and>
      z_array (z_string_min (Suc 0)) (Some 3) (Some 12) [Key ''learningFocusAreas''] (map_of kvs ''learningFocusAreas'') = ([], Some (learningFocusAreas p)) \<and>
      z_array (z_string_min (Suc 0)) (Some 2) (Some 10) [Key ''suggestedProjects''] (map_of kvs ''suggestedProjects'') = ([], Some (suggestedProjects p)))"
  unfolding aiPortfolioSchema_def z_object_valid z_map_valid
  by (cases p) (auto simp: z_field_valid)

lemma aiPortfolioSchema_accepts: "(\<exists>p. safeParse (aiPortfolioSchema j) = Inr p) = portfolioContract j"
proof
  assume "\<exists>p. safeParse (aiPortfolioSchema j) = Inr p"
  then obtain p where "aiPortfolioSchema j = ([], Some p)" by (auto simp: safeParse_Inr)
  then show "portfolioContract j"
    unfolding aiPortfolioSchema_valid portfolioContract_def
    using z_string_nonempty_ex z_string_array_ex by fastforce
next
  assume c: "portfolioContract j"
  then obtain kvs where j: "j = JObj kvs" by (auto simp: portfolioContract_def split: json.splits)
  from c j have c1: "fieldNonEmpty (map_of kvs ''strengthSummary'')"
    and c2: "stringArray 3 12 (map_of kvs ''recommendedSkills'')"
    and c3: "stringArray 3 12 (map_of kvs ''learningFocusAreas'')"
    and c4: "stringArray 2 10 (map_of kvs ''suggestedProjects'')"
    by (simp_all add: portfolioContract_def)
  from c1 obtain s where
    "z_string_min (Suc 0) [Key ''strengthSummary''] (map_of kvs ''strengthSummary'') = ([], Some s)"
    using z_string_nonempty_ex by blast
  moreover from c2 obtain r where
    "z_array (z_string_min (Suc 0)) (Some 3) (Some 12) [Key ''recommendedSkills''] (map_of kvs ''recommendedSkills'') = ([], Some r)"
    using z_string_array_ex by blast
  moreover from c3 obtain l where
    "z_array (z_string_min (Suc 0)) (Some 3) (Some 12) [Key ''learningFocusAreas''] (map_of kvs ''learningFocusAreas'') = ([], Some l)"
    using z_string_array_ex by blast
  moreover from c4 obtain pr where
    "z_array (z_string_min (Suc 0)) (Some 2) (Some 10) [Key ''suggestedProjects''] (map_of kvs ''suggestedProjects'') = ([], Some pr)"
    using z_string_array_ex by blast
  ultimately have "aiPortfolioSchema j =
      ([], Some \<lparr>strengthSummary = s, recommendedSkills = r, learningFocusAreas = l, suggestedProjects = pr\<rparr>)"
    unfolding aiPortfolioSchema_valid using j by simp
  then show "\<exists>p. safeParse (aiPortfolioSchema j) = Inr p" by (auto simp: safeParse_Inr)
qed

lemma z_string_email_valid:
  "(z_string_email ok path v = ([], Some s)) = (v = Some (JStr s) \<and> ok s)"
  by (cases v; cases "the v") (auto simp: z_string_email_def)

lemma signupSchema_valid:
  "(safeParse (signupSchema ok reqBody) = Inr (e, p)) =
   (\<exists>kvs. reqBody = JObj kvs \<and> map_of kvs ''email'' = Some (JStr e) \<and> ok e \<and>
          map_of kvs ''password'' = Some (JStr p) \<and> 6 \<le> length p)"
  unfolding safeParse_Inr signupSchema_def z_object_valid
  by (auto simp: z_field_valid z_string_min_valid z_string_email_valid)

lemma loginSchema_valid:
  "(safeParse (loginSchema ok reqBody) = Inr (e, p)) =
   (\<exists>kvs. reqBody = JObj kvs \<and> map_of kvs ''email'' = Some (JStr e) \<and> ok e \<and>
          map_of kvs ''password'' = Some (JStr p) \<and> 6 \<le> length p)"
  unfolding safeParse_Inr loginSchema_def z_object_valid
  by (auto simp: z_field_valid z_string_min_valid z_string_email_valid)

lemma map_record_valid:
  "(map (\<lambda>(k, x). z_string_min (Suc 0) (path @ [Key k]) (Some x)) kvs = map (\<lambda>s. ([], Some s)) ss)
   = (map snd kvs = map JStr ss \<and> (\<forall>s \<in> set ss. s \<noteq> []))"
proof (induction kvs arbitrary: ss)
  case Nil then show ?case by auto
next
  case (Cons kv kvs)
  show ?case
  proof (cases ss)
    case Nil then show ?thesis by auto
  next
    case (Cons y ys')
    then show ?thesis using Cons.IH[of ys']
      by (cases kv) (auto simp: z_string_min_valid Suc_le_eq)
  qed
qed

lemma valid_results_eq:
  assumes "those (map snd rs) = Some ys" and "concat (map fst rs) = ([] :: ZodIssue list)"
  shows "rs = map (\<lambda>y. ([], Some y)) ys"
proof (rule nth_equalityI)
  from assms(1) have s: "map snd rs = map Some ys" by (simp add: those_eq_Some)
  show len: "length rs = length (map (\<lambda>y. ([] :: ZodIssue list, Some y)) ys)"
    using arg_cong[OF s, of length] by simp
  fix i assume i: "i < length rs"
  from assms(2) have "\<forall>r \<in> set rs. fst r = []" by auto
  then have "fst (rs ! i) = []" using i nth_mem by blast
  moreover have "snd (rs ! i) = Some (ys ! i)"
    using arg_cong[OF s, of "\<lambda>l. l ! i"] i len by simp
  ultimately show "rs ! i = map (\<lambda>y. ([], Some y)) ys ! i"
    using i len by (simp add: prod_eq_iff)
qed

lemma valid_results_those:
  "those (map snd (map (\<lambda>y. ([] :: ZodIssue list, Some y)) ys)) = Some ys \<and>
   concat (map fst (map (\<lambda>y. ([] :: ZodIssue list, Some y)) ys)) = []"
  by (induction ys) (auto simp: those_eq_Some comp_def)

lemma z_record_valid:
  "(z_record (z_string_min (Suc 0)) path v = ([], Some ans)) =
   (\<exists>kvs ss. v = Some (JObj kvs) \<and> map snd kvs = map JStr ss \<and> (\<forall>s \<in> set ss. s \<noteq> []) \<and>
      ans = filter (\<lambda>(k, y). k \<noteq> ''__proto__'') (zip (map fst kvs) ss))"
  (is "?L = ?R")
proof
  assume L: ?L
  then obtain kvs where v: "v = Some (JObj kvs)"
    by (auto simp: z_record_def split: option.splits json.splits)
  let ?rs = "map (\<lambda>(k, x). z_string_min (Suc 0) (path @ [Key k]) (Some x)) kvs"
  from L v obtain ss where th: "those (map snd ?rs) = Some ss" and iss: "concat (map fst ?rs) = []"
    and ans: "ans = filter (\<lambda>(k, y). k \<noteq> ''__proto__'') (zip (map fst kvs) ss)"
    by (auto simp: z_record_def Let_def split: option.splits if_splits)
  from valid_results_eq[OF th iss] have "map snd kvs = map JStr ss \<and> (\<forall>s \<in> set ss. s \<noteq> [])"
    by (simp add: map_record_valid)
  with v ans show ?R by blast
next
  assume ?R
  then obtain kvs ss where v: "v = Some (JObj kvs)" and m: "map snd kvs = map JStr ss"
    and ne: "\<forall>s \<in> set ss. s \<noteq> []"
    and ans: "ans = filter (\<lambda>(k, y). k \<noteq> ''__proto__'') (zip (map fst kvs) ss)"
    by blast
  have r: "map (\<lambda>(k, x). z_string_min (Suc 0) (path @ [Key k]) (Some x)) kvs = map (\<lambda>s. ([], Some s)) ss"
    using m ne by (simp add: map_record_valid)
  have t: "those (map snd (map (\<lambda>y. ([] :: ZodIssue list, Some y)) ss)) = Some ss"
    and c: "concat (map fst (map (\<lambda>y. ([] :: ZodIssue list, Some y)) ss)) = []"
    using valid_results_those[of ss] by blast+
  show ?L
    unfolding z_record_def v ans
    by (simp only: option.case json.case Let_def r t c option.map)
qed

lemma record_entries:
  "map snd kvs = map JStr ss \<Longrightarrow> \<forall>s \<in> set ss. s \<noteq> [] \<Longrightarrow>
   list_all (\<lambda>(k, v). nonEmptyString v) kvs \<and>
   zip (map fst kvs) ss = map (\<lambda>(k, v). (k, stringOf v)) kvs"
proof (induction kvs arbitrary: ss)
  case Nil then show ?case by simp
next
  case (Cons kv kvs)
  then obtain s ss' where ss: "ss = s # ss'" by (cases ss) auto
  with Cons.prems have "snd kv = JStr s" "s \<noteq> []" "map snd kvs = map JStr ss'"
    "\<forall>s \<in> set ss'. s \<noteq> []" by auto
  with Cons.IH[of ss'] ss show ?case by (cases kv) simp
qed

lemma entries_record:
  "list_all (\<lambda>(k, v). nonEmptyString v) kvs \<Longrightarrow>
   map snd kvs = map JStr (map (\<lambda>(k, v). stringOf v) kvs) \<and>
   (\<forall>s \<in> set (map (\<lambda>(k, v). stringOf v) kvs). s \<noteq> []) \<and>
   zip (map fst kvs) (map (\<lambda>(k, v). stringOf v) kvs) = map (\<lambda>(k, v). (k, stringOf v)) kvs"
  by (induction kvs) (auto simp: nonEmptyString_iff)

lemma counted_strings:
  "filter (\<lambda>(k, y). k \<noteq> ''__proto__'') (map (\<lambda>(k, v). (k, stringOf v)) kvs) =
   map (\<lambda>(k, v). (k, stringOf v)) (countedEntries kvs)"
  by (induction kvs) (auto simp: countedEntries_def)

lemma counted_values:
  "list_all (\<lambda>(k, v). nonEmptyString v) kvs \<Longrightarrow>
   map (\<lambda>(k, s). (k, JStr s)) (map (\<lambda>(k, v). (k, stringOf v)) (countedEntries kvs)) =
   countedEntries kvs"
  by (induction kvs) (auto simp: countedEntries_def nonEmptyString_iff)

lemma psychometricSchema_valid:
  "(safeParse (psychometricSchema reqBody) = Inr ans) =
   (\<exists>entries. answersOf reqBody = Some entries \<and> list_all (\<lambda>(k, v). nonEmptyString v) entries \<and>
      ans = map (\<lambda>(k, v). (k, stringOf v)) (countedEntries entries) \<and>
      8 \<le> length (countedEntries entries) \<and> length (countedEntries entries) \<le> 10)"
proof -
  let ?inner = "z_object [] (Some reqBody) (\<lambda>get. z_record (z_string_min (Suc 0)) [Key ''answers''] (get ''answers''))"
  have inner: "(?inner = ([], Some a)) =
      (\<exists>entries. answersOf reqBody = Some entries \<and> list_all (\<lambda>(k, v). nonEmptyString v) entries \<and>
         a = map (\<lambda>(k, v). (k, stringOf v)) (countedEntries entries))" (is "?A = ?B") for a
  proof
    assume ?A
    then obtain kvs entries ss where b: "reqBody = JObj kvs"
      and e: "map_of kvs ''answers'' = Some (JObj entries)"
      and m: "map snd entries = map JStr ss" and ne: "\<forall>s \<in> set ss. s \<noteq> []"
      and a: "a = filter (\<lambda>(k, y). k \<noteq> ''__proto__'') (zip (map fst entries) ss)"
      unfolding z_object_valid z_record_valid by blast
    from record_entries[OF m ne] a
    have "list_all (\<lambda>(k, v). nonEmptyString v) entries"
      and "a = map (\<lambda>(k, v). (k, stringOf v)) (countedEntries entries)"
      by (simp_all add: counted_strings)
    moreover have "answersOf reqBody = Some entries" using b e by (simp add: answersOf_def)
    ultimately show ?B by blast
  next
    assume ?B
    then obtain entries where ao: "answersOf reqBody = Some entries"
      and all: "list_all (\<lambda>(k, v). nonEmptyString v) entries"
      and a: "a = map (\<lambda>(k, v). (k, stringOf v)) (countedEntries entries)" by blast
    from ao obtain kvs where b: "reqBody = JObj kvs"
      and e: "map_of kvs ''answers'' = Some (JObj entries)"
      by (auto simp: answersOf_def split: json.splits option.splits)
    from entries_record[OF all] a
    have "map snd entries = map JStr (map (\<lambda>(k, v). stringOf v) entries)"
      and "\<forall>s \<in> set (map (\<lambda>(k, v). stringOf v) entries). s \<noteq> []"
      and "a = filter (\<lambda>(k, y). k \<noteq> ''__proto__'')
                 (zip (map fst entries) (map (\<lambda>(k, v). stringOf v) entries))"
      by (simp_all add: counted_strings)
    with b e show ?A unfolding z_object_valid z_record_valid by blast
  qed
  have "(psychometricSchema reqBody = ([], Some ans)) =
        (?inner = ([], Some ans) \<and> 8 \<le> length ans \<and> length ans \<le> 10)"
    by (cases ?inner) (auto simp: psychometricSchema_def Let_def split: option.splits)
  then have "(safeParse (psychometricSchema reqBody) = Inr ans) =
        ((\<exists>entries. answersOf reqBody = Some entries \<and>
            list_all (\<lambda>(k, v). nonEmptyString v) entries \<and>
            ans = map (\<lambda>(k, v). (k, stringOf v)) (countedEntries entries)) \<and>
         8 \<le> length ans \<and> length ans \<le> 10)"
    unfolding safeParse_Inr inner .
  also have "\<dots> =
        (\<exists>entries. answersOf reqBody = Some entries \<and>
            list_all (\<lambda>(k, v). nonEmptyString v) entries \<and>
            ans = map (\<lambda>(k, v). (k, stringOf v)) (countedEntries entries) \<and>
            8 \<le> length (countedEntries entries) \<and> length (countedEntries entries) \<le> 10)"
  proof (rule iffI)
    assume "(\<exists>entries. answersOf reqBody = Some entries \<and>
            list_all (\<lambda>(k, v). nonEmptyString v) entries \<and>
            ans = map (\<lambda>(k, v). (k, stringOf v)) (countedEntries entries)) \<and>
         8 \<le> length ans \<and> length ans \<le> 10"
    then obtain entries where e: "answersOf reqBody = Some entries"
        "list_all (\<lambda>(k, v). nonEmptyString v) entries"
        "ans = map (\<lambda>(k, v). (k, stringOf v)) (countedEntries entries)"
      and n: "8 \<le> length ans" "length ans \<le> 10" by blast
    from n e(3) have "8 \<le> length (countedEntries entries)" "length (countedEntries entries) \<le> 10"
      by simp_all
    with e show "\<exists>entries. answersOf reqBody = Some entries \<and>
            list_all (\<lambda>(k, v). nonEmptyString v) entries \<and>
            ans = map (\<lambda>(k, v). (k, stringOf v)) (countedEntries entries) \<and>
            8 \<le> length (countedEntries entries) \<and> length (countedEntries entries) \<le> 10"
      by blast
  next
    assume "\<exists>entries. answersOf reqBody = Some entries \<and>
            list_all (\<lambda>(k, v). nonEmptyString v) entries \<and>
            ans = map (\<lambda>(k, v). (k, stringOf v)) (countedEntries entries) \<and>
            8 \<le> length (countedEntries entries) \<and> length (countedEntries entries) \<le> 10"
    then obtain entries where e: "answersOf reqBody = Some entries"
        "list_all (\<lambda>(k, v). nonEmptyString v) entries"
        "ans = map (\<lambda>(k, v). (k, stringOf v)) (countedEntries entries)"
      and n: "8 \<le> length (countedEntries entries)" "length (countedEntries entries) \<le> 10"
      by blast
    from n e(3) have "8 \<le> length ans" "length ans \<le> 10" by simp_all
    with e show "(\<exists>entries. answersOf reqBody = Some entries \<and>
            list_all (\<lambda>(k, v). nonEmptyString v) entries \<and>
            ans = map (\<lambda>(k, v). (k, stringOf v)) (countedEntries entries)) \<and>
         8 \<le> length ans \<and> length ans \<le> 10"
      by blast
  qed
  finally show ?thesis .
qed

lemma psychometricSchema_accepts:
  "(\<exists>ans. safeParse (psychometricSchema reqBody) = Inr ans) = psychometricAccepted reqBody"
  unfolding psychometricSchema_valid psychometricAccepted_def
  by (auto split: option.splits)

lemma psychometric_accepted:
  assumes u: "findOneById (users db) userId = Some u"
    and p: "safeParse (psychometricSchema reqBody) = Inr ans"
  shows "user_psychometric now db userId reqBody =
           (respond 200 OkTrue,
            db\<lparr>users := fst (updateOne userId
                  (\<lambda>d. d\<lparr>psychometric := Some \<lparr>answers = ans, submittedAt = now\<rparr>, updatedAt := now\<rparr>)
                  (users db))\<rparr>)"
    and "findOneById (users (snd (user_psychometric now db userId reqBody))) userId =
           Some (u\<lparr>psychometric := Some \<lparr>answers = ans, submittedAt = now\<rparr>, updatedAt := now\<rparr>)"
proof -
  have m: "\<And>upd. snd (updateOne userId upd (users db)) = 1"
    using u by (simp add: updateOne_matched)
  show 1: "user_psychometric now db userId reqBody =
           (respond 200 OkTrue,
            db\<lparr>users := fst (updateOne userId
                  (\<lambda>d. d\<lparr>psychometric := Some \<lparr>answers = ans, submittedAt = now\<rparr>, updatedAt := now\<rparr>)
                  (users db))\<rparr>)"
    using p m by (simp add: user_psychometric_def Let_def)
  show "findOneById (users (snd (user_psychometric now db userId reqBody))) userId =
           Some (u\<lparr>psychometric := Some \<lparr>answers = ans, submittedAt = now\<rparr>, updatedAt := now\<rparr>)"
    unfolding 1
    using updateOne_find_same[OF u, of
        "\<lambda>d. d\<lparr>psychometric := Some \<lparr>answers = ans, submittedAt = now\<rparr>, updatedAt := now\<rparr>"]
    by simp
qed

lemma psychometric_rejected:
  assumes "safeParse (psychometricSchema reqBody) = Inl iss"
  shows "user_psychometric now db userId reqBody = (respond 400 (ErrorDetails ''Invalid input'' iss), db)"
  using assms by (simp add: user_psychometric_def)

lemma accepted_entries:
  assumes "psychometricAccepted reqBody"
  obtains entries where "answersOf reqBody = Some entries"
    and "safeParse (psychometricSchema reqBody) =
           Inr (map (\<lambda>(k, v). (k, stringOf v)) (countedEntries entries))"
    and "map (\<lambda>(k, s). (k, JStr s)) (map (\<lambda>(k, v). (k, stringOf v)) (countedEntries entries)) =
           countedEntries entries"
proof -
  from assms obtain entries where a: "answersOf reqBody = Some entries"
    and n: "8 \<le> length (countedEntries entries)" "length (countedEntries entries) \<le> 10"
    and all: "list_all (\<lambda>(k, v). nonEmptyString v) entries"
    by (auto simp: psychometricAccepted_def split: option.splits)
  have "safeParse (psychometricSchema reqBody) =
          Inr (map (\<lambda>(k, v). (k, stringOf v)) (countedEntries entries))"
    unfolding psychometricSchema_valid using a n all by blast
  with a counted_values[OF all] that show thesis by blast
qed

lemma counted_without_proto:
  "''__proto__'' \<notin> set (map fst entries) \<Longrightarrow> countedEntries entries = entries"
  by (induction entries) (auto simp: countedEntries_def)

lemma z_array_sound:
  assumes "\<And>p x. snd (elem p x) = None \<Longrightarrow> fst (elem p x) \<noteq> []"
    and "snd (z_array elem lo hi path v) = None"
  shows "fst (z_array elem lo hi path v) \<noteq> []"
proof (cases "\<exists>xs. v = Some (JArr xs)")
  case False
  then show ?thesis by (auto simp: z_array_def split: option.splits json.splits)
next
  case True
  then obtain xs where v: "v = Some (JArr xs)" by blast
  define rs where "rs = map (\<lambda>(i, x). elem (path @ [Index i]) (Some x)) (enumerate 0 xs)"
  have all: "\<forall>r \<in> set rs. snd r = None \<longrightarrow> fst r \<noteq> []"
    using assms(1) by (auto simp: rs_def)
  from assms(2) v have "those (map snd rs) = None" by (simp add: z_array_def Let_def rs_def)
  then have "None \<in> set (map snd rs)" by (rule those_None)
  then obtain r where r: "r \<in> set rs" "snd r = None" by force
  with all have "fst r \<noteq> []" by blast
  with r(1) have "concat (map fst rs) \<noteq> []" by auto
  then show ?thesis using v by (simp add: z_array_def Let_def rs_def)
qed

lemma z_field_sound:
  assumes "snd a = None \<Longrightarrow> fst a \<noteq> []" and "snd b = None \<Longrightarrow> fst b \<noteq> []"
    and "snd (z_field a b) = None"
  shows "fst (z_field a b) \<noteq> []"
  using assms by (auto simp: z_field_def split: option.splits)

lemma z_map_sound:
  assumes "snd a = None \<Longrightarrow> fst a \<noteq> []" and "snd (z_map f a) = None"
  shows "fst (z_map f a) \<noteq> []"
  using assms by (auto simp: z_map_def)

lemma z_object_sound:
  assumes "\<And>get. snd (flds get) = None \<Longrightarrow> fst (flds get) \<noteq> []"
    and "snd (z_object path v flds) = None"
  shows "fst (z_object path v flds) \<noteq> []"
  using assms by (auto simp: z_object_def split: option.splits json.splits)

lemma z_string_array_sound:
  "snd (z_array (z_string_min n) lo hi path v) = None \<Longrightarrow>
   fst (z_array (z_string_min n) lo hi path v) \<noteq> []"
  by (rule z_array_sound) (auto dest: z_string_min_sound)

lemma aiPortfolioSchema_sound:
  "snd (aiPortfolioSchema j) = None \<Longrightarrow> fst (aiPortfolioSchema j) \<noteq> []"
  unfolding aiPortfolioSchema_def
  by (intro z_object_sound z_map_sound z_field_sound z_string_array_sound z_string_min_sound)

lemma aiRoadmapStageSchema_sound:
  "snd (aiRoadmapStageSchema path v) = None \<Longrightarrow> fst (aiRoadmapStageSchema path v) \<noteq> []"
  unfolding aiRoadmapStageSchema_def
  by (intro z_object_sound z_map_sound z_field_sound z_string_array_sound z_string_min_sound)

lemma aiRoadmapSchema_sound:
  "snd (aiRoadmapSchema j) = None \<Longrightarrow> fst (aiRoadmapSchema j) \<noteq> []"
  unfolding aiRoadmapSchema_def
  by (intro z_object_sound z_map_sound z_field_sound z_array_sound aiRoadmapStageSchema_sound
        z_string_min_sound)

lemma safeParse_issues:
  "(snd r = None \<Longrightarrow> fst r \<noteq> []) \<Longrightarrow> safeParse r = Inl iss \<Longrightarrow> iss \<noteq> []"
  by (auto simp: safeParse_Inl)

lemma aiRoadmapStageSchema_valid:
  "(aiRoadmapStageSchema path v = ([], Some st)) =
   (\<exists>kvs. v = Some (JObj kvs) \<and>
      z_string_min (Suc 0) (path @ [Key ''stage'']) (map_of kvs ''stage'') = ([], Some (stage st)) \<and>
      z_array (z_string_min (Suc 0)) (Some 1) (Some 10) (path @ [Key ''whatToStudy'']) (map_of kvs ''whatToStudy'') = ([], Some (whatToStudy st)) \<and>
      z_array (z_string_min (Suc 0)) (Some 1) (Some 10) (path @ [Key ''skillsToLearn'']) (map_of kvs ''skillsToLearn'') = ([], Some (skillsToLearn st)) \<and>
      z_array (z_string_min (Suc 0)) None (Some 10) (path @ [Key ''certifications'']) (map_of kvs ''certifications'') = ([], Some (certifications st)) \<and>
      z_array (z_string_min (Suc 0)) (Some 1) (Some 10) (path @ [Key ''projects'']) (map_of kvs ''projects'') = ([], Some (projects st)) \<and>
      z_array (z_string_min (Suc 0)) None (Some 10) (path @ [Key ''internships'']) (map_of kvs ''internships'') = ([], Some (internships st)))"
  unfolding aiRoadmapStageSchema_def z_object_valid z_map_valid
  by (cases st) (auto simp: z_field_valid)

lemma aiRoadmapStageSchema_accepts:
  "(\<exists>st. aiRoadmapStageSchema path (Some x) = ([], Some st)) = stageContract x"
proof
  assume "\<exists>st. aiRoadmapStageSchema path (Some x) = ([], Some st)"
  then show "stageContract x"
    unfolding aiRoadmapStageSchema_valid stageContract_def
    using z_string_nonempty_ex z_string_array_ex z_string_array_nolo_ex by fastforce
next
  assume c: "stageContract x"
  then obtain kvs where x: "x = JObj kvs" by (auto simp: stageContract_def split: json.splits)
  from c x have c1: "fieldNonEmpty (map_of kvs ''stage'')"
    and c2: "stringArray 1 10 (map_of kvs ''whatToStudy'')"
    and c3: "stringArray 1 10 (map_of kvs ''skillsToLearn'')"
    and c4: "stringArray 0 10 (map_of kvs ''certifications'')"
    and c5: "stringArray 1 10 (map_of kvs ''projects'')"
    and c6: "stringArray 0 10 (map_of kvs ''internships'')"
    by (simp_all add: stageContract_def)
  from c1 obtain s where
    "z_string_min (Suc 0) (path @ [Key ''stage'']) (map_of kvs ''stage'') = ([], Some s)"
    using z_string_nonempty_ex by blast
  moreover from c2 obtain w where
    "z_array (z_string_min (Suc 0)) (Some 1) (Some 10) (path @ [Key ''whatToStudy'']) (map_of kvs ''whatToStudy'') = ([], Some w)"
    using z_string_array_ex by blast
  moreover from c3 obtain sk where
    "z_array (z_string_min (Suc 0)) (Some 1) (Some 10) (path @ [Key ''skillsToLearn'']) (map_of kvs ''skillsToLearn'') = ([], Some sk)"
    using z_string_array_ex by blast
  moreover from c4 obtain ce where
    "z_array (z_string_min (Suc 0)) None (Some 10) (path @ [Key ''certifications'']) (map_of kvs ''certifications'') = ([], Some ce)"
    using z_string_array_nolo_ex by blast
  moreover from c5 obtain pj where
    "z_array (z_string_min (Suc 0)) (Some 1) (Some 10) (path @ [Key ''projects'']) (map_of kvs ''projects'') = ([], Some pj)"
    using z_string_array_ex by blast
  moreover from c6 obtain it where
    "z_array (z_string_min (Suc 0)) None (Some 10) (path @ [Key ''internships'']) (map_of kvs ''internships'') = ([], Some it)"
    using z_string_array_nolo_ex by blast
  ultimately have "aiRoadmapStageSchema path (Some x) =
      ([], Some \<lparr>stage = s, whatToStudy = w, skillsToLearn = sk, certifications = ce,
                 projects = pj, internships = it\<rparr>)"
    unfolding aiRoadmapStageSchema_valid using x by simp
  then show "\<exists>st. aiRoadmapStageSchema path (Some x) = ([], Some st)" by blast
qed

lemma map_stage_valid:
  "(\<exists>ys. map (\<lambda>(i, x). aiRoadmapStageSchema (path @ [Index i]) (Some x)) (enumerate k xs) =
         map (\<lambda>y. ([], Some y)) ys) = list_all stageContract xs"
proof (induction xs arbitrary: k)
  case Nil
  then show ?case by auto
next
  case (Cons x xs)
  have "(\<exists>ys. map (\<lambda>(i, x). aiRoadmapStageSchema (path @ [Index i]) (Some x)) (enumerate k (x # xs)) =
         map (\<lambda>y. ([], Some y)) ys) =
        ((\<exists>y. aiRoadmapStageSchema (path @ [Index k]) (Some x) = ([], Some y)) \<and>
         (\<exists>ys. map (\<lambda>(i, x). aiRoadmapStageSchema (path @ [Index i]) (Some x)) (enumerate (Suc k) xs) =
         map (\<lambda>y. ([], Some y)) ys))"
    (is "?A = (?B \<and> ?C)")
  proof
    assume ?A
    then obtain ys where ys: "map (\<lambda>(i, x). aiRoadmapStageSchema (path @ [Index i]) (Some x)) (enumerate k (x # xs)) =
         map (\<lambda>y. ([], Some y)) ys" by blast
    then obtain y ys' where "ys = y # ys'" by (cases ys) auto
    with ys show "?B \<and> ?C" by auto
  next
    assume "?B \<and> ?C"
    then obtain y ys where "aiRoadmapStageSchema (path @ [Index k]) (Some x) = ([], Some y)"
      and "map (\<lambda>(i, x). aiRoadmapStageSchema (path @ [Index i]) (Some x)) (enumerate (Suc k) xs) =
         map (\<lambda>y. ([], Some y)) ys" by blast
    then have "map (\<lambda>(i, x). aiRoadmapStageSchema (path @ [Index i]) (Some x)) (enumerate k (x # xs)) =
         map (\<lambda>y. ([], Some y)) (y # ys)" by simp
    then show ?A by blast
  qed
  then show ?case using Cons.IH[of "Suc k"] by (simp add: aiRoadmapStageSchema_accepts)
qed

lemma z_stage_array_ex:
  "(\<exists>ys. z_array aiRoadmapStageSchema (Some 3) (Some 8) path v = ([], Some ys)) =
   (case v of Some (JArr xs) \<Rightarrow> 3 \<le> length xs \<and> length xs \<le> 8 \<and> list_all stageContract xs
    | _ \<Rightarrow> False)"
proof -
  have "(\<exists>ys. z_array aiRoadmapStageSchema (Some 3) (Some 8) path v = ([], Some ys)) =
        (\<exists>xs. v = Some (JArr xs) \<and> 3 \<le> length xs \<and> length xs \<le> 8 \<and>
           (\<exists>ys. map (\<lambda>(i, x). aiRoadmapStageSchema (path @ [Index i]) (Some x)) (enumerate 0 xs) =
                 map (\<lambda>y. ([], Some y)) ys))"
    unfolding z_array_valid_gen by auto
  then show ?thesis
    unfolding map_stage_valid by (auto split: option.splits json.splits)
qed

lemma aiRoadmapSchema_valid:
  "(aiRoadmapSchema j = ([], Some p)) =
   (\<exists>kvs. j = JObj kvs \<and>
      z_string_min (Suc 0) [Key ''primaryDomain''] (map_of kvs ''primaryDomain'') = ([], Some (roadmap_primaryDomain p)) \<and>
      z_array aiRoadmapStageSchema (Some 3) (Some 8) [Key ''stages''] (map_of kvs ''stages'') = ([], Some (stages p)) \<and>
      z_string_min (Suc 0) [Key ''notes''] (map_of kvs ''notes'') = ([], Some (roadmap_notes p)))"
  unfolding aiRoadmapSchema_def z_object_valid z_map_valid
  by (cases p) (auto simp: z_field_valid)

lemma aiRoadmapSchema_accepts: "(\<exists>p. safeParse (aiRoadmapSchema j) = Inr p) = roadmapContract j"
proof
  assume "\<exists>p. safeParse (aiRoadmapSchema j) = Inr p"
  then obtain p where "aiRoadmapSchema j = ([], Some p)" by (auto simp: safeParse_Inr)
  then obtain kvs where j: "j = JObj kvs"
    and 1: "\<exists>s. z_string_min (Suc 0) [Key ''primaryDomain''] (map_of kvs ''primaryDomain'') = ([], Some s)"
    and 2: "\<exists>ys. z_array aiRoadmapStageSchema (Some 3) (Some 8) [Key ''stages''] (map_of kvs ''stages'') = ([], Some ys)"
    and 3: "\<exists>s. z_string_min (Suc 0) [Key ''notes''] (map_of kvs ''notes'') = ([], Some s)"
    unfolding aiRoadmapSchema_valid by blast
  from 1 3 have "fieldNonEmpty (map_of kvs ''primaryDomain'')" "fieldNonEmpty (map_of kvs ''notes'')"
    by (simp_all add: z_string_nonempty_ex)
  with 2 j show "roadmapContract j"
    unfolding z_stage_array_ex by (simp add: roadmapContract_def)
next
  assume c: "roadmapContract j"
  then obtain kvs where j: "j = JObj kvs" by (auto simp: roadmapContract_def split: json.splits)
  from c j have c1: "fieldNonEmpty (map_of kvs ''primaryDomain'')"
    and c2: "(case map_of kvs ''stages'' of
               Some (JArr xs) \<Rightarrow> 3 \<le> length xs \<and> length xs \<le> 8 \<and> list_all stageContract xs
             | _ \<Rightarrow> False)"
    and c3: "fieldNonEmpty (map_of kvs ''notes'')"
    by (simp_all add: roadmapContract_def)
  from c1 obtain d where
    "z_string_min (Suc 0) [Key ''primaryDomain''] (map_of kvs ''primaryDomain'') = ([], Some d)"
    using z_string_nonempty_ex by blast
  moreover from c2 obtain ss where
    "z_array aiRoadmapStageSchema (Some 3) (Some 8) [Key ''stages''] (map_of kvs ''stages'') = ([], Some ss)"
    using z_stage_array_ex[of "[Key ''stages'']" "map_of kvs ''stages''"] by blast
  moreover from c3 obtain n where
    "z_string_min (Suc 0) [Key ''notes''] (map_of kvs ''notes'') = ([], Some n)"
    using z_string_nonempty_ex by blast
  ultimately have "aiRoadmapSchema j =
      ([], Some \<lparr>roadmap_primaryDomain = d, stages = ss, roadmap_notes = n\<rparr>)"
    unfolding aiRoadmapSchema_valid using j by simp
  then show "\<exists>p. safeParse (aiRoadmapSchema j) = Inr p" by (auto simp: safeParse_Inr)
qed

lemma getOpenAIClient_Inl:
  "(getOpenAIClient env = Inl msg) = (\<not> providerConfigured env \<and> msg = ''OpenAI API key not configured'')"
  by (auto simp: getOpenAIClient_def providerConfigured_def split: option.splits)

lemma getOpenAIClient_Inr:
  "OPENAI_API_KEY env = Some k \<Longrightarrow> k \<noteq> [] \<Longrightarrow> getOpenAIClient env = Inr (new_OpenAI k)"
  by (simp add: getOpenAIClient_def)

lemma makeRequest_default:
  "makeRequest reply 2 0 =
     (case lastAttempt reply of Failed retryable err \<Rightarrow> Threw err | Answered content \<Rightarrow> Completed content,
      requestsSent reply)"
proof -
  have 2: "(2 :: nat) = Suc (Suc 0)" by simp
  show ?thesis
    unfolding 2
    by (cases "reply 0"; cases "reply (Suc 0)"; cases "reply (Suc (Suc 0))")
       (simp_all add: lastAttempt_def requestsSent_def numeral_2_eq_2)
qed

lemma create_default:
  "chat_completions_create provider (new_OpenAI k) request =
     (case lastAttempt (provider k request) of
        Failed retryable err \<Rightarrow> Threw err
      | Answered content \<Rightarrow> Completed content,
      requestsSent (provider k request))"
  by (simp add: chat_completions_create_def new_OpenAI_def makeRequest_default)

lemma requestsSent_bounds: "1 \<le> requestsSent reply \<and> requestsSent reply \<le> 3"
  by (simp add: requestsSent_def)

lemma requestsSent_retried: "Suc i < requestsSent reply \<Longrightarrow> retried (reply i)"
  by (cases i; cases "i - 1") (auto simp: requestsSent_def split: if_splits)

lemma lastAttempt_retried: "retried (lastAttempt reply) \<Longrightarrow> requestsSent reply = 3"
  by (auto simp: lastAttempt_def requestsSent_def split: if_splits)

lemma generated_None:
  "(generated L schema a = None) =
   ((\<exists>retryable err. a = Failed retryable err) \<or> a = Answered None \<or> a = Answered (Some []) \<or>
    (\<exists>c. a = Answered (Some c) \<and> c \<noteq> [] \<and>
       (JSON_parse L c = None \<or>
        (\<exists>j. JSON_parse L c = Some j \<and> (\<forall>v. safeParse (schema j) \<noteq> Inr v)))))"
  by (cases a) (auto simp: generated_def split: option.splits sum.splits)

lemma generated_Some:
  "(generated L schema a = Some v) =
   (\<exists>c j. a = Answered (Some c) \<and> c \<noteq> [] \<and> JSON_parse L c = Some j \<and> safeParse (schema j) = Inr v)"
  by (cases a) (auto simp: generated_def split: option.splits sum.splits)

lemma ai_portfolio_not_found:
  "findOneById (users db) userId = None \<Longrightarrow>
   ai_portfolio L env provider now db userId refreshQ = (respond 404 (ErrorBody ''User not found''), db, [])"
  by (simp add: ai_portfolio_def)

lemma ai_portfolio_cached:
  "findOneById (users db) userId = Some u \<Longrightarrow> qString refreshQ \<noteq> Some ''1'' \<Longrightarrow>
   Option.bind (ai u) portfolio = Some cached \<Longrightarrow>
   ai_portfolio L env provider now db userId refreshQ =
     (respond 200 (PortfolioBody (slot_model cached) (slot_createdAt cached) (data cached)), db, [])"
  by (simp add: ai_portfolio_def)

lemma ai_portfolio_no_profile:
  "findOneById (users db) userId = Some u \<Longrightarrow>
   qString refreshQ = Some ''1'' \<or> Option.bind (ai u) portfolio = None \<Longrightarrow>
   profile u = None \<Longrightarrow>
   ai_portfolio L env provider now db userId refreshQ =
     (respond 400 (ErrorBody ''Profile is missing. Save /user/profile first.''), db, [])"
  by (auto simp: ai_portfolio_def)

lemma ai_portfolio_no_psychometric:
  "findOneById (users db) userId = Some u \<Longrightarrow>
   qString refreshQ = Some ''1'' \<or> Option.bind (ai u) portfolio = None \<Longrightarrow>
   profile u = Some pr \<Longrightarrow> psychometric u = None \<Longrightarrow>
   ai_portfolio L env provider now db userId refreshQ =
     (respond 400 (ErrorBody ''Psychometric answers are missing. Save /user/psychometric first.''), db, [])"
  by (auto simp: ai_portfolio_def)

lemma ai_portfolio_no_analysis:
  "findOneById (users db) userId = Some u \<Longrightarrow>
   qString refreshQ = Some ''1'' \<or> Option.bind (ai u) portfolio = None \<Longrightarrow>
   profile u = Some pr \<Longrightarrow> psychometric u = Some ps \<Longrightarrow> Option.bind (ai u) analysis = None \<Longrightarrow>
   ai_portfolio L env provider now db userId refreshQ =
     (respond 400 (ErrorBody ''AI analysis is missing. Run POST /ai/analyze first.''), db, [])"
  by (auto simp: ai_portfolio_def)

lemma ai_portfolio_not_configured:
  "findOneById (users db) userId = Some u \<Longrightarrow>
   qString refreshQ = Some ''1'' \<or> Option.bind (ai u) portfolio = None \<Longrightarrow>
   profile u = Some pr \<Longrightarrow> psychometric u = Some ps \<Longrightarrow> Option.bind (ai u) analysis = Some an \<Longrightarrow>
   \<not> providerConfigured env \<Longrightarrow>
   ai_portfolio L env provider now db userId refreshQ =
     (respond 500 (ErrorBody ''OpenAI API key not configured''), db, [])"
  by (auto simp: ai_portfolio_def providerConfigured_def getOpenAIClient_def split: option.splits)

lemma ai_portfolio_called:
  assumes "findOneById (users db) userId = Some u"
    and "qString refreshQ = Some ''1'' \<or> Option.bind (ai u) portfolio = None"
    and "profile u = Some pr" and "psychometric u = Some ps"
    and "Option.bind (ai u) analysis = Some an"
    and "OPENAI_API_KEY env = Some k" and "k \<noteq> []"
  shows "ai_portfolio L env provider now db userId refreshQ =
     (case lastAttempt (provider k (portfolioRequest pr (buildAnswerContext (answers ps)) an)) of
        Failed retryable err \<Rightarrow>
          (respond 502 (ErrorBody (case err of Some msg \<Rightarrow> msg | None \<Rightarrow> ''OpenAI request failed'')),
           db, [\<lparr>call_request = (portfolioRequest pr (buildAnswerContext (answers ps)) an), requests_sent = requestsSent (provider k (portfolioRequest pr (buildAnswerContext (answers ps)) an))\<rparr>])
      | Answered content \<Rightarrow>
          (case (case content of Some c \<Rightarrow> if c = [] then None else Some c | None \<Rightarrow> None) of
             None \<Rightarrow> (respond 502 (ErrorBody ''AI returned an empty response''), db, [\<lparr>call_request = (portfolioRequest pr (buildAnswerContext (answers ps)) an), requests_sent = requestsSent (provider k (portfolioRequest pr (buildAnswerContext (answers ps)) an))\<rparr>])
           | Some c \<Rightarrow>
               (case JSON_parse L c of
                  None \<Rightarrow> (respond 502 (ErrorRaw ''AI returned non-JSON output'' c), db, [\<lparr>call_request = (portfolioRequest pr (buildAnswerContext (answers ps)) an), requests_sent = requestsSent (provider k (portfolioRequest pr (buildAnswerContext (answers ps)) an))\<rparr>])
                | Some j \<Rightarrow>
                    (case safeParse (aiPortfolioSchema j) of
                       Inl iss \<Rightarrow>
                         (respond 502 (ErrorDetails ''AI output did not match expected schema'' iss),
                          db, [\<lparr>call_request = (portfolioRequest pr (buildAnswerContext (answers ps)) an), requests_sent = requestsSent (provider k (portfolioRequest pr (buildAnswerContext (answers ps)) an))\<rparr>])
                     | Inr parsed \<Rightarrow>
                         (respond 200 (PortfolioBody AI_MODEL now parsed),
                          db\<lparr>users := fst (updateOne userId
                             (set_ai_portfolio
                                \<lparr>data = parsed, slot_createdAt = now, slot_model = AI_MODEL\<rparr> now)
                             (users db))\<rparr>,
                          [\<lparr>call_request = (portfolioRequest pr (buildAnswerContext (answers ps)) an), requests_sent = requestsSent (provider k (portfolioRequest pr (buildAnswerContext (answers ps)) an))\<rparr>])))))"
proof -
  have c: "getOpenAIClient env = Inr (new_OpenAI k)" using assms(6,7) by (rule getOpenAIClient_Inr)
  have i: "user_id u = userId" using assms(1) by (rule findOneById_Some_id)
  from assms(2) have a: "(if qString refreshQ = Some ''1'' then None else Option.bind (ai u) portfolio) = None"
    by auto
  show ?thesis
    unfolding ai_portfolio_def Let_def
    by (cases "lastAttempt (provider k (portfolioRequest pr (buildAnswerContext (answers ps)) an))")
       (simp_all only: assms(1,3,4,5) a c i option.case sum.case create_default fst_conv snd_conv
          Attempt.case ProviderResult.case)
qed

lemma ai_portfolio_calls:
  assumes "findOneById (users db) userId = Some u"
    and "qString refreshQ = Some ''1'' \<or> Option.bind (ai u) portfolio = None"
    and "profile u = Some pr" and "psychometric u = Some ps"
    and "Option.bind (ai u) analysis = Some an"
    and "OPENAI_API_KEY env = Some k" and "k \<noteq> []"
  shows "snd (snd (ai_portfolio L env provider now db userId refreshQ)) = [\<lparr>call_request = (portfolioRequest pr (buildAnswerContext (answers ps)) an), requests_sent = requestsSent (provider k (portfolioRequest pr (buildAnswerContext (answers ps)) an))\<rparr>]"
  unfolding ai_portfolio_called[OF assms]
  by (simp split: Attempt.splits option.splits sum.splits)

lemma ai_portfolio_generated:
  assumes "findOneById (users db) userId = Some u"
    and "qString refreshQ = Some ''1'' \<or> Option.bind (ai u) portfolio = None"
    and "profile u = Some pr" and "psychometric u = Some ps"
    and "Option.bind (ai u) analysis = Some an"
    and "OPENAI_API_KEY env = Some k" and "k \<noteq> []"
    and g: "generated L aiPortfolioSchema (lastAttempt (provider k (portfolioRequest pr (buildAnswerContext (answers ps)) an))) = Some parsed"
  shows "ai_portfolio L env provider now db userId refreshQ =
           (respond 200 (PortfolioBody AI_MODEL now parsed),
            db\<lparr>users := fst (updateOne userId
               (set_ai_portfolio \<lparr>data = parsed, slot_createdAt = now, slot_model = AI_MODEL\<rparr> now)
               (users db))\<rparr>,
            [\<lparr>call_request = (portfolioRequest pr (buildAnswerContext (answers ps)) an), requests_sent = requestsSent (provider k (portfolioRequest pr (buildAnswerContext (answers ps)) an))\<rparr>])"
proof -
  from g obtain c j where "lastAttempt (provider k (portfolioRequest pr (buildAnswerContext (answers ps)) an)) = Answered (Some c)" "c \<noteq> []" "JSON_parse L c = Some j"
    "safeParse (aiPortfolioSchema j) = Inr parsed"
    unfolding generated_Some by blast
  then show ?thesis
    unfolding ai_portfolio_called[OF assms(1-7)] by simp
qed

lemma ai_portfolio_not_generated:
  assumes "findOneById (users db) userId = Some u"
    and "qString refreshQ = Some ''1'' \<or> Option.bind (ai u) portfolio = None"
    and "profile u = Some pr" and "psychometric u = Some ps"
    and "Option.bind (ai u) analysis = Some an"
    and "OPENAI_API_KEY env = Some k" and "k \<noteq> []"
    and g: "generated L aiPortfolioSchema (lastAttempt (provider k (portfolioRequest pr (buildAnswerContext (answers ps)) an))) = None"
  shows "status (fst (ai_portfolio L env provider now db userId refreshQ)) = 502 \<and>
         fst (snd (ai_portfolio L env provider now db userId refreshQ)) = db \<and>
         snd (snd (ai_portfolio L env provider now db userId refreshQ)) = [\<lparr>call_request = (portfolioRequest pr (buildAnswerContext (answers ps)) an), requests_sent = requestsSent (provider k (portfolioRequest pr (buildAnswerContext (answers ps)) an))\<rparr>]"
  using g unfolding ai_portfolio_called[OF assms(1-7)]
  by (auto simp: generated_def respond_def split: Attempt.splits option.splits sum.splits if_splits)

lemma ai_portfolio_write_only_on_success:
  "fst (snd (ai_portfolio L env provider now db userId refreshQ)) = db \<or>
   (\<exists>u pr ps an k parsed.
      findOneById (users db) userId = Some u \<and>
      (qString refreshQ = Some ''1'' \<or> Option.bind (ai u) portfolio = None) \<and>
      profile u = Some pr \<and> psychometric u = Some ps \<and> Option.bind (ai u) analysis = Some an \<and>
      OPENAI_API_KEY env = Some k \<and> k \<noteq> [] \<and>
      generated L aiPortfolioSchema (lastAttempt (provider k (portfolioRequest pr (buildAnswerContext (answers ps)) an))) = Some parsed \<and>
      ai_portfolio L env provider now db userId refreshQ =
        (respond 200 (PortfolioBody AI_MODEL now parsed),
         db\<lparr>users := fst (updateOne userId
            (set_ai_portfolio \<lparr>data = parsed, slot_createdAt = now, slot_model = AI_MODEL\<rparr> now)
            (users db))\<rparr>,
         [\<lparr>call_request = (portfolioRequest pr (buildAnswerContext (answers ps)) an), requests_sent = requestsSent (provider k (portfolioRequest pr (buildAnswerContext (answers ps)) an))\<rparr>]))"
proof (cases "findOneById (users db) userId")
  case None
  then show ?thesis by (simp add: ai_portfolio_not_found)
next
  case (Some u)
  note u = this
  show ?thesis
  proof (cases "qString refreshQ = Some ''1'' \<or> Option.bind (ai u) portfolio = None")
    case False
    then obtain cached where "qString refreshQ \<noteq> Some ''1''" "Option.bind (ai u) portfolio = Some cached"
      by auto
    from ai_portfolio_cached[OF u this] show ?thesis by simp
  next
    case True
    note att = this
    show ?thesis
    proof (cases "profile u")
      case None
      from ai_portfolio_no_profile[OF u att None] show ?thesis by simp
    next
      case (Some pr)
      note pr = this
      show ?thesis
      proof (cases "psychometric u")
        case None
        from ai_portfolio_no_psychometric[OF u att pr None] show ?thesis by simp
      next
        case (Some ps)
        note ps = this
        show ?thesis
        proof (cases "Option.bind (ai u) analysis")
          case None
          from ai_portfolio_no_analysis[OF u att pr ps None] show ?thesis by simp
        next
          case (Some an)
          note an = this
          show ?thesis
          proof (cases "providerConfigured env")
            case False
            from ai_portfolio_not_configured[OF u att pr ps an False] show ?thesis by simp
          next
            case True
            then obtain k where k: "OPENAI_API_KEY env = Some k" "k \<noteq> []"
              by (auto simp: providerConfigured_def split: option.splits)
            show ?thesis
            proof (cases "generated L aiPortfolioSchema (lastAttempt (provider k (portfolioRequest pr (buildAnswerContext (answers ps)) an)))")
              case None
              from ai_portfolio_not_generated[where provider = provider, OF u att pr ps an k None] show ?thesis by simp
            next
              case (Some parsed)
              from ai_portfolio_generated[where provider = provider, OF u att pr ps an k Some] u att pr ps an k Some
              show ?thesis by blast
            qed
          qed
        qed
      qed
    qed
  qed
qed

lemma ai_portfolio_gates:
  assumes u: "findOneById (users db) userId = Some u"
    and att: "qString refreshQ = Some ''1'' \<or> Option.bind (ai u) portfolio = None"
  shows "case firstClosedGate env u of
           Some g \<Rightarrow> ai_portfolio L env provider now db userId refreshQ = (gateError g, db, [])
         | None \<Rightarrow> length (snd (snd (ai_portfolio L env provider now db userId refreshQ))) = 1"
proof (cases "profile u")
  case None
  from ai_portfolio_no_profile[OF u att None] None show ?thesis
    by (simp add: firstClosedGate_def gateOrder_def)
next
  case (Some pr)
  note pr = this
  show ?thesis
  proof (cases "psychometric u")
    case None
    from ai_portfolio_no_psychometric[OF u att pr None] pr None show ?thesis
      by (simp add: firstClosedGate_def gateOrder_def)
  next
    case (Some ps)
    note ps = this
    show ?thesis
    proof (cases "Option.bind (ai u) analysis")
      case None
      from ai_portfolio_no_analysis[OF u att pr ps None] pr ps None show ?thesis
        by (simp add: firstClosedGate_def gateOrder_def)
    next
      case (Some an)
      note an = this
      show ?thesis
      proof (cases "providerConfigured env")
        case False
        from ai_portfolio_not_configured[OF u att pr ps an False] pr ps an False show ?thesis
          by (simp add: firstClosedGate_def gateOrder_def)
      next
        case True
        then obtain k where k: "OPENAI_API_KEY env = Some k" "k \<noteq> []"
          by (auto simp: providerConfigured_def split: option.splits)
        from ai_portfolio_calls[OF u att pr ps an k] pr ps an True show ?thesis
          by (simp add: firstClosedGate_def gateOrder_def)
      qed
    qed
  qed
qed

lemma ai_portfolio_calls_only_after_gates:
  assumes u: "findOneById (users db) userId = Some u"
    and c: "snd (snd (ai_portfolio L env provider now db userId refreshQ)) \<noteq> []"
  shows "firstClosedGate env u = None"
proof (cases "qString refreshQ = Some ''1'' \<or> Option.bind (ai u) portfolio = None")
  case False
  then obtain cached where "qString refreshQ \<noteq> Some ''1''" "Option.bind (ai u) portfolio = Some cached"
    by auto
  from ai_portfolio_cached[OF u this] c show ?thesis by simp
next
  case True
  from ai_portfolio_gates[OF u True, where env = env and L = L and provider = provider and now = now] c show ?thesis
    by (cases "firstClosedGate env u") auto
qed

lemma ai_portfolio_read_after_write:
  assumes u: "findOneById (users db) userId = Some u"
    and db': "db' = db\<lparr>users := fst (updateOne userId (set_ai_portfolio slot t) (users db))\<rparr>"
  shows "findOneById (users db') userId = Some (set_ai_portfolio slot t u)"
    and "job_roles db' = job_roles db \<and> scholarships db' = scholarships db"
    and "other \<noteq> userId \<Longrightarrow> findOneById (users db') other = findOneById (users db) other"
    and "qString q' \<noteq> Some ''1'' \<Longrightarrow>
         ai_portfolio L' env' provider' now' db' userId q' =
           (respond 200 (PortfolioBody (slot_model slot) (slot_createdAt slot) (data slot)), db', [])"
proof -
  show 1: "findOneById (users db') userId = Some (set_ai_portfolio slot t u)"
    unfolding db' using updateOne_find_same[OF u, of "set_ai_portfolio slot t"]
    by (simp add: set_ai_portfolio_def)
  show "job_roles db' = job_roles db \<and> scholarships db' = scholarships db"
    unfolding db' by simp
  show "other \<noteq> userId \<Longrightarrow> findOneById (users db') other = findOneById (users db) other"
    unfolding db' using updateOne_find_other[of other userId "set_ai_portfolio slot t" "users db"]
    by (simp add: set_ai_portfolio_def)
  have "Option.bind (ai (set_ai_portfolio slot t u)) portfolio = Some slot"
    by (simp add: set_ai_portfolio_def)
  then show "qString q' \<noteq> Some ''1'' \<Longrightarrow>
         ai_portfolio L' env' provider' now' db' userId q' =
           (respond 200 (PortfolioBody (slot_model slot) (slot_createdAt slot) (data slot)), db', [])"
    using ai_portfolio_cached[OF 1] by simp
qed

lemma ai_career_roadmap_not_found:
  "findOneById (users db) userId = None \<Longrightarrow>
   ai_career_roadmap L env provider now db userId refreshQ = (respond 404 (ErrorBody ''User not found''), db, [])"
  by (simp add: ai_career_roadmap_def)

lemma ai_career_roadmap_cached:
  "findOneById (users db) userId = Some u \<Longrightarrow> qString refreshQ \<noteq> Some ''1'' \<Longrightarrow>
   Option.bind (ai u) roadmap = Some cached \<Longrightarrow>
   ai_career_roadmap L env provider now db userId refreshQ =
     (respond 200 (RoadmapBody (slot_model cached) (slot_createdAt cached) (data cached)), db, [])"
  by (simp add: ai_career_roadmap_def)

lemma ai_career_roadmap_no_profile:
  "findOneById (users db) userId = Some u \<Longrightarrow>
   qString refreshQ = Some ''1'' \<or> Option.bind (ai u) roadmap = None \<Longrightarrow>
   profile u = None \<Longrightarrow>
   ai_career_roadmap L env provider now db userId refreshQ =
     (respond 400 (ErrorBody ''Profile is missing. Save /user/profile first.''), db, [])"
  by (auto simp: ai_career_roadmap_def)

lemma ai_career_roadmap_no_psychometric:
  "findOneById (users db) userId = Some u \<Longrightarrow>
   qString refreshQ = Some ''1'' \<or> Option.bind (ai u) roadmap = None \<Longrightarrow>
   profile u = Some pr \<Longrightarrow> psychometric u = None \<Longrightarrow>
   ai_career_roadmap L env provider now db userId refreshQ =
     (respond 400 (ErrorBody ''Psychometric answers are missing. Save /user/psychometric first.''), db, [])"
  by (auto simp: ai_career_roadmap_def)

lemma ai_career_roadmap_no_analysis:
  "findOneById (users db) userId = Some u \<Longrightarrow>
   qString refreshQ = Some ''1'' \<or> Option.bind (ai u) roadmap = None \<Longrightarrow>
   profile u = Some pr \<Longrightarrow> psychometric u = Some ps \<Longrightarrow> Option.bind (ai u) analysis = None \<Longrightarrow>
   ai_career_roadmap L env provider now db userId refreshQ =
     (respond 400 (ErrorBody ''AI analysis is missing. Run POST /ai/analyze first.''), db, [])"
  by (auto simp: ai_career_roadmap_def)

lemma ai_career_roadmap_not_configured:
  "findOneById (users db) userId = Some u \<Longrightarrow>
   qString refreshQ = Some ''1'' \<or> Option.bind (ai u) roadmap = None \<Longrightarrow>
   profile u = Some pr \<Longrightarrow> psychometric u = Some ps \<Longrightarrow> Option.bind (ai u) analysis = Some an \<Longrightarrow>
   \<not> providerConfigured env \<Longrightarrow>
   ai_career_roadmap L env provider now db userId refreshQ =
     (respond 500 (ErrorBody ''OpenAI API key not configured''), db, [])"
  by (auto simp: ai_career_roadmap_def providerConfigured_def getOpenAIClient_def split: option.splits)

lemma ai_career_roadmap_called:
  assumes "findOneById (users db) userId = Some u"
    and "qString refreshQ = Some ''1'' \<or> Option.bind (ai u) roadmap = None"
    and "profile u = Some pr" and "psychometric u = Some ps"
    and "Option.bind (ai u) analysis = Some an"
    and "OPENAI_API_KEY env = Some k" and "k \<noteq> []"
  shows "ai_career_roadmap L env provider now db userId refreshQ =
     (case lastAttempt (provider k (roadmapRequest pr (buildAnswerContext (answers ps)) an)) of
        Failed retryable err \<Rightarrow>
          (respond 502 (ErrorBody (case err of Some msg \<Rightarrow> msg | None \<Rightarrow> ''OpenAI request failed'')),
           db, [\<lparr>call_request = (roadmapRequest pr (buildAnswerContext (answers ps)) an), requests_sent = requestsSent (provider k (roadmapRequest pr (buildAnswerContext (answers ps)) an))\<rparr>])
      | Answered content \<Rightarrow>
          (case (case content of Some c \<Rightarrow> if c = [] then None else Some c | None \<Rightarrow> None) of
             None \<Rightarrow> (respond 502 (ErrorBody ''AI returned an empty response''), db, [\<lparr>call_request = (roadmapRequest pr (buildAnswerContext (answers ps)) an), requests_sent = requestsSent (provider k (roadmapRequest pr (buildAnswerContext (answers ps)) an))\<rparr>])
           | Some c \<Rightarrow>
               (case JSON_parse L c of
                  None \<Rightarrow> (respond 502 (ErrorRaw ''AI returned non-JSON output'' c), db, [\<lparr>call_request = (roadmapRequest pr (buildAnswerContext (answers ps)) an), requests_sent = requestsSent (provider k (roadmapRequest pr (buildAnswerContext (answers ps)) an))\<rparr>])
                | Some j \<Rightarrow>
                    (case safeParse (aiRoadmapSchema j) of
                       Inl iss \<Rightarrow>
                         (respond 502 (ErrorDetails ''AI output did not match expected schema'' iss),
                          db, [\<lparr>call_request = (roadmapRequest pr (buildAnswerContext (answers ps)) an), requests_sent = requestsSent (provider k (roadmapRequest pr (buildAnswerContext (answers ps)) an))\<rparr>])
                     | Inr parsed \<Rightarrow>
                         (respond 200 (RoadmapBody AI_MODEL now parsed),
                          db\<lparr>users := fst (updateOne userId
                             (set_ai_roadmap
                                \<lparr>data = parsed, slot_createdAt = now, slot_model = AI_MODEL\<rparr> now)
                             (users db))\<rparr>,
                          [\<lparr>call_request = (roadmapRequest pr (buildAnswerContext (answers ps)) an), requests_sent = requestsSent (provider k (roadmapRequest pr (buildAnswerContext (answers ps)) an))\<rparr>])))))"
proof -
  have c: "getOpenAIClient env = Inr (new_OpenAI k)" using assms(6,7) by (rule getOpenAIClient_Inr)
  have i: "user_id u = userId" using assms(1) by (rule findOneById_Some_id)
  from assms(2) have a: "(if qString refreshQ = Some ''1'' then None else Option.bind (ai u) roadmap) = None"
    by auto
  show ?thesis
    unfolding ai_career_roadmap_def Let_def
    by (cases "lastAttempt (provider k (roadmapRequest pr (buildAnswerContext (answers ps)) an))")
       (simp_all only: assms(1,3,4,5) a c i option.case sum.case create_default fst_conv snd_conv
          Attempt.case ProviderResult.case)
qed

lemma ai_career_roadmap_calls:
  assumes "findOneById (users db) userId = Some u"
    and "qString refreshQ = Some ''1'' \<or> Option.bind (ai u) roadmap = None"
    and "profile u = Some pr" and "psychometric u = Some ps"
    and "Option.bind (ai u) analysis = Some an"
    and "OPENAI_API_KEY env = Some k" and "k \<noteq> []"
  shows "snd (snd (ai_career_roadmap L env provider now db userId refreshQ)) = [\<lparr>call_request = (roadmapRequest pr (buildAnswerContext (answers ps)) an), requests_sent = requestsSent (provider k (roadmapRequest pr (buildAnswerContext (answers ps)) an))\<rparr>]"
  unfolding ai_career_roadmap_called[OF assms]
  by (simp split: Attempt.splits option.splits sum.splits)

lemma ai_career_roadmap_generated:
  assumes "findOneById (users db) userId = Some u"
    and "qString refreshQ = Some ''1'' \<or> Option.bind (ai u) roadmap = None"
    and "profile u = Some pr" and "psychometric u = Some ps"
    and "Option.bind (ai u) analysis = Some an"
    and "OPENAI_API_KEY env = Some k" and "k \<noteq> []"
    and g: "generated L aiRoadmapSchema (lastAttempt (provider k (roadmapRequest pr (buildAnswerContext (answers ps)) an))) = Some parsed"
  shows "ai_career_roadmap L env provider now db userId refreshQ =
           (respond 200 (RoadmapBody AI_MODEL now parsed),
            db\<lparr>users := fst (updateOne userId
               (set_ai_roadmap \<lparr>data = parsed, slot_createdAt = now, slot_model = AI_MODEL\<rparr> now)
               (users db))\<rparr>,
            [\<lparr>call_request = (roadmapRequest pr (buildAnswerContext (answers ps)) an), requests_sent = requestsSent (provider k (roadmapRequest pr (buildAnswerContext (answers ps)) an))\<rparr>])"
proof -
  from g obtain c j where "lastAttempt (provider k (roadmapRequest pr (buildAnswerContext (answers ps)) an)) = Answered (Some c)" "c \<noteq> []" "JSON_parse L c = Some j"
    "safeParse (aiRoadmapSchema j) = Inr parsed"
    unfolding generated_Some by blast
  then show ?thesis
    unfolding ai_career_roadmap_called[OF assms(1-7)] by simp
qed

lemma ai_career_roadmap_not_generated:
  assumes "findOneById (users db) userId = Some u"
    and "qString refreshQ = Some ''1'' \<or> Option.bind (ai u) roadmap = None"
    and "profile u = Some pr" and "psychometric u = Some ps"
    and "Option.bind (ai u) analysis = Some an"
    and "OPENAI_API_KEY env = Some k" and "k \<noteq> []"
    and g: "generated L aiRoadmapSchema (lastAttempt (provider k (roadmapRequest pr (buildAnswerContext (answers ps)) an))) = None"
  shows "status (fst (ai_career_roadmap L env provider now db userId refreshQ)) = 502 \<and>
         fst (snd (ai_career_roadmap L env provider now db userId refreshQ)) = db \<and>
         snd (snd (ai_career_roadmap L env provider now db userId refreshQ)) = [\<lparr>call_request = (roadmapRequest pr (buildAnswerContext (answers ps)) an), requests_sent = requestsSent (provider k (roadmapRequest pr (buildAnswerContext (answers ps)) an))\<rparr>]"
  using g unfolding ai_career_roadmap_called[OF assms(1-7)]
  by (auto simp: generated_def respond_def split: Attempt.splits option.splits sum.splits if_splits)

lemma ai_career_roadmap_write_only_on_success:
  "fst (snd (ai_career_roadmap L env provider now db userId refreshQ)) = db \<or>
   (\<exists>u pr ps an k parsed.
      findOneById (users db) userId = Some u \<and>
      (qString refreshQ = Some ''1'' \<or> Option.bind (ai u) roadmap = None) \<and>
      profile u = Some pr \<and> psychometric u = Some ps \<and> Option.bind (ai u) analysis = Some an \<and>
      OPENAI_API_KEY env = Some k \<and> k \<noteq> [] \<and>
      generated L aiRoadmapSchema (lastAttempt (provider k (roadmapRequest pr (buildAnswerContext (answers ps)) an))) = Some parsed \<and>
      ai_career_roadmap L env provider now db userId refreshQ =
        (respond 200 (RoadmapBody AI_MODEL now parsed),
         db\<lparr>users := fst (updateOne userId
            (set_ai_roadmap \<lparr>data = parsed, slot_createdAt = now, slot_model = AI_MODEL\<rparr> now)
            (users db))\<rparr>,
         [\<lparr>call_request = (roadmapRequest pr (buildAnswerContext (answers ps)) an), requests_sent = requestsSent (provider k (roadmapRequest pr (buildAnswerContext (answers ps)) an))\<rparr>]))"
proof (cases "findOneById (users db) userId")
  case None
  then show ?thesis by (simp add: ai_career_roadmap_not_found)
next
  case (Some u)
  note u = this
  show ?thesis
  proof (cases "qString refreshQ = Some ''1'' \<or> Option.bind (ai u) roadmap = None")
    case False
    then obtain cached where "qString refreshQ \<noteq> Some ''1''" "Option.bind (ai u) roadmap = Some cached"
      by auto
    from ai_career_roadmap_cached[OF u this] show ?thesis by simp
  next
    case True
    note att = this
    show ?thesis
    proof (cases "profile u")
      case None
      from ai_career_roadmap_no_profile[OF u att None] show ?thesis by simp
    next
      case (Some pr)
      note pr = this
      show ?thesis
      proof (cases "psychometric u")
        case None
        from ai_career_roadmap_no_psychometric[OF u att pr None] show ?thesis by simp
      next
        case (Some ps)
        note ps = this
        show ?thesis
        proof (cases "Option.bind (ai u) analysis")
          case None
          from ai_career_roadmap_no_analysis[OF u att pr ps None] show ?thesis by simp
        next
          case (Some an)
          note an = this
          show ?thesis
          proof (cases "providerConfigured env")
            case False
            from ai_career_roadmap_not_configured[OF u att pr ps an False] show ?thesis by simp
          next
            case True
            then obtain k where k: "OPENAI_API_KEY env = Some k" "k \<noteq> []"
              by (auto simp: providerConfigured_def split: option.splits)
            show ?thesis
            proof (cases "generated L aiRoadmapSchema (lastAttempt (provider k (roadmapRequest pr (buildAnswerContext (answers ps)) an)))")
              case None
              from ai_career_roadmap_not_generated[where provider = provider, OF u att pr ps an k None] show ?thesis by simp
            next
              case (Some parsed)
              from ai_career_roadmap_generated[where provider = provider, OF u att pr ps an k Some] u att pr ps an k Some
              show ?thesis by blast
            qed
          qed
        qed
      qed
    qed
  qed
qed

lemma ai_career_roadmap_gates:
  assumes u: "findOneById (users db) userId = Some u"
    and att: "qString refreshQ = Some ''1'' \<or> Option.bind (ai u) roadmap = None"
  shows "case firstClosedGate env u of
           Some g \<Rightarrow> ai_career_roadmap L env provider now db userId refreshQ = (gateError g, db, [])
         | None \<Rightarrow> length (snd (snd (ai_career_roadmap L env provider now db userId refreshQ))) = 1"
proof (cases "profile u")
  case None
  from ai_career_roadmap_no_profile[OF u att None] None show ?thesis
    by (simp add: firstClosedGate_def gateOrder_def)
next
  case (Some pr)
  note pr = this
  show ?thesis
  proof (cases "psychometric u")
    case None
    from ai_career_roadmap_no_psychometric[OF u att pr None] pr None show ?thesis
      by (simp add: firstClosedGate_def gateOrder_def)
  next
    case (Some ps)
    note ps = this
    show ?thesis
    proof (cases "Option.bind (ai u) analysis")
      case None
      from ai_career_roadmap_no_analysis[OF u att pr ps None] pr ps None show ?thesis
        by (simp add: firstClosedGate_def gateOrder_def)
    next
      case (Some an)
      note an = this
      show ?thesis
      proof (cases "providerConfigured env")
        case False
        from ai_career_roadmap_not_configured[OF u att pr ps an False] pr ps an False show ?thesis
          by (simp add: firstClosedGate_def gateOrder_def)
      next
        case True
        then obtain k where k: "OPENAI_API_KEY env = Some k" "k \<noteq> []"
          by (auto simp: providerConfigured_def split: option.splits)
        from ai_career_roadmap_calls[OF u att pr ps an k] pr ps an True show ?thesis
          by (simp add: firstClosedGate_def gateOrder_def)
      qed
    qed
  qed
qed

lemma ai_career_roadmap_calls_only_after_gates:
  assumes u: "findOneById (users db) userId = Some u"
    and c: "snd (snd (ai_career_roadmap L env provider now db userId refreshQ)) \<noteq> []"
  shows "firstClosedGate env u = None"
proof (cases "qString refreshQ = Some ''1'' \<or> Option.bind (ai u) roadmap = None")
  case False
  then obtain cached where "qString refreshQ \<noteq> Some ''1''" "Option.bind (ai u) roadmap = Some cached"
    by auto
  from ai_career_roadmap_cached[OF u this] c show ?thesis by simp
next
  case True
  from ai_career_roadmap_gates[OF u True, where env = env and L = L and provider = provider and now = now] c show ?thesis
    by (cases "firstClosedGate env u") auto
qed

lemma ai_career_roadmap_read_after_write:
  assumes u: "findOneById (users db) userId = Some u"
    and db': "db' = db\<lparr>users := fst (updateOne userId (set_ai_roadmap slot t) (users db))\<rparr>"
  shows "findOneById (users db') userId = Some (set_ai_roadmap slot t u)"
    and "job_roles db' = job_roles db \<and> scholarships db' = scholarships db"
    and "other \<noteq> userId \<Longrightarrow> findOneById (users db') other = findOneById (users db) other"
    and "qString q' \<noteq> Some ''1'' \<Longrightarrow>
         ai_career_roadmap L' env' provider' now' db' userId q' =
           (respond 200 (RoadmapBody (slot_model slot) (slot_createdAt slot) (data slot)), db', [])"
proof -
  show 1: "findOneById (users db') userId = Some (set_ai_roadmap slot t u)"
    unfolding db' using updateOne_find_same[OF u, of "set_ai_roadmap slot t"]
    by (simp add: set_ai_roadmap_def)
  show "job_roles db' = job_roles db \<and> scholarships db' = scholarships db"
    unfolding db' by simp
  show "other \<noteq> userId \<Longrightarrow> findOneById (users db') other = findOneById (users db) other"
    unfolding db' using updateOne_find_other[of other userId "set_ai_roadmap slot t" "users db"]
    by (simp add: set_ai_roadmap_def)
  have "Option.bind (ai (set_ai_roadmap slot t u)) roadmap = Some slot"
    by (simp add: set_ai_roadmap_def)
  then show "qString q' \<noteq> Some ''1'' \<Longrightarrow>
         ai_career_roadmap L' env' provider' now' db' userId q' =
           (respond 200 (RoadmapBody (slot_model slot) (slot_createdAt slot) (data slot)), db', [])"
    using ai_career_roadmap_cached[OF 1] by simp
qed

lemma gateError_distinct: "distinct (map gateError gateOrder)"
  by (simp add: gateOrder_def respond_def)

lemma firstClosedGate_None: "(firstClosedGate env u = None) = (\<forall>g \<in> set gateOrder. gateOpen env u g)"
  by (auto simp: firstClosedGate_def find_None_iff)

lemma gates_open:
  assumes "firstClosedGate env u = None"
  obtains pr ps an k where "profile u = Some pr" "psychometric u = Some ps"
    "Option.bind (ai u) analysis = Some an" "OPENAI_API_KEY env = Some k" "k \<noteq> []"
proof -
  from assms have "profile u \<noteq> None" "psychometric u \<noteq> None" "Option.bind (ai u) analysis \<noteq> None"
    "providerConfigured env"
    by (simp_all add: firstClosedGate_None gateOrder_def)
  then show thesis using that
    by (auto simp: providerConfigured_def split: option.splits)
qed

lemma ai_portfolio_classified:
  fixes L env provider now db userId refreshQ pr ps an
  defines "H \<equiv> ai_portfolio L env provider now db userId refreshQ"
    and "request \<equiv> portfolioRequest pr (buildAnswerContext (answers ps)) an"
  assumes u: "findOneById (users db) userId = Some u"
    and att: "qString refreshQ = Some ''1'' \<or> Option.bind (ai u) portfolio = None"
    and pr: "profile u = Some pr" and ps: "psychometric u = Some ps"
    and an: "Option.bind (ai u) analysis = Some an"
  shows "(\<not> providerConfigured env \<longrightarrow>
            H = (respond 500 (ErrorBody ''OpenAI API key not configured''), db, [])) \<and>
         (\<forall>k. OPENAI_API_KEY env = Some k \<and> k \<noteq> [] \<longrightarrow>
            snd (snd H) =
              [\<lparr>call_request = request, requests_sent = requestsSent (provider k request)\<rparr>] \<and>
            1 \<le> requestsSent (provider k request) \<and> requestsSent (provider k request) \<le> 3 \<and>
            (\<forall>i. Suc i < requestsSent (provider k request) \<longrightarrow> retried (provider k request i)) \<and>
            (retried (lastAttempt (provider k request)) \<longrightarrow> requestsSent (provider k request) = 3) \<and>
            (\<forall>r msg. lastAttempt (provider k request) = Failed r (Some msg) \<longrightarrow>
               fst H = respond 502 (ErrorBody msg)) \<and>
            (\<forall>r. lastAttempt (provider k request) = Failed r None \<longrightarrow>
               fst H = respond 502 (ErrorBody ''OpenAI request failed'')) \<and>
            (lastAttempt (provider k request) = Answered None \<or>
             lastAttempt (provider k request) = Answered (Some []) \<longrightarrow>
               fst H = respond 502 (ErrorBody ''AI returned an empty response'')) \<and>
            (\<forall>c. lastAttempt (provider k request) = Answered (Some c) \<and> c \<noteq> [] \<longrightarrow>
               (JSON_parse L c = None \<longrightarrow>
                  fst H = respond 502 (ErrorRaw ''AI returned non-JSON output'' c)) \<and>
               (\<forall>j. JSON_parse L c = Some j \<longrightarrow>
                  (\<not> portfolioContract j \<longrightarrow>
                     (\<exists>iss. iss \<noteq> [] \<and>
                        fst H = respond 502
                          (ErrorDetails ''AI output did not match expected schema'' iss))) \<and>
                  (portfolioContract j \<longrightarrow> status (fst H) = 200))))"
proof (intro conjI allI impI)
  assume "\<not> providerConfigured env"
  from ai_portfolio_not_configured[OF u att pr ps an this]
  show "H = (respond 500 (ErrorBody ''OpenAI API key not configured''), db, [])"
    by (simp add: H_def)
next
  fix k assume "OPENAI_API_KEY env = Some k \<and> k \<noteq> []"
  then have k: "OPENAI_API_KEY env = Some k" "k \<noteq> []" by auto
  note called = ai_portfolio_called[OF u att pr ps an k, of L provider now, folded H_def request_def]
  show "snd (snd H) =
          [\<lparr>call_request = request, requests_sent = requestsSent (provider k request)\<rparr>]"
    using ai_portfolio_calls[OF u att pr ps an k, of L provider now] by (simp add: H_def request_def)
  show "1 \<le> requestsSent (provider k request)" "requestsSent (provider k request) \<le> 3"
    using requestsSent_bounds[of "provider k request"] by simp_all
  show "retried (provider k request i)" if "Suc i < requestsSent (provider k request)" for i
    using that by (rule requestsSent_retried)
  show "requestsSent (provider k request) = 3" if "retried (lastAttempt (provider k request))"
    using that by (rule lastAttempt_retried)
  show "fst H = respond 502 (ErrorBody msg)"
    if "lastAttempt (provider k request) = Failed r (Some msg)" for r msg
    unfolding called using that by simp
  show "fst H = respond 502 (ErrorBody ''OpenAI request failed'')"
    if "lastAttempt (provider k request) = Failed r None" for r
    unfolding called using that by simp
  show "fst H = respond 502 (ErrorBody ''AI returned an empty response'')"
    if "lastAttempt (provider k request) = Answered None \<or>
        lastAttempt (provider k request) = Answered (Some [])"
    unfolding called using that by auto
  show "fst H = respond 502 (ErrorRaw ''AI returned non-JSON output'' c)"
    if "lastAttempt (provider k request) = Answered (Some c) \<and> c \<noteq> []" "JSON_parse L c = None" for c
    unfolding called using that by simp
  show "\<exists>iss. iss \<noteq> [] \<and>
          fst H = respond 502 (ErrorDetails ''AI output did not match expected schema'' iss)"
    if "lastAttempt (provider k request) = Answered (Some c) \<and> c \<noteq> []" "JSON_parse L c = Some j"
      "\<not> portfolioContract j" for c j
  proof -
    from that(3) obtain iss where iss: "safeParse (aiPortfolioSchema j) = Inl iss"
      using aiPortfolioSchema_accepts[of j] by (cases "safeParse (aiPortfolioSchema j)") auto
    then have "iss \<noteq> []" using safeParse_issues aiPortfolioSchema_sound by blast
    moreover have "fst H = respond 502 (ErrorDetails ''AI output did not match expected schema'' iss)"
      unfolding called using that(1,2) iss by simp
    ultimately show ?thesis by blast
  qed
  show "status (fst H) = 200"
    if "lastAttempt (provider k request) = Answered (Some c) \<and> c \<noteq> []" "JSON_parse L c = Some j"
      "portfolioContract j" for c j
  proof -
    from that(3) obtain parsed where "safeParse (aiPortfolioSchema j) = Inr parsed"
      using aiPortfolioSchema_accepts[of j] by blast
    then show ?thesis unfolding called using that(1,2) by (simp add: respond_def)
  qed
qed

lemma ai_portfolio_outcome:
  assumes u: "findOneById (users db) userId = Some u"
    and att: "qString refreshQ = Some ''1'' \<or> Option.bind (ai u) portfolio = None"
    and pr: "profile u = Some pr" and ps: "psychometric u = Some ps"
    and an: "Option.bind (ai u) analysis = Some an"
    and k: "OPENAI_API_KEY env = Some k" "k \<noteq> []"
  shows "case generated L aiPortfolioSchema (lastAttempt (provider k (portfolioRequest pr (buildAnswerContext (answers ps)) an))) of
           Some parsed \<Rightarrow>
             ai_portfolio L env provider now db userId refreshQ =
               (respond 200 (PortfolioBody AI_MODEL now parsed),
                db\<lparr>users := fst (updateOne userId
                   (set_ai_portfolio \<lparr>data = parsed, slot_createdAt = now, slot_model = AI_MODEL\<rparr> now)
                   (users db))\<rparr>,
                [\<lparr>call_request = (portfolioRequest pr (buildAnswerContext (answers ps)) an), requests_sent = requestsSent (provider k (portfolioRequest pr (buildAnswerContext (answers ps)) an))\<rparr>]) \<and>
             findOneById (users (fst (snd (ai_portfolio L env provider now db userId refreshQ)))) userId =
               Some (set_ai_portfolio \<lparr>data = parsed, slot_createdAt = now, slot_model = AI_MODEL\<rparr> now u) \<and>
             Option.bind
               (ai (set_ai_portfolio \<lparr>data = parsed, slot_createdAt = now, slot_model = AI_MODEL\<rparr> now u))
               portfolio = Some \<lparr>data = parsed, slot_createdAt = now, slot_model = AI_MODEL\<rparr> \<and>
             job_roles (fst (snd (ai_portfolio L env provider now db userId refreshQ))) = job_roles db \<and>
             scholarships (fst (snd (ai_portfolio L env provider now db userId refreshQ))) = scholarships db \<and>
             (\<forall>other. other \<noteq> userId \<longrightarrow>
                findOneById (users (fst (snd (ai_portfolio L env provider now db userId refreshQ)))) other =
                findOneById (users db) other) \<and>
             (\<forall>L' env' provider' now' q'. qString q' \<noteq> Some ''1'' \<longrightarrow>
                ai_portfolio L' env' provider' now'
                  (fst (snd (ai_portfolio L env provider now db userId refreshQ))) userId q' =
                (respond 200 (PortfolioBody AI_MODEL now parsed),
                 fst (snd (ai_portfolio L env provider now db userId refreshQ)), []))
         | None \<Rightarrow>
             status (fst (ai_portfolio L env provider now db userId refreshQ)) = 502 \<and>
             fst (snd (ai_portfolio L env provider now db userId refreshQ)) = db \<and>
             snd (snd (ai_portfolio L env provider now db userId refreshQ)) = [\<lparr>call_request = (portfolioRequest pr (buildAnswerContext (answers ps)) an), requests_sent = requestsSent (provider k (portfolioRequest pr (buildAnswerContext (answers ps)) an))\<rparr>]"
proof (cases "generated L aiPortfolioSchema (lastAttempt (provider k (portfolioRequest pr (buildAnswerContext (answers ps)) an)))")
  case None
  from ai_portfolio_not_generated[where provider = provider, OF u att pr ps an k None] None
  show ?thesis by simp
next
  case (Some parsed)
  let ?slot = "\<lparr>data = parsed, slot_createdAt = now, slot_model = AI_MODEL\<rparr>"
  let ?db' = "db\<lparr>users := fst (updateOne userId (set_ai_portfolio ?slot now) (users db))\<rparr>"
  have r: "ai_portfolio L env provider now db userId refreshQ =
             (respond 200 (PortfolioBody AI_MODEL now parsed), ?db', [\<lparr>call_request = (portfolioRequest pr (buildAnswerContext (answers ps)) an), requests_sent = requestsSent (provider k (portfolioRequest pr (buildAnswerContext (answers ps)) an))\<rparr>])"
    by (rule ai_portfolio_generated[where provider = provider, OF u att pr ps an k Some])
  have d: "fst (snd (ai_portfolio L env provider now db userId refreshQ)) = ?db'"
    unfolding r by simp
  note raw = ai_portfolio_read_after_write[OF u refl, where slot = ?slot and t = now]
  have 1: "findOneById (users ?db') userId = Some (set_ai_portfolio ?slot now u)" by (rule raw(1))
  have 2: "Option.bind (ai (set_ai_portfolio ?slot now u)) portfolio = Some ?slot"
    by (simp add: set_ai_portfolio_def)
  have 3: "job_roles ?db' = job_roles db" "scholarships ?db' = scholarships db"
    using raw(2) by simp_all
  have 4: "\<forall>other. other \<noteq> userId \<longrightarrow>
             findOneById (users ?db') other = findOneById (users db) other"
    using raw(3) by blast
  have 5: "\<forall>L' env' provider' now' q'. qString q' \<noteq> Some ''1'' \<longrightarrow>
             ai_portfolio L' env' provider' now' ?db' userId q' =
             (respond 200 (PortfolioBody AI_MODEL now parsed), ?db', [])"
    using raw(4) by simp
  show ?thesis
    unfolding Some option.case d
    using r 1 2 3 4 5 by (intro conjI)
qed

lemma ai_portfolio_cache_policy:
  assumes u: "findOneById (users db) userId = Some u"
  shows "(\<forall>cached. qString refreshQ \<noteq> Some ''1'' \<and> Option.bind (ai u) portfolio = Some cached \<longrightarrow>
            ai_portfolio L env provider now db userId refreshQ =
              (respond 200 (PortfolioBody (slot_model cached) (slot_createdAt cached) (data cached)),
               db, []) \<and>
            (\<forall>L' env' provider' now' q'. qString q' \<noteq> Some ''1'' \<longrightarrow>
               ai_portfolio L' env' provider' now'
                 (fst (snd (ai_portfolio L env provider now db userId refreshQ))) userId q' =
               ai_portfolio L env provider now db userId refreshQ)) \<and>
         (qString refreshQ = Some ''1'' \<longrightarrow>
            (case firstClosedGate env u of
               Some g \<Rightarrow> ai_portfolio L env provider now db userId refreshQ = (gateError g, db, [])
             | None \<Rightarrow> length (snd (snd (ai_portfolio L env provider now db userId refreshQ))) = 1) \<and>
            (\<forall>pr ps an k.
               profile u = Some pr \<and> psychometric u = Some ps \<and>
               Option.bind (ai u) analysis = Some an \<and> OPENAI_API_KEY env = Some k \<and> k \<noteq> [] \<longrightarrow>
               (case generated L aiPortfolioSchema (lastAttempt (provider k (portfolioRequest pr (buildAnswerContext (answers ps)) an))) of
                  Some parsed \<Rightarrow>
                    ai_portfolio L env provider now db userId refreshQ =
                      (respond 200 (PortfolioBody AI_MODEL now parsed),
                       db\<lparr>users := fst (updateOne userId
                          (set_ai_portfolio \<lparr>data = parsed, slot_createdAt = now, slot_model = AI_MODEL\<rparr> now)
                          (users db))\<rparr>,
                       [\<lparr>call_request = (portfolioRequest pr (buildAnswerContext (answers ps)) an), requests_sent = requestsSent (provider k (portfolioRequest pr (buildAnswerContext (answers ps)) an))\<rparr>]) \<and>
                    findOneById (users (fst (snd (ai_portfolio L env provider now db userId refreshQ)))) userId =
                      Some (set_ai_portfolio \<lparr>data = parsed, slot_createdAt = now, slot_model = AI_MODEL\<rparr> now u) \<and>
                    Option.bind
                      (ai (set_ai_portfolio \<lparr>data = parsed, slot_createdAt = now, slot_model = AI_MODEL\<rparr> now u))
                      portfolio = Some \<lparr>data = parsed, slot_createdAt = now, slot_model = AI_MODEL\<rparr>
                | None \<Rightarrow>
                    status (fst (ai_portfolio L env provider now db userId refreshQ)) = 502 \<and>
                    fst (snd (ai_portfolio L env provider now db userId refreshQ)) = db \<and>
                    snd (snd (ai_portfolio L env provider now db userId refreshQ)) = [\<lparr>call_request = (portfolioRequest pr (buildAnswerContext (answers ps)) an), requests_sent = requestsSent (provider k (portfolioRequest pr (buildAnswerContext (answers ps)) an))\<rparr>])))"
proof (rule conjI)
  show "\<forall>cached. qString refreshQ \<noteq> Some ''1'' \<and> Option.bind (ai u) portfolio = Some cached \<longrightarrow>
            ai_portfolio L env provider now db userId refreshQ =
              (respond 200 (PortfolioBody (slot_model cached) (slot_createdAt cached) (data cached)),
               db, []) \<and>
            (\<forall>L' env' provider' now' q'. qString q' \<noteq> Some ''1'' \<longrightarrow>
               ai_portfolio L' env' provider' now'
                 (fst (snd (ai_portfolio L env provider now db userId refreshQ))) userId q' =
               ai_portfolio L env provider now db userId refreshQ)"
  proof (intro allI impI)
    fix cached
    assume "qString refreshQ \<noteq> Some ''1'' \<and> Option.bind (ai u) portfolio = Some cached"
    then have q: "qString refreshQ \<noteq> Some ''1''" and c: "Option.bind (ai u) portfolio = Some cached"
      by auto
    have 1: "ai_portfolio L env provider now db userId refreshQ =
              (respond 200 (PortfolioBody (slot_model cached) (slot_createdAt cached) (data cached)),
               db, [])"
      by (rule ai_portfolio_cached[OF u q c])
    have 2: "ai_portfolio L' env' provider' now' db userId q' =
              (respond 200 (PortfolioBody (slot_model cached) (slot_createdAt cached) (data cached)),
               db, [])" if "qString q' \<noteq> Some ''1''" for L' env' provider' now' q'
      by (rule ai_portfolio_cached[OF u that c])
    show "ai_portfolio L env provider now db userId refreshQ =
              (respond 200 (PortfolioBody (slot_model cached) (slot_createdAt cached) (data cached)),
               db, []) \<and>
            (\<forall>L' env' provider' now' q'. qString q' \<noteq> Some ''1'' \<longrightarrow>
               ai_portfolio L' env' provider' now'
                 (fst (snd (ai_portfolio L env provider now db userId refreshQ))) userId q' =
               ai_portfolio L env provider now db userId refreshQ)"
      using 1 2 by simp
  qed
next
  show "qString refreshQ = Some ''1'' \<longrightarrow>
            (case firstClosedGate env u of
               Some g \<Rightarrow> ai_portfolio L env provider now db userId refreshQ = (gateError g, db, [])
             | None \<Rightarrow> length (snd (snd (ai_portfolio L env provider now db userId refreshQ))) = 1) \<and>
            (\<forall>pr ps an k.
               profile u = Some pr \<and> psychometric u = Some ps \<and>
               Option.bind (ai u) analysis = Some an \<and> OPENAI_API_KEY env = Some k \<and> k \<noteq> [] \<longrightarrow>
               (case generated L aiPortfolioSchema (lastAttempt (provider k (portfolioRequest pr (buildAnswerContext (answers ps)) an))) of
                  Some parsed \<Rightarrow>
                    ai_portfolio L env provider now db userId refreshQ =
                      (respond 200 (PortfolioBody AI_MODEL now parsed),
                       db\<lparr>users := fst (updateOne userId
                          (set_ai_portfolio \<lparr>data = parsed, slot_createdAt = now, slot_model = AI_MODEL\<rparr> now)
                          (users db))\<rparr>,
                       [\<lparr>call_request = (portfolioRequest pr (buildAnswerContext (answers ps)) an), requests_sent = requestsSent (provider k (portfolioRequest pr (buildAnswerContext (answers ps)) an))\<rparr>]) \<and>
                    findOneById (users (fst (snd (ai_portfolio L env provider now db userId refreshQ)))) userId =
                      Some (set_ai_portfolio \<lparr>data = parsed, slot_createdAt = now, slot_model = AI_MODEL\<rparr> now u) \<and>
                    Option.bind
                      (ai (set_ai_portfolio \<lparr>data = parsed, slot_createdAt = now, slot_model = AI_MODEL\<rparr> now u))
                      portfolio = Some \<lparr>data = parsed, slot_createdAt = now, slot_model = AI_MODEL\<rparr>
                | None \<Rightarrow>
                    status (fst (ai_portfolio L env provider now db userId refreshQ)) = 502 \<and>
                    fst (snd (ai_portfolio L env provider now db userId refreshQ)) = db \<and>
                    snd (snd (ai_portfolio L env provider now db userId refreshQ)) = [\<lparr>call_request = (portfolioRequest pr (buildAnswerContext (answers ps)) an), requests_sent = requestsSent (provider k (portfolioRequest pr (buildAnswerContext (answers ps)) an))\<rparr>]))"
  proof (intro impI conjI allI)
    assume "qString refreshQ = Some ''1''"
    then have att: "qString refreshQ = Some ''1'' \<or> Option.bind (ai u) portfolio = None" by simp
    show "case firstClosedGate env u of
               Some g \<Rightarrow> ai_portfolio L env provider now db userId refreshQ = (gateError g, db, [])
             | None \<Rightarrow> length (snd (snd (ai_portfolio L env provider now db userId refreshQ))) = 1"
      by (rule ai_portfolio_gates[OF u att])
    fix pr ps an k
    assume "profile u = Some pr \<and> psychometric u = Some ps \<and>
            Option.bind (ai u) analysis = Some an \<and> OPENAI_API_KEY env = Some k \<and> k \<noteq> []"
    then have pr: "profile u = Some pr" and ps: "psychometric u = Some ps"
      and an: "Option.bind (ai u) analysis = Some an"
      and k: "OPENAI_API_KEY env = Some k" "k \<noteq> []" by auto
    note o = ai_portfolio_outcome[where provider = provider, OF u att pr ps an k, of L now]
    show "case generated L aiPortfolioSchema (lastAttempt (provider k (portfolioRequest pr (buildAnswerContext (answers ps)) an))) of
                  Some parsed \<Rightarrow>
                    ai_portfolio L env provider now db userId refreshQ =
                      (respond 200 (PortfolioBody AI_MODEL now parsed),
                       db\<lparr>users := fst (updateOne userId
                          (set_ai_portfolio \<lparr>data = parsed, slot_createdAt = now, slot_model = AI_MODEL\<rparr> now)
                          (users db))\<rparr>,
                       [\<lparr>call_request = (portfolioRequest pr (buildAnswerContext (answers ps)) an), requests_sent = requestsSent (provider k (portfolioRequest pr (buildAnswerContext (answers ps)) an))\<rparr>]) \<and>
                    findOneById (users (fst (snd (ai_portfolio L env provider now db userId refreshQ)))) userId =
                      Some (set_ai_portfolio \<lparr>data = parsed, slot_createdAt = now, slot_model = AI_MODEL\<rparr> now u) \<and>
                    Option.bind
                      (ai (set_ai_portfolio \<lparr>data = parsed, slot_createdAt = now, slot_model = AI_MODEL\<rparr> now u))
                      portfolio = Some \<lparr>data = parsed, slot_createdAt = now, slot_model = AI_MODEL\<rparr>
                | None \<Rightarrow>
                    status (fst (ai_portfolio L env provider now db userId refreshQ)) = 502 \<and>
                    fst (snd (ai_portfolio L env provider now db userId refreshQ)) = db \<and>
                    snd (snd (ai_portfolio L env provider now db userId refreshQ)) = [\<lparr>call_request = (portfolioRequest pr (buildAnswerContext (answers ps)) an), requests_sent = requestsSent (provider k (portfolioRequest pr (buildAnswerContext (answers ps)) an))\<rparr>]"
    proof (cases "generated L aiPortfolioSchema (lastAttempt (provider k (portfolioRequest pr (buildAnswerContext (answers ps)) an)))")
      case None
      from o show ?thesis unfolding None option.case .
    next
      case (Some parsed)
      from o show ?thesis unfolding Some option.case by (elim conjE) (intro conjI; assumption)
    qed
  qed
qed

lemma ai_portfolio_failures:
  "(generated L aiPortfolioSchema a = None) =
   ((\<exists>retryable err. a = Failed retryable err) \<or> a = Answered None \<or> a = Answered (Some []) \<or>
    (\<exists>c. a = Answered (Some c) \<and> c \<noteq> [] \<and>
       (JSON_parse L c = None \<or> (\<exists>j. JSON_parse L c = Some j \<and> \<not> portfolioContract j))))"
proof -
  have "(\<forall>v. safeParse (aiPortfolioSchema j) \<noteq> Inr v) = (\<not> portfolioContract j)" for j
    using aiPortfolioSchema_accepts[of j] by blast
  then show ?thesis unfolding generated_None by simp
qed

lemma ai_portfolio_slot_written_only_on_success:
  "(fst (snd (ai_portfolio L env provider now db userId refreshQ)) = db \<or>
    (\<exists>u pr ps an k parsed.
       findOneById (users db) userId = Some u \<and>
       (qString refreshQ = Some ''1'' \<or> Option.bind (ai u) portfolio = None) \<and>
       profile u = Some pr \<and> psychometric u = Some ps \<and> Option.bind (ai u) analysis = Some an \<and>
       OPENAI_API_KEY env = Some k \<and> k \<noteq> [] \<and>
       generated L aiPortfolioSchema (lastAttempt (provider k (portfolioRequest pr (buildAnswerContext (answers ps)) an))) = Some parsed \<and>
       ai_portfolio L env provider now db userId refreshQ =
         (respond 200 (PortfolioBody AI_MODEL now parsed),
          db\<lparr>users := fst (updateOne userId
             (set_ai_portfolio \<lparr>data = parsed, slot_createdAt = now, slot_model = AI_MODEL\<rparr> now)
             (users db))\<rparr>,
          [\<lparr>call_request = (portfolioRequest pr (buildAnswerContext (answers ps)) an), requests_sent = requestsSent (provider k (portfolioRequest pr (buildAnswerContext (answers ps)) an))\<rparr>]))) \<and>
   (status (fst (ai_portfolio L env provider now db userId refreshQ)) \<noteq> 200 \<longrightarrow>
      fst (snd (ai_portfolio L env provider now db userId refreshQ)) = db) \<and>
   (\<forall>u. findOneById (users db) userId = Some u \<and>
        (qString refreshQ = Some ''1'' \<or> Option.bind (ai u) portfolio = None) \<longrightarrow>
      (\<forall>g. firstClosedGate env u = Some g \<longrightarrow>
         ai_portfolio L env provider now db userId refreshQ = (gateError g, db, [])) \<and>
      (\<forall>pr ps an k.
         profile u = Some pr \<and> psychometric u = Some ps \<and>
         Option.bind (ai u) analysis = Some an \<and> OPENAI_API_KEY env = Some k \<and> k \<noteq> [] \<longrightarrow>
         (case generated L aiPortfolioSchema (lastAttempt (provider k (portfolioRequest pr (buildAnswerContext (answers ps)) an))) of
            Some parsed \<Rightarrow>
              ai_portfolio L env provider now db userId refreshQ =
                (respond 200 (PortfolioBody AI_MODEL now parsed),
                 db\<lparr>users := fst (updateOne userId
                    (set_ai_portfolio \<lparr>data = parsed, slot_createdAt = now, slot_model = AI_MODEL\<rparr> now)
                    (users db))\<rparr>,
                 [\<lparr>call_request = (portfolioRequest pr (buildAnswerContext (answers ps)) an), requests_sent = requestsSent (provider k (portfolioRequest pr (buildAnswerContext (answers ps)) an))\<rparr>]) \<and>
              findOneById (users (fst (snd (ai_portfolio L env provider now db userId refreshQ)))) userId =
                Some (set_ai_portfolio \<lparr>data = parsed, slot_createdAt = now, slot_model = AI_MODEL\<rparr> now u) \<and>
              Option.bind
                (ai (set_ai_portfolio \<lparr>data = parsed, slot_createdAt = now, slot_model = AI_MODEL\<rparr> now u))
                portfolio = Some \<lparr>data = parsed, slot_createdAt = now, slot_model = AI_MODEL\<rparr> \<and>
              job_roles (fst (snd (ai_portfolio L env provider now db userId refreshQ))) = job_roles db \<and>
              scholarships (fst (snd (ai_portfolio L env provider now db userId refreshQ))) = scholarships db \<and>
              (\<forall>other. other \<noteq> userId \<longrightarrow>
                 findOneById (users (fst (snd (ai_portfolio L env provider now db userId refreshQ)))) other =
                 findOneById (users db) other) \<and>
              (\<forall>L' env' provider' now' q'. qString q' \<noteq> Some ''1'' \<longrightarrow>
                 ai_portfolio L' env' provider' now'
                   (fst (snd (ai_portfolio L env provider now db userId refreshQ))) userId q' =
                 (respond 200 (PortfolioBody AI_MODEL now parsed),
                  fst (snd (ai_portfolio L env provider now db userId refreshQ)), []))
          | None \<Rightarrow>
              status (fst (ai_portfolio L env provider now db userId refreshQ)) = 502 \<and>
              fst (snd (ai_portfolio L env provider now db userId refreshQ)) = db \<and>
              snd (snd (ai_portfolio L env provider now db userId refreshQ)) = [\<lparr>call_request = (portfolioRequest pr (buildAnswerContext (answers ps)) an), requests_sent = requestsSent (provider k (portfolioRequest pr (buildAnswerContext (answers ps)) an))\<rparr>]))) \<and>
   (\<forall>a. (generated L aiPortfolioSchema a = None) =
      ((\<exists>retryable err. a = Failed retryable err) \<or> a = Answered None \<or> a = Answered (Some []) \<or>
       (\<exists>c. a = Answered (Some c) \<and> c \<noteq> [] \<and>
          (JSON_parse L c = None \<or> (\<exists>j. JSON_parse L c = Some j \<and> \<not> portfolioContract j)))))"
proof (intro conjI allI impI)
  show w: "fst (snd (ai_portfolio L env provider now db userId refreshQ)) = db \<or>
    (\<exists>u pr ps an k parsed.
       findOneById (users db) userId = Some u \<and>
       (qString refreshQ = Some ''1'' \<or> Option.bind (ai u) portfolio = None) \<and>
       profile u = Some pr \<and> psychometric u = Some ps \<and> Option.bind (ai u) analysis = Some an \<and>
       OPENAI_API_KEY env = Some k \<and> k \<noteq> [] \<and>
       generated L aiPortfolioSchema (lastAttempt (provider k (portfolioRequest pr (buildAnswerContext (answers ps)) an))) = Some parsed \<and>
       ai_portfolio L env provider now db userId refreshQ =
         (respond 200 (PortfolioBody AI_MODEL now parsed),
          db\<lparr>users := fst (updateOne userId
             (set_ai_portfolio \<lparr>data = parsed, slot_createdAt = now, slot_model = AI_MODEL\<rparr> now)
             (users db))\<rparr>,
          [\<lparr>call_request = (portfolioRequest pr (buildAnswerContext (answers ps)) an), requests_sent = requestsSent (provider k (portfolioRequest pr (buildAnswerContext (answers ps)) an))\<rparr>]))"
    by (rule ai_portfolio_write_only_on_success)
  show "fst (snd (ai_portfolio L env provider now db userId refreshQ)) = db"
    if "status (fst (ai_portfolio L env provider now db userId refreshQ)) \<noteq> 200"
    using w that by (auto simp: respond_def)
next
  fix u g
  assume a: "findOneById (users db) userId = Some u \<and>
        (qString refreshQ = Some ''1'' \<or> Option.bind (ai u) portfolio = None)"
    and g: "firstClosedGate env u = Some g"
  from a have u: "findOneById (users db) userId = Some u"
    and att: "qString refreshQ = Some ''1'' \<or> Option.bind (ai u) portfolio = None" by auto
  from ai_portfolio_gates[OF u att, where env = env and L = L and provider = provider and now = now] g
  show "ai_portfolio L env provider now db userId refreshQ = (gateError g, db, [])" by simp
next
  fix u pr ps an k
  assume a: "findOneById (users db) userId = Some u \<and>
        (qString refreshQ = Some ''1'' \<or> Option.bind (ai u) portfolio = None)"
    and b: "profile u = Some pr \<and> psychometric u = Some ps \<and>
         Option.bind (ai u) analysis = Some an \<and> OPENAI_API_KEY env = Some k \<and> k \<noteq> []"
  from a have u: "findOneById (users db) userId = Some u"
    and att: "qString refreshQ = Some ''1'' \<or> Option.bind (ai u) portfolio = None" by auto
  from b have pr: "profile u = Some pr" and ps: "psychometric u = Some ps"
      and an: "Option.bind (ai u) analysis = Some an"
      and k: "OPENAI_API_KEY env = Some k" "k \<noteq> []" by auto
  show "case generated L aiPortfolioSchema (lastAttempt (provider k (portfolioRequest pr (buildAnswerContext (answers ps)) an))) of
            Some parsed \<Rightarrow>
              ai_portfolio L env provider now db userId refreshQ =
                (respond 200 (PortfolioBody AI_MODEL now parsed),
                 db\<lparr>users := fst (updateOne userId
                    (set_ai_portfolio \<lparr>data = parsed, slot_createdAt = now, slot_model = AI_MODEL\<rparr> now)
                    (users db))\<rparr>,
                 [\<lparr>call_request = (portfolioRequest pr (buildAnswerContext (answers ps)) an), requests_sent = requestsSent (provider k (portfolioRequest pr (buildAnswerContext (answers ps)) an))\<rparr>]) \<and>
              findOneById (users (fst (snd (ai_portfolio L env provider now db userId refreshQ)))) userId =
                Some (set_ai_portfolio \<lparr>data = parsed, slot_createdAt = now, slot_model = AI_MODEL\<rparr> now u) \<and>
              Option.bind
                (ai (set_ai_portfolio \<lparr>data = parsed, slot_createdAt = now, slot_model = AI_MODEL\<rparr> now u))
                portfolio = Some \<lparr>data = parsed, slot_createdAt = now, slot_model = AI_MODEL\<rparr> \<and>
              job_roles (fst (snd (ai_portfolio L env provider now db userId refreshQ))) = job_roles db \<and>
              scholarships (fst (snd (ai_portfolio L env provider now db userId refreshQ))) = scholarships db \<and>
              (\<forall>other. other \<noteq> userId \<longrightarrow>
                 findOneById (users (fst (snd (ai_portfolio L env provider now db userId refreshQ)))) other =
                 findOneById (users db) other) \<and>
              (\<forall>L' env' provider' now' q'. qString q' \<noteq> Some ''1'' \<longrightarrow>
                 ai_portfolio L' env' provider' now'
                   (fst (snd (ai_portfolio L env provider now db userId refreshQ))) userId q' =
                 (respond 200 (PortfolioBody AI_MODEL now parsed),
                  fst (snd (ai_portfolio L env provider now db userId refreshQ)), []))
          | None \<Rightarrow>
              status (fst (ai_portfolio L env provider now db userId refreshQ)) = 502 \<and>
              fst (snd (ai_portfolio L env provider now db userId refreshQ)) = db \<and>
              snd (snd (ai_portfolio L env provider now db userId refreshQ)) = [\<lparr>call_request = (portfolioRequest pr (buildAnswerContext (answers ps)) an), requests_sent = requestsSent (provider k (portfolioRequest pr (buildAnswerContext (answers ps)) an))\<rparr>]"
    by (rule ai_portfolio_outcome[where provider = provider, OF u att pr ps an k])
next
  fix a
  show "(generated L aiPortfolioSchema a = None) =
      ((\<exists>retryable err. a = Failed retryable err) \<or> a = Answered None \<or> a = Answered (Some []) \<or>
       (\<exists>c. a = Answered (Some c) \<and> c \<noteq> [] \<and>
          (JSON_parse L c = None \<or> (\<exists>j. JSON_parse L c = Some j \<and> \<not> portfolioContract j))))"
    by (rule ai_portfolio_failures)
qed

lemma ai_career_roadmap_classified:
  fixes L env provider now db userId refreshQ pr ps an
  defines "H \<equiv> ai_career_roadmap L env provider now db userId refreshQ"
    and "request \<equiv> roadmapRequest pr (buildAnswerContext (answers ps)) an"
  assumes u: "findOneById (users db) userId = Some u"
    and att: "qString refreshQ = Some ''1'' \<or> Option.bind (ai u) roadmap = None"
    and pr: "profile u = Some pr" and ps: "psychometric u = Some ps"
    and an: "Option.bind (ai u) analysis = Some an"
  shows "(\<not> providerConfigured env \<longrightarrow>
            H = (respond 500 (ErrorBody ''OpenAI API key not configured''), db, [])) \<and>
         (\<forall>k. OPENAI_API_KEY env = Some k \<and> k \<noteq> [] \<longrightarrow>
            snd (snd H) =
              [\<lparr>call_request = request, requests_sent = requestsSent (provider k request)\<rparr>] \<and>
            1 \<le> requestsSent (provider k request) \<and> requestsSent (provider k request) \<le> 3 \<and>
            (\<forall>i. Suc i < requestsSent (provider k request) \<longrightarrow> retried (provider k request i)) \<and>
            (retried (lastAttempt (provider k request)) \<longrightarrow> requestsSent (provider k request) = 3) \<and>
            (\<forall>r msg. lastAttempt (provider k request) = Failed r (Some msg) \<longrightarrow>
               fst H = respond 502 (ErrorBody msg)) \<and>
            (\<forall>r. lastAttempt (provider k request) = Failed r None \<longrightarrow>
               fst H = respond 502 (ErrorBody ''OpenAI request failed'')) \<and>
            (lastAttempt (provider k request) = Answered None \<or>
             lastAttempt (provider k request) = Answered (Some []) \<longrightarrow>
               fst H = respond 502 (ErrorBody ''AI returned an empty response'')) \<and>
            (\<forall>c. lastAttempt (provider k request) = Answered (Some c) \<and> c \<noteq> [] \<longrightarrow>
               (JSON_parse L c = None \<longrightarrow>
                  fst H = respond 502 (ErrorRaw ''AI returned non-JSON output'' c)) \<and>
               (\<forall>j. JSON_parse L c = Some j \<longrightarrow>
                  (\<not> roadmapContract j \<longrightarrow>
                     (\<exists>iss. iss \<noteq> [] \<and>
                        fst H = respond 502
                          (ErrorDetails ''AI output did not match expected schema'' iss))) \<and>
                  (roadmapContract j \<longrightarrow> status (fst H) = 200))))"
proof (intro conjI allI impI)
  assume "\<not> providerConfigured env"
  from ai_career_roadmap_not_configured[OF u att pr ps an this]
  show "H = (respond 500 (ErrorBody ''OpenAI API key not configured''), db, [])"
    by (simp add: H_def)
next
  fix k assume "OPENAI_API_KEY env = Some k \<and> k \<noteq> []"
  then have k: "OPENAI_API_KEY env = Some k" "k \<noteq> []" by auto
  note called = ai_career_roadmap_called[OF u att pr ps an k, of L provider now, folded H_def request_def]
  show "snd (snd H) =
          [\<lparr>call_request = request, requests_sent = requestsSent (provider k request)\<rparr>]"
    using ai_career_roadmap_calls[OF u att pr ps an k, of L provider now] by (simp add: H_def request_def)
  show "1 \<le> requestsSent (provider k request)" "requestsSent (provider k request) \<le> 3"
    using requestsSent_bounds[of "provider k request"] by simp_all
  show "retried (provider k request i)" if "Suc i < requestsSent (provider k request)" for i
    using that by (rule requestsSent_retried)
  show "requestsSent (provider k request) = 3" if "retried (lastAttempt (provider k request))"
    using that by (rule lastAttempt_retried)
  show "fst H = respond 502 (ErrorBody msg)"
    if "lastAttempt (provider k request) = Failed r (Some msg)" for r msg
    unfolding called using that by simp
  show "fst H = respond 502 (ErrorBody ''OpenAI request failed'')"
    if "lastAttempt (provider k request) = Failed r None" for r
    unfolding called using that by simp
  show "fst H = respond 502 (ErrorBody ''AI returned an empty response'')"
    if "lastAttempt (provider k request) = Answered None \<or>
        lastAttempt (provider k request) = Answered (Some [])"
    unfolding called using that by auto
  show "fst H = respond 502 (ErrorRaw ''AI returned non-JSON output'' c)"
    if "lastAttempt (provider k request) = Answered (Some c) \<and> c \<noteq> []" "JSON_parse L c = None" for c
    unfolding called using that by simp
  show "\<exists>iss. iss \<noteq> [] \<and>
          fst H = respond 502 (ErrorDetails ''AI output did not match expected schema'' iss)"
    if "lastAttempt (provider k request) = Answered (Some c) \<and> c \<noteq> []" "JSON_parse L c = Some j"
      "\<not> roadmapContract j" for c j
  proof -
    from that(3) obtain iss where iss: "safeParse (aiRoadmapSchema j) = Inl iss"
      using aiRoadmapSchema_accepts[of j] by (cases "safeParse (aiRoadmapSchema j)") auto
    then have "iss \<noteq> []" using safeParse_issues aiRoadmapSchema_sound by blast
    moreover have "fst H = respond 502 (ErrorDetails ''AI output did not match expected schema'' iss)"
      unfolding called using that(1,2) iss by simp
    ultimately show ?thesis by blast
  qed
  show "status (fst H) = 200"
    if "lastAttempt (provider k request) = Answered (Some c) \<and> c \<noteq> []" "JSON_parse L c = Some j"
      "roadmapContract j" for c j
  proof -
    from that(3) obtain parsed where "safeParse (aiRoadmapSchema j) = Inr parsed"
      using aiRoadmapSchema_accepts[of j] by blast
    then show ?thesis unfolding called using that(1,2) by (simp add: respond_def)
  qed
qed

lemma ai_career_roadmap_outcome:
  assumes u: "findOneById (users db) userId = Some u"
    and att: "qString refreshQ = Some ''1'' \<or> Option.bind (ai u) roadmap = None"
    and pr: "profile u = Some pr" and ps: "psychometric u = Some ps"
    and an: "Option.bind (ai u) analysis = Some an"
    and k: "OPENAI_API_KEY env = Some k" "k \<noteq> []"
  shows "case generated L aiRoadmapSchema (lastAttempt (provider k (roadmapRequest pr (buildAnswerContext (answers ps)) an))) of
           Some parsed \<Rightarrow>
             ai_career_roadmap L env provider now db userId refreshQ =
               (respond 200 (RoadmapBody AI_MODEL now parsed),
                db\<lparr>users := fst (updateOne userId
                   (set_ai_roadmap \<lparr>data = parsed, slot_createdAt = now, slot_model = AI_MODEL\<rparr> now)
                   (users db))\<rparr>,
                [\<lparr>call_request = (roadmapRequest pr (buildAnswerContext (answers ps)) an), requests_sent = requestsSent (provider k (roadmapRequest pr (buildAnswerContext (answers ps)) an))\<rparr>]) \<and>
             findOneById (users (fst (snd (ai_career_roadmap L env provider now db userId refreshQ)))) userId =
               Some (set_ai_roadmap \<lparr>data = parsed, slot_createdAt = now, slot_model = AI_MODEL\<rparr> now u) \<and>
             Option.bind
               (ai (set_ai_roadmap \<lparr>data = parsed, slot_createdAt = now, slot_model = AI_MODEL\<rparr> now u))
               roadmap = Some \<lparr>data = parsed, slot_createdAt = now, slot_model = AI_MODEL\<rparr> \<and>
             job_roles (fst (snd (ai_career_roadmap L env provider now db userId refreshQ))) = job_roles db \<and>
             scholarships (fst (snd (ai_career_roadmap L env provider now db userId refreshQ))) = scholarships db \<and>
             (\<forall>other. other \<noteq> userId \<longrightarrow>
                findOneById (users (fst (snd (ai_career_roadmap L env provider now db userId refreshQ)))) other =
                findOneById (users db) other) \<and>
             (\<forall>L' env' provider' now' q'. qString q' \<noteq> Some ''1'' \<longrightarrow>
                ai_career_roadmap L' env' provider' now'
                  (fst (snd (ai_career_roadmap L env provider now db userId refreshQ))) userId q' =
                (respond 200 (RoadmapBody AI_MODEL now parsed),
                 fst (snd (ai_career_roadmap L env provider now db userId refreshQ)), []))
         | None \<Rightarrow>
             status (fst (ai_career_roadmap L env provider now db userId refreshQ)) = 502 \<and>
             fst (snd (ai_career_roadmap L env provider now db userId refreshQ)) = db \<and>
             snd (snd (ai_career_roadmap L env provider now db userId refreshQ)) = [\<lparr>call_request = (roadmapRequest pr (buildAnswerContext (answers ps)) an), requests_sent = requestsSent (provider k (roadmapRequest pr (buildAnswerContext (answers ps)) an))\<rparr>]"
proof (cases "generated L aiRoadmapSchema (lastAttempt (provider k (roadmapRequest pr (buildAnswerContext (answers ps)) an)))")
  case None
  from ai_career_roadmap_not_generated[where provider = provider, OF u att pr ps an k None] None
  show ?thesis by simp
next
  case (Some parsed)
  let ?slot = "\<lparr>data = parsed, slot_createdAt = now, slot_model = AI_MODEL\<rparr>"
  let ?db' = "db\<lparr>users := fst (updateOne userId (set_ai_roadmap ?slot now) (users db))\<rparr>"
  have r: "ai_career_roadmap L env provider now db userId refreshQ =
             (respond 200 (RoadmapBody AI_MODEL now parsed), ?db', [\<lparr>call_request = (roadmapRequest pr (buildAnswerContext (answers ps)) an), requests_sent = requestsSent (provider k (roadmapRequest pr (buildAnswerContext (answers ps)) an))\<rparr>])"
    by (rule ai_career_roadmap_generated[where provider = provider, OF u att pr ps an k Some])
  have d: "fst (snd (ai_career_roadmap L env provider now db userId refreshQ)) = ?db'"
    unfolding r by simp
  note raw = ai_career_roadmap_read_after_write[OF u refl, where slot = ?slot and t = now]
  have 1: "findOneById (users ?db') userId = Some (set_ai_roadmap ?slot now u)" by (rule raw(1))
  have 2: "Option.bind (ai (set_ai_roadmap ?slot now u)) roadmap = Some ?slot"
    by (simp add: set_ai_roadmap_def)
  have 3: "job_roles ?db' = job_roles db" "scholarships ?db' = scholarships db"
    using raw(2) by simp_all
  have 4: "\<forall>other. other \<noteq> userId \<longrightarrow>
             findOneById (users ?db') other = findOneById (users db) other"
    using raw(3) by blast
  have 5: "\<forall>L' env' provider' now' q'. qString q' \<noteq> Some ''1'' \<longrightarrow>
             ai_career_roadmap L' env' provider' now' ?db' userId q' =
             (respond 200 (RoadmapBody AI_MODEL now parsed), ?db', [])"
    using raw(4) by simp
  show ?thesis
    unfolding Some option.case d
    using r 1 2 3 4 5 by (intro conjI)
qed

lemma ai_career_roadmap_cache_policy:
  assumes u: "findOneById (users db) userId = Some u"
  shows "(\<forall>cached. qString refreshQ \<noteq> Some ''1'' \<and> Option.bind (ai u) roadmap = Some cached \<longrightarrow>
            ai_career_roadmap L env provider now db userId refreshQ =
              (respond 200 (RoadmapBody (slot_model cached) (slot_createdAt cached) (data cached)),
               db, []) \<and>
            (\<forall>L' env' provider' now' q'. qString q' \<noteq> Some ''1'' \<longrightarrow>
               ai_career_roadmap L' env' provider' now'
                 (fst (snd (ai_career_roadmap L env provider now db userId refreshQ))) userId q' =
               ai_career_roadmap L env provider now db userId refreshQ)) \<and>
         (qString refreshQ = Some ''1'' \<longrightarrow>
            (case firstClosedGate env u of
               Some g \<Rightarrow> ai_career_roadmap L env provider now db userId refreshQ = (gateError g, db, [])
             | None \<Rightarrow> length (snd (snd (ai_career_roadmap L env provider now db userId refreshQ))) = 1) \<and>
            (\<forall>pr ps an k.
               profile u = Some pr \<and> psychometric u = Some ps \<and>
               Option.bind (ai u) analysis = Some an \<and> OPENAI_API_KEY env = Some k \<and> k \<noteq> [] \<longrightarrow>
               (case generated L aiRoadmapSchema (lastAttempt (provider k (roadmapRequest pr (buildAnswerContext (answers ps)) an))) of
                  Some parsed \<Rightarrow>
                    ai_career_roadmap L env provider now db userId refreshQ =
                      (respond 200 (RoadmapBody AI_MODEL now parsed),
                       db\<lparr>users := fst (updateOne userId
                          (set_ai_roadmap \<lparr>data = parsed, slot_createdAt = now, slot_model = AI_MODEL\<rparr> now)
                          (users db))\<rparr>,
                       [\<lparr>call_request = (roadmapRequest pr (buildAnswerContext (answers ps)) an), requests_sent = requestsSent (provider k (roadmapRequest pr (buildAnswerContext (answers ps)) an))\<rparr>]) \<and>
                    findOneById (users (fst (snd (ai_career_roadmap L env provider now db userId refreshQ)))) userId =
                      Some (set_ai_roadmap \<lparr>data = parsed, slot_createdAt = now, slot_model = AI_MODEL\<rparr> now u) \<and>
                    Option.bind
                      (ai (set_ai_roadmap \<lparr>data = parsed, slot_createdAt = now, slot_model = AI_MODEL\<rparr> now u))
                      roadmap = Some \<lparr>data = parsed, slot_createdAt = now, slot_model = AI_MODEL\<rparr>
                | None \<Rightarrow>
                    status (fst (ai_career_roadmap L env provider now db userId refreshQ)) = 502 \<and>
                    fst (snd (ai_career_roadmap L env provider now db userId refreshQ)) = db \<and>
                    snd (snd (ai_career_roadmap L env provider now db userId refreshQ)) = [\<lparr>call_request = (roadmapRequest pr (buildAnswerContext (answers ps)) an), requests_sent = requestsSent (provider k (roadmapRequest pr (buildAnswerContext (answers ps)) an))\<rparr>])))"
proof (rule conjI)
  show "\<forall>cached. qString refreshQ \<noteq> Some ''1'' \<and> Option.bind (ai u) roadmap = Some cached \<longrightarrow>
            ai_career_roadmap L env provider now db userId refreshQ =
              (respond 200 (RoadmapBody (slot_model cached) (slot_createdAt cached) (data cached)),
               db, []) \<and>
            (\<forall>L' env' provider' now' q'. qString q' \<noteq> Some ''1'' \<longrightarrow>
               ai_career_roadmap L' env' provider' now'
                 (fst (snd (ai_career_roadmap L env provider now db userId refreshQ))) userId q' =
               ai_career_roadmap L env provider now db userId refreshQ)"
  proof (intro allI impI)
    fix cached
    assume "qString refreshQ \<noteq> Some ''1'' \<and> Option.bind (ai u) roadmap = Some cached"
    then have q: "qString refreshQ \<noteq> Some ''1''" and c: "Option.bind (ai u) roadmap = Some cached"
      by auto
    have 1: "ai_career_roadmap L env provider now db userId refreshQ =
              (respond 200 (RoadmapBody (slot_model cached) (slot_createdAt cached) (data cached)),
               db, [])"
      by (rule ai_career_roadmap_cached[OF u q c])
    have 2: "ai_career_roadmap L' env' provider' now' db userId q' =
              (respond 200 (RoadmapBody (slot_model cached) (slot_createdAt cached) (data cached)),
               db, [])" if "qString q' \<noteq> Some ''1''" for L' env' provider' now' q'
      by (rule ai_career_roadmap_cached[OF u that c])
    show "ai_career_roadmap L env provider now db userId refreshQ =
              (respond 200 (RoadmapBody (slot_model cached) (slot_createdAt cached) (data cached)),
               db, []) \<and>
            (\<forall>L' env' provider' now' q'. qString q' \<noteq> Some ''1'' \<longrightarrow>
               ai_career_roadmap L' env' provider' now'
                 (fst (snd (ai_career_roadmap L env provider now db userId refreshQ))) userId q' =
               ai_career_roadmap L env provider now db userId refreshQ)"
      using 1 2 by simp
  qed
next
  show "qString refreshQ = Some ''1'' \<longrightarrow>
            (case firstClosedGate env u of
               Some g \<Rightarrow> ai_career_roadmap L env provider now db userId refreshQ = (gateError g, db, [])
             | None \<Rightarrow> length (snd (snd (ai_career_roadmap L env provider now db userId refreshQ))) = 1) \<and>
            (\<forall>pr ps an k.
               profile u = Some pr \<and> psychometric u = Some ps \<and>
               Option.bind (ai u) analysis = Some an \<and> OPENAI_API_KEY env = Some k \<and> k \<noteq> [] \<longrightarrow>
               (case generated L aiRoadmapSchema (lastAttempt (provider k (roadmapRequest pr (buildAnswerContext (answers ps)) an))) of
                  Some parsed \<Rightarrow>
                    ai_career_roadmap L env provider now db userId refreshQ =
                      (respond 200 (RoadmapBody AI_MODEL now parsed),
                       db\<lparr>users := fst (updateOne userId
                          (set_ai_roadmap \<lparr>data = parsed, slot_createdAt = now, slot_model = AI_MODEL\<rparr> now)
                          (users db))\<rparr>,
                       [\<lparr>call_request = (roadmapRequest pr (buildAnswerContext (answers ps)) an), requests_sent = requestsSent (provider k (roadmapRequest pr (buildAnswerContext (answers ps)) an))\<rparr>]) \<and>
                    findOneById (users (fst (snd (ai_career_roadmap L env provider now db userId refreshQ)))) userId =
                      Some (set_ai_roadmap \<lparr>data = parsed, slot_createdAt = now, slot_model = AI_MODEL\<rparr> now u) \<and>
                    Option.bind
                      (ai (set_ai_roadmap \<lparr>data = parsed, slot_createdAt = now, slot_model = AI_MODEL\<rparr> now u))
                      roadmap = Some \<lparr>data = parsed, slot_createdAt = now, slot_model = AI_MODEL\<rparr>
                | None \<Rightarrow>
                    status (fst (ai_career_roadmap L env provider now db userId refreshQ)) = 502 \<and>
                    fst (snd (ai_career_roadmap L env provider now db userId refreshQ)) = db \<and>
                    snd (snd (ai_career_roadmap L env provider now db userId refreshQ)) = [\<lparr>call_request = (roadmapRequest pr (buildAnswerContext (answers ps)) an), requests_sent = requestsSent (provider k (roadmapRequest pr (buildAnswerContext (answers ps)) an))\<rparr>]))"
  proof (intro impI conjI allI)
    assume "qString refreshQ = Some ''1''"
    then have att: "qString refreshQ = Some ''1'' \<or> Option.bind (ai u) roadmap = None" by simp
    show "case firstClosedGate env u of
               Some g \<Rightarrow> ai_career_roadmap L env provider now db userId refreshQ = (gateError g, db, [])
             | None \<Rightarrow> length (snd (snd (ai_career_roadmap L env provider now db userId refreshQ))) = 1"
      by (rule ai_career_roadmap_gates[OF u att])
    fix pr ps an k
    assume "profile u = Some pr \<and> psychometric u = Some ps \<and>
            Option.bind (ai u) analysis = Some an \<and> OPENAI_API_KEY env = Some k \<and> k \<noteq> []"
    then have pr: "profile u = Some pr" and ps: "psychometric u = Some ps"
      and an: "Option.bind (ai u) analysis = Some an"
      and k: "OPENAI_API_KEY env = Some k" "k \<noteq> []" by auto
    note o = ai_career_roadmap_outcome[where provider = provider, OF u att pr ps an k, of L now]
    show "case generated L aiRoadmapSchema (lastAttempt (provider k (roadmapRequest pr (buildAnswerContext (answers ps)) an))) of
                  Some parsed \<Rightarrow>
                    ai_career_roadmap L env provider now db userId refreshQ =
                      (respond 200 (RoadmapBody AI_MODEL now parsed),
                       db\<lparr>users := fst (updateOne userId
                          (set_ai_roadmap \<lparr>data = parsed, slot_createdAt = now, slot_model = AI_MODEL\<rparr> now)
                          (users db))\<rparr>,
                       [\<lparr>call_request = (roadmapRequest pr (buildAnswerContext (answers ps)) an), requests_sent = requestsSent (provider k (roadmapRequest pr (buildAnswerContext (answers ps)) an))\<rparr>]) \<and>
                    findOneById (users (fst (snd (ai_career_roadmap L env provider now db userId refreshQ)))) userId =
                      Some (set_ai_roadmap \<lparr>data = parsed, slot_createdAt = now, slot_model = AI_MODEL\<rparr> now u) \<and>
                    Option.bind
                      (ai (set_ai_roadmap \<lparr>data = parsed, slot_createdAt = now, slot_model = AI_MODEL\<rparr> now u))
                      roadmap = Some \<lparr>data = parsed, slot_createdAt = now, slot_model = AI_MODEL\<rparr>
                | None \<Rightarrow>
                    status (fst (ai_career_roadmap L env provider now db userId refreshQ)) = 502 \<and>
                    fst (snd (ai_career_roadmap L env provider now db userId refreshQ)) = db \<and>
                    snd (snd (ai_career_roadmap L env provider now db userId refreshQ)) = [\<lparr>call_request = (roadmapRequest pr (buildAnswerContext (answers ps)) an), requests_sent = requestsSent (provider k (roadmapRequest pr (buildAnswerContext (answers ps)) an))\<rparr>]"
    proof (cases "generated L aiRoadmapSchema (lastAttempt (provider k (roadmapRequest pr (buildAnswerContext (answers ps)) an)))")
      case None
      from o show ?thesis unfolding None option.case .
    next
      case (Some parsed)
      from o show ?thesis unfolding Some option.case by (elim conjE) (intro conjI; assumption)
    qed
  qed
qed

lemma ai_career_roadmap_failures:
  "(generated L aiRoadmapSchema a = None) =
   ((\<exists>retryable err. a = Failed retryable err) \<or> a = Answered None \<or> a = Answered (Some []) \<or>
    (\<exists>c. a = Answered (Some c) \<and> c \<noteq> [] \<and>
       (JSON_parse L c = None \<or> (\<exists>j. JSON_parse L c = Some j \<and> \<not> roadmapContract j))))"
proof -
  have "(\<forall>v. safeParse (aiRoadmapSchema j) \<noteq> Inr v) = (\<not> roadmapContract j)" for j
    using aiRoadmapSchema_accepts[of j] by blast
  then show ?thesis unfolding generated_None by simp
qed

lemma ai_career_roadmap_slot_written_only_on_success:
  "(fst (snd (ai_career_roadmap L env provider now db userId refreshQ)) = db \<or>
    (\<exists>u pr ps an k parsed.
       findOneById (users db) userId = Some u \<and>
       (qString refreshQ = Some ''1'' \<or> Option.bind (ai u) roadmap = None) \<and>
       profile u = Some pr \<and> psychometric u = Some ps \<and> Option.bind (ai u) analysis = Some an \<and>
       OPENAI_API_KEY env = Some k \<and> k \<noteq> [] \<and>
       generated L aiRoadmapSchema (lastAttempt (provider k (roadmapRequest pr (buildAnswerContext (answers ps)) an))) = Some parsed \<and>
       ai_career_roadmap L env provider now db userId refreshQ =
         (respond 200 (RoadmapBody AI_MODEL now parsed),
          db\<lparr>users := fst (updateOne userId
             (set_ai_roadmap \<lparr>data = parsed, slot_createdAt = now, slot_model = AI_MODEL\<rparr> now)
             (users db))\<rparr>,
          [\<lparr>call_request = (roadmapRequest pr (buildAnswerContext (answers ps)) an), requests_sent = requestsSent (provider k (roadmapRequest pr (buildAnswerContext (answers ps)) an))\<rparr>]))) \<and>
   (status (fst (ai_career_roadmap L env provider now db userId refreshQ)) \<noteq> 200 \<longrightarrow>
      fst (snd (ai_career_roadmap L env provider now db userId refreshQ)) = db) \<and>
   (\<forall>u. findOneById (users db) userId = Some u \<and>
        (qString refreshQ = Some ''1'' \<or> Option.bind (ai u) roadmap = None) \<longrightarrow>
      (\<forall>g. firstClosedGate env u = Some g \<longrightarrow>
         ai_career_roadmap L env provider now db userId refreshQ = (gateError g, db, [])) \<and>
      (\<forall>pr ps an k.
         profile u = Some pr \<and> psychometric u = Some ps \<and>
         Option.bind (ai u) analysis = Some an \<and> OPENAI_API_KEY env = Some k \<and> k \<noteq> [] \<longrightarrow>
         (case generated L aiRoadmapSchema (lastAttempt (provider k (roadmapRequest pr (buildAnswerContext (answers ps)) an))) of
            Some parsed \<Rightarrow>
              ai_career_roadmap L env provider now db userId refreshQ =
                (respond 200 (RoadmapBody AI_MODEL now parsed),
                 db\<lparr>users := fst (updateOne userId
                    (set_ai_roadmap \<lparr>data = parsed, slot_createdAt = now, slot_model = AI_MODEL\<rparr> now)
                    (users db))\<rparr>,
                 [\<lparr>call_request = (roadmapRequest pr (buildAnswerContext (answers ps)) an), requests_sent = requestsSent (provider k (roadmapRequest pr (buildAnswerContext (answers ps)) an))\<rparr>]) \<and>
              findOneById (users (fst (snd (ai_career_roadmap L env provider now db userId refreshQ)))) userId =
                Some (set_ai_roadmap \<lparr>data = parsed, slot_createdAt = now, slot_model = AI_MODEL\<rparr> now u) \<and>
              Option.bind
                (ai (set_ai_roadmap \<lparr>data = parsed, slot_createdAt = now, slot_model = AI_MODEL\<rparr> now u))
                roadmap = Some \<lparr>data = parsed, slot_createdAt = now, slot_model = AI_MODEL\<rparr> \<and>
              job_roles (fst (snd (ai_career_roadmap L env provider now db userId refreshQ))) = job_roles db \<and>
              scholarships (fst (snd (ai_career_roadmap L env provider now db userId refreshQ))) = scholarships db \<and>
              (\<forall>other. other \<noteq> userId \<longrightarrow>
                 findOneById (users (fst (snd (ai_career_roadmap L env provider now db userId refreshQ)))) other =
                 findOneById (users db) other) \<and>
              (\<forall>L' env' provider' now' q'. qString q' \<noteq> Some ''1'' \<longrightarrow>
                 ai_career_roadmap L' env' provider' now'
                   (fst (snd (ai_career_roadmap L env provider now db userId refreshQ))) userId q' =
                 (respond 200 (RoadmapBody AI_MODEL now parsed),
                  fst (snd (ai_career_roadmap L env provider now db userId refreshQ)), []))
          | None \<Rightarrow>
              status (fst (ai_career_roadmap L env provider now db userId refreshQ)) = 502 \<and>
              fst (snd (ai_career_roadmap L env provider now db userId refreshQ)) = db \<and>
              snd (snd (ai_career_roadmap L env provider now db userId refreshQ)) = [\<lparr>call_request = (roadmapRequest pr (buildAnswerContext (answers ps)) an), requests_sent = requestsSent (provider k (roadmapRequest pr (buildAnswerContext (answers ps)) an))\<rparr>]))) \<and>
   (\<forall>a. (generated L aiRoadmapSchema a = None) =
      ((\<exists>retryable err. a = Failed retryable err) \<or> a = Answered None \<or> a = Answered (Some []) \<or>
       (\<exists>c. a = Answered (Some c) \<and> c \<noteq> [] \<and>
          (JSON_parse L c = None \<or> (\<exists>j. JSON_parse L c = Some j \<and> \<not> roadmapContract j)))))"
proof (intro conjI allI impI)
  show w: "fst (snd (ai_career_roadmap L env provider now db userId refreshQ)) = db \<or>
    (\<exists>u pr ps an k parsed.
       findOneById (users db) userId = Some u \<and>
       (qString refreshQ = Some ''1'' \<or> Option.bind (ai u) roadmap = None) \<and>
       profile u = Some pr \<and> psychometric u = Some ps \<and> Option.bind (ai u) analysis = Some an \<and>
       OPENAI_API_KEY env = Some k \<and> k \<noteq> [] \<and>
       generated L aiRoadmapSchema (lastAttempt (provider k (roadmapRequest pr (buildAnswerContext (answers ps)) an))) = Some parsed \<and>
       ai_career_roadmap L env provider now db userId refreshQ =
         (respond 200 (RoadmapBody AI_MODEL now parsed),
          db\<lparr>users := fst (updateOne userId
             (set_ai_roadmap \<lparr>data = parsed, slot_createdAt = now, slot_model = AI_MODEL\<rparr> now)
             (users db))\<rparr>,
          [\<lparr>call_request = (roadmapRequest pr (buildAnswerContext (answers ps)) an), requests_sent = requestsSent (provider k (roadmapRequest pr (buildAnswerContext (answers ps)) an))\<rparr>]))"
    by (rule ai_career_roadmap_write_only_on_success)
  show "fst (snd (ai_career_roadmap L env provider now db userId refreshQ)) = db"
    if "status (fst (ai_career_roadmap L env provider now db userId refreshQ)) \<noteq> 200"
    using w that by (auto simp: respond_def)
next
  fix u g
  assume a: "findOneById (users db) userId = Some u \<and>
        (qString refreshQ = Some ''1'' \<or> Option.bind (ai u) roadmap = None)"
    and g: "firstClosedGate env u = Some g"
  from a have u: "findOneById (users db) userId = Some u"
    and att: "qString refreshQ = Some ''1'' \<or> Option.bind (ai u) roadmap = None" by auto
  from ai_career_roadmap_gates[OF u att, where env = env and L = L and provider = provider and now = now] g
  show "ai_career_roadmap L env provider now db userId refreshQ = (gateError g, db, [])" by simp
next
  fix u pr ps an k
  assume a: "findOneById (users db) userId = Some u \<and>
        (qString refreshQ = Some ''1'' \<or> Option.bind (ai u) roadmap = None)"
    and b: "profile u = Some pr \<and> psychometric u = Some ps \<and>
         Option.bind (ai u) analysis = Some an \<and> OPENAI_API_KEY env = Some k \<and> k \<noteq> []"
  from a have u: "findOneById (users db) userId = Some u"
    and att: "qString refreshQ = Some ''1'' \<or> Option.bind (ai u) roadmap = None" by auto
  from b have pr: "profile u = Some pr" and ps: "psychometric u = Some ps"
      and an: "Option.bind (ai u) analysis = Some an"
      and k: "OPENAI_API_KEY env = Some k" "k \<noteq> []" by auto
  show "case generated L aiRoadmapSchema (lastAttempt (provider k (roadmapRequest pr (buildAnswerContext (answers ps)) an))) of
            Some parsed \<Rightarrow>
              ai_career_roadmap L env provider now db userId refreshQ =
                (respond 200 (RoadmapBody AI_MODEL now parsed),
                 db\<lparr>users := fst (updateOne userId
                    (set_ai_roadmap \<lparr>data = parsed, slot_createdAt = now, slot_model = AI_MODEL\<rparr> now)
                    (users db))\<rparr>,
                 [\<lparr>call_request = (roadmapRequest pr (buildAnswerContext (answers ps)) an), requests_sent = requestsSent (provider k (roadmapRequest pr (buildAnswerContext (answers ps)) an))\<rparr>]) \<and>
              findOneById (users (fst (snd (ai_career_roadmap L env provider now db userId refreshQ)))) userId =
                Some (set_ai_roadmap \<lparr>data = parsed, slot_createdAt = now, slot_model = AI_MODEL\<rparr> now u) \<and>
              Option.bind
                (ai (set_ai_roadmap \<lparr>data = parsed, slot_createdAt = now, slot_model = AI_MODEL\<rparr> now u))
                roadmap = Some \<lparr>data = parsed, slot_createdAt = now, slot_model = AI_MODEL\<rparr> \<and>
              job_roles (fst (snd (ai_career_roadmap L env provider now db userId refreshQ))) = job_roles db \<and>
              scholarships (fst (snd (ai_career_roadmap L env provider now db userId refreshQ))) = scholarships db \<and>
              (\<forall>other. other \<noteq> userId \<longrightarrow>
                 findOneById (users (fst (snd (ai_career_roadmap L env provider now db userId refreshQ)))) other =
                 findOneById (users db) other) \<and>
              (\<forall>L' env' provider' now' q'. qString q' \<noteq> Some ''1'' \<longrightarrow>
                 ai_career_roadmap L' env' provider' now'
                   (fst (snd (ai_career_roadmap L env provider now db userId refreshQ))) userId q' =
                 (respond 200 (RoadmapBody AI_MODEL now parsed),
                  fst (snd (ai_career_roadmap L env provider now db userId refreshQ)), []))
          | None \<Rightarrow>
              status (fst (ai_career_roadmap L env provider now db userId refreshQ)) = 502 \<and>
              fst (snd (ai_career_roadmap L env provider now db userId refreshQ)) = db \<and>
              snd (snd (ai_career_roadmap L env provider now db userId refreshQ)) = [\<lparr>call_request = (roadmapRequest pr (buildAnswerContext (answers ps)) an), requests_sent = requestsSent (provider k (roadmapRequest pr (buildAnswerContext (answers ps)) an))\<rparr>]"
    by (rule ai_career_roadmap_outcome[where provider = provider, OF u att pr ps an k])
next
  fix a
  show "(generated L aiRoadmapSchema a = None) =
      ((\<exists>retryable err. a = Failed retryable err) \<or> a = Answered None \<or> a = Answered (Some []) \<or>
       (\<exists>c. a = Answered (Some c) \<and> c \<noteq> [] \<and>
          (JSON_parse L c = None \<or> (\<exists>j. JSON_parse L c = Some j \<and> \<not> roadmapContract j))))"
    by (rule ai_career_roadmap_failures)
qed

lemma demo_find: "findOneById (users demoDb) (ObjectId ''65a1'') = Some demoUser"
  by (simp add: findOneById_def demoDb_def demoUser_def)

lemma demo_find_upd: "findOneById (users (demoDb\<lparr>users := [demoUser\<lparr>profile := None\<rparr>]\<rparr>)) (ObjectId ''65a1'') = Some (demoUser\<lparr>profile := None\<rparr>)"
  by (simp add: findOneById_def demoDb_def demoUser_def)

lemma demo_portfolio_parse: "safeParse (aiPortfolioSchema demoPortfolioJson) = Inr demoPortfolio"
  by (simp add: safeParse_Inr aiPortfolioSchema_valid demoPortfolioJson_def demoPortfolio_def
        z_string_min_valid z_string_array_valid stringArray_def)

lemma demo_stage_parse: "aiRoadmapStageSchema path (Some (demoStageJson l)) = ([], Some (demoStage l))"
  if "l \<noteq> []"
  using that
  by (simp add: aiRoadmapStageSchema_valid demoStageJson_def demoStage_def
        z_string_min_valid z_string_array_valid z_string_array_nolo_valid stringArray_def Suc_le_eq)

lemma demo_roadmap_parse: "safeParse (aiRoadmapSchema demoRoadmapJson) = Inr demoRoadmap"
  by (simp add: safeParse_Inr aiRoadmapSchema_valid demoRoadmapJson_def demoRoadmap_def
        z_string_min_valid z_array_valid_gen demo_stage_parse enumerate_eq_zip upt_rec)

lemma demo_portfolio_contract: "portfolioContract demoPortfolioJson"
  using demo_portfolio_parse aiPortfolioSchema_accepts by blast

lemma demo_roadmap_contract: "roadmapContract demoRoadmapJson"
  using demo_roadmap_parse aiRoadmapSchema_accepts by blast

lemma demo_empty_not_contract: "\<not> portfolioContract (JObj [])" "\<not> roadmapContract (JObj [])"
  by (simp_all add: portfolioContract_def roadmapContract_def fieldNonEmpty_def)

lemma demo_refresh: "qString (QString ''1'') = Some ''1''" "qString QUndefined = None"
  by (simp_all add: trim_def isSpace_def)

lemma demo_user_fields:
  "profile demoUser = Some demoProfile"
  "psychometric demoUser = Some \<lparr>answers = demoAnswers, submittedAt = 2000\<rparr>"
  "Option.bind (ai demoUser) analysis = Some demoAnalysis"
  "Option.bind (ai demoUser) portfolio =
     Some \<lparr>data = demoStalePortfolio, slot_createdAt = 3000, slot_model = AI_MODEL\<rparr>"
  "Option.bind (ai demoUser) roadmap = None"
  by (simp_all add: demoUser_def)

lemma demo_sent:
  "requestsSent (demoProvider ''sk-good'' request) = 1"
  "requestsSent (demoProvider ''sk-empty'' request) = 1"
  "requestsSent (demoProvider ''sk-text'' request) = 1"
  "requestsSent (demoProvider ''sk-short'' request) = 1"
  "requestsSent (demoProvider ''sk-flaky'' request) = 3"
  "requestsSent (demoProvider ''sk-denied'' request) = 1"
  "requestsSent (demoProvider ''sk-down'' request) = 3"
  by (simp_all add: requestsSent_def demoProvider_def)

lemma demo_last:
  "lastAttempt (demoProvider ''sk-good'' (portfolioRequest pr c an)) = Answered (Some ''{portfolio}'')"
  "lastAttempt (demoProvider ''sk-good'' (roadmapRequest pr c an)) = Answered (Some ''{roadmap}'')"
  "lastAttempt (demoProvider ''sk-empty'' request) = Answered None"
  "lastAttempt (demoProvider ''sk-text'' request) = Answered (Some ''not json'')"
  "lastAttempt (demoProvider ''sk-short'' request) = Answered (Some ''{}'')"
  "lastAttempt (demoProvider ''sk-flaky'' request) = Answered (Some ''{roadmap}'')"
  "lastAttempt (demoProvider ''sk-denied'' request) = Failed False (Some ''invalid key'')"
  "lastAttempt (demoProvider ''sk-down'' request) = Failed True (Some ''timeout'')"
  by (simp_all add: lastAttempt_def requestsSent_def demoProvider_def portfolioRequest_def
      roadmapRequest_def)

lemma demo_parse:
  "JSON_parse demoLib ''{portfolio}'' = Some demoPortfolioJson"
  "JSON_parse demoLib ''{roadmap}'' = Some demoRoadmapJson"
  "JSON_parse demoLib ''{}'' = Some (JObj [])"
  "JSON_parse demoLib ''not json'' = None"
  by (simp_all add: demoLib_def)

lemma demo_generated:
  "generated demoLib aiPortfolioSchema (Answered (Some ''{portfolio}'')) = Some demoPortfolio"
  "generated demoLib aiRoadmapSchema (Answered (Some ''{roadmap}'')) = Some demoRoadmap"
  "generated demoLib aiPortfolioSchema (Failed retryable err) = None"
  "generated demoLib aiRoadmapSchema (Failed retryable err) = None"
  "generated demoLib aiPortfolioSchema (Answered (Some ''{}'')) = None"
  "generated demoLib aiRoadmapSchema (Answered (Some ''{}'')) = None"
proof -
  show "generated demoLib aiPortfolioSchema (Answered (Some ''{portfolio}'')) = Some demoPortfolio"
    by (simp add: generated_def demo_parse demo_portfolio_parse)
  show "generated demoLib aiRoadmapSchema (Answered (Some ''{roadmap}'')) = Some demoRoadmap"
    by (simp add: generated_def demo_parse demo_roadmap_parse)
  show "generated demoLib aiPortfolioSchema (Failed retryable err) = None"
    and "generated demoLib aiRoadmapSchema (Failed retryable err) = None"
    by (simp_all add: generated_def)
  show "generated demoLib aiPortfolioSchema (Answered (Some ''{}'')) = None"
    unfolding ai_portfolio_failures using demo_parse(3) demo_empty_not_contract(1) by simp
  show "generated demoLib aiRoadmapSchema (Answered (Some ''{}'')) = None"
    unfolding ai_career_roadmap_failures using demo_parse(3) demo_empty_not_contract(2) by simp
qed

lemma demo_attempt:
  "qString (QString ''1'') = Some ''1'' \<or> Option.bind (ai demoUser) portfolio = None"
  "qString (QString ''1'') = Some ''1'' \<or> Option.bind (ai demoUser) roadmap = None"
  "qString QUndefined = Some ''1'' \<or> Option.bind (ai demoUser) roadmap = None"
  by (simp_all add: trim_def isSpace_def demoUser_def)

lemma demo_update: "fst (updateOne (ObjectId ''65a1'') upd (users demoDb)) = [upd demoUser]"
proof -
  have "users demoDb = [demoUser]" "user_id demoUser = ObjectId ''65a1''"
    by (simp_all add: demoDb_def demoUser_def)
  then show ?thesis by simp
qed

lemma demo_keys:
  "OPENAI_API_KEY \<lparr>OPENAI_API_KEY = Some k\<rparr> = Some k"
  "firstClosedGate \<lparr>OPENAI_API_KEY = Some (c # cs)\<rparr> demoUser = None"
  "firstClosedGate \<lparr>OPENAI_API_KEY = None\<rparr> demoUser = Some ProviderGate"
  by (simp_all add: firstClosedGate_def gateOrder_def demo_user_fields providerConfigured_def)

lemma signup_keeps_emails:
  "set (map email (users db)) \<subseteq> set (map email (users (snd (signup L newId salt now db reqBody))))"
  by (auto simp: signup_def insertOne_def Let_def split: sum.splits prod.splits if_splits)

lemma user_profile_keeps_emails:
  "map email (users (snd (user_profile now db userId reqBody))) = map email (users db)"
  by (auto simp: user_profile_def Let_def updateOne_emails split: sum.splits)

lemma user_psychometric_keeps_emails:
  "map email (users (snd (user_psychometric now db userId reqBody))) = map email (users db)"
  by (auto simp: user_psychometric_def Let_def updateOne_emails split: sum.splits)

lemma ai_portfolio_keeps_emails:
  "map email (users (fst (snd (ai_portfolio L env provider now db userId refreshQ)))) =
   map email (users db)"
  using ai_portfolio_write_only_on_success[of L env provider now db userId refreshQ]
  by (auto simp: updateOne_emails set_ai_portfolio_def)

lemma ai_career_roadmap_keeps_emails:
  "map email (users (fst (snd (ai_career_roadmap L env provider now db userId refreshQ)))) =
   map email (users db)"
  using ai_career_roadmap_write_only_on_success[of L env provider now db userId refreshQ]
  by (auto simp: updateOne_emails set_ai_roadmap_def)

lemma handle_keeps_emails:
  "set (map email (users db)) \<subseteq> set (map email (users (snd (handle L env db r))))"
proof (cases r)
  case (PostSignup newId salt now reqBody)
  then show ?thesis using signup_keeps_emails by simp
next
  case (PostLogin reqBody)
  then show ?thesis by (auto simp: login_def split: sum.splits prod.splits option.splits)
next
  case (GetMe userId)
  then show ?thesis by (auto simp: me_def split: option.splits)
next
  case (PostProfile now userId reqBody)
  then show ?thesis by (simp add: user_profile_keeps_emails)
next
  case (PostPsychometric now userId reqBody)
  then show ?thesis by (simp add: user_psychometric_keeps_emails)
next
  case (GetPortfolio provider now userId refreshQ)
  then show ?thesis by (simp add: ai_portfolio_keeps_emails)
next
  case (GetRoadmap provider now userId refreshQ)
  then show ?thesis by (simp add: ai_career_roadmap_keeps_emails)
next
  case (GetJobRoles userId domainQ courseQ)
  then show ?thesis by (auto simp: ai_job_roles_def Let_def split: option.splits)
next
  case (GetScholarships userId courseQ categoryQ academicLevelQ)
  then show ?thesis by (auto simp: scholarships_handler_def Let_def split: option.splits)
qed

lemma run_keeps_emails:
  "set (map email (users db)) \<subseteq> set (map email (users (run L env db rs)))"
proof (induction rs arbitrary: db)
  case Nil
  then show ?case by simp
next
  case (Cons r rs)
  have "set (map email (users db)) \<subseteq> set (map email (users (snd (handle L env db r))))"
    by (rule handle_keeps_emails)
  also have "\<dots> \<subseteq> set (map email (users (run L env (snd (handle L env db r)) rs)))"
    by (rule Cons.IH)
  finally show ?case by simp
qed

lemma str_includes_E11000:
  "str_includes ''E11000 duplicate key error collection: careercraft.users'' ''E11000''"
  by simp

lemma signup_fresh:
  assumes "safeParse (signupSchema (isEmail L) reqBody) = Inr (e, p)"
    and "\<forall>d \<in> set (users db). email d \<noteq> toLowerCase e \<and> user_id d \<noteq> newId"
  shows "signup L newId salt now db reqBody =
           (respond 201 (AuthBody (signToken newId (toLowerCase e)) (toHexString newId) (toLowerCase e)),
            db\<lparr>users := users db @
               [\<lparr>user_id = newId, email = toLowerCase e, createdAt = now, updatedAt = now,
                 profile = None, psychometric = None, ai = None,
                 passwordHash = bcrypt_hash L salt p 10\<rparr>]\<rparr>)"
  using assms by (auto simp: signup_def insertOne_def Let_def)

lemma signup_duplicate:
  assumes "safeParse (signupSchema (isEmail L) reqBody) = Inr (e, p)"
    and "\<exists>d \<in> set (users db). email d = toLowerCase e"
  shows "signup L newId salt now db reqBody = (respond 409 (ErrorBody ''Email already exists''), db)"
  using assms by (auto simp: signup_def insertOne_def Let_def)

lemma signup_201_stores_email:
  assumes "safeParse (signupSchema (isEmail L) reqBody) = Inr (e, p)"
    and "status (fst (signup L newId salt now db reqBody)) = 201"
  shows "toLowerCase e \<in> set (map email (users (snd (signup L newId salt now db reqBody))))"
  using assms
  by (auto simp: signup_def insertOne_def Let_def respond_def split: if_splits)

lemma demo_signup_body:
  "CHR ''@'' \<in> set e \<Longrightarrow> 6 \<le> length p \<Longrightarrow>
   safeParse (signupSchema (isEmail demoLib) (credentials e p)) = Inr (e, p)"
  by (simp add: signupSchema_valid credentials_def demoLib_def)

lemma demo_lower:
  "toLowerCase ''New@X.com'' = ''new@x.com''"
  "toLowerCase ''NEW@x.COM'' = ''new@x.com''"
  "toLowerCase ''A@X.COM'' = ''a@x.com''"
  by (simp_all add: toLowerCase_def lowerChar_def)

lemma filterBoolean_names:
  "filterBoolean (x # map Some ys) =
   filter (\<lambda>c. c \<noteq> []) ((case x of Some c \<Rightarrow> [c] | None \<Rightarrow> []) @ ys)"
proof -
  have "filterBoolean (map Some ys) = filter (\<lambda>c. c \<noteq> []) ys"
    by (induction ys) auto
  then show ?thesis by (cases x) auto
qed

lemma job_role_tags:
  "map normalizeTag (filterBoolean (explicitCourse #
      (case an of Some a \<Rightarrow> map (\<lambda>x. Some (course x)) (recommendedCourses a) | None \<Rightarrow> []))) =
   effectiveCourseTags explicitCourse an"
proof (cases an)
  case None
  then show ?thesis
    using filterBoolean_names[of explicitCourse "[]"]
    by (simp add: effectiveCourseTags_def courseNames_def)
next
  case (Some a)
  then show ?thesis
    using filterBoolean_names[of explicitCourse "map course (recommendedCourses a)"]
    by (simp add: effectiveCourseTags_def courseNames_def comp_def)
qed

lemma matchesJobRole_roleMatches:
  "matchesJobRole
     \<lparr>filter_domain = (case dm of Some d \<Rightarrow> if d \<noteq> [] then Some d else None | None \<Rightarrow> None),
      filter_or = (if 0 < length (if 0 < length tags then [tags] else []) then
                     Some (if 0 < length tags then [tags] else []) else None)\<rparr> r =
   roleMatches dm tags r"
  by (auto simp: matchesJobRole_def roleMatches_def tags_in_def split: option.splits)

lemma ai_job_roles_ok:
  assumes u: "findOneById (users db) userId = Some u"
    and some: "\<not> (Option.bind (ai u) analysis = None \<and> qString domainQ = None \<and> qString courseQ = None)"
  shows "ai_job_roles db userId domainQ courseQ =
     (respond 200
        (JobRolesBody (effectiveDomain (qString domainQ) (Option.bind (ai u) analysis))
           (length (take 30 (filter
              (roleMatches (effectiveDomain (qString domainQ) (Option.bind (ai u) analysis))
                 (effectiveCourseTags (qString courseQ) (Option.bind (ai u) analysis)))
              (job_roles db))))
           (map jobRoleItem (take 30 (filter
              (roleMatches (effectiveDomain (qString domainQ) (Option.bind (ai u) analysis))
                 (effectiveCourseTags (qString courseQ) (Option.bind (ai u) analysis)))
              (job_roles db))))),
      db)"
proof -
  have f: "\<And>dm tags. matchesJobRole
     \<lparr>filter_domain = (case dm of Some d \<Rightarrow> if d \<noteq> [] then Some d else None | None \<Rightarrow> None),
      filter_or = (if 0 < length (if 0 < length tags then [tags] else []) then
                     Some (if 0 < length tags then [tags] else []) else None)\<rparr> = roleMatches dm tags"
    by (rule ext) (rule matchesJobRole_roleMatches)
  from some have n: "(Option.bind (ai u) analysis = None \<and> qString domainQ = None \<and>
       qString courseQ = None) = False" by simp
  show ?thesis
    unfolding ai_job_roles_def Let_def
    by (simp only: u option.case n if_False job_role_tags f find_limit_def
          effectiveDomain_def[symmetric])
qed

lemma ai_job_roles_missing:
  assumes u: "findOneById (users db) userId = Some u"
    and none: "Option.bind (ai u) analysis = None \<and> qString domainQ = None \<and> qString courseQ = None"
  shows "ai_job_roles db userId domainQ courseQ =
     (respond 400 (ErrorBody ''AI analysis missing. Run POST /ai/analyze or pass ?domain= / ?course=.''),
      db)"
  using u none by (simp add: ai_job_roles_def)

lemma demo_catalog_find:
  "findOneById (users (demoCatalogDb an)) (ObjectId ''65a1'') =
     Some (demoUser\<lparr>ai := Some \<lparr>analysis = Some an, portfolio = None, roadmap = None,
                                  ai_createdAt = None, ai_model = None\<rparr>\<rparr>)"
  by (simp add: findOneById_def demoCatalogDb_def demoUser_def)

lemma demo_tags:
  "normalizeTag ''Mechanical '' = ''mechanical''"
  "normalizeTag ''Civil'' = ''civil''"
  "normalizeTag [] = []"
  by (simp_all add: normalizeTag_def trim_def isSpace_def toLowerCase_def lowerChar_def)

lemma demo_job_roles:
  "ai_job_roles (demoCatalogDb demoAnalysis) (ObjectId ''65a1'') QUndefined QUndefined =
     (respond 200 (JobRolesBody (Some ''Engineering'') 1 [jobRoleItem (demoRoles ! 0)]),
      demoCatalogDb demoAnalysis)"
  "ai_job_roles (demoCatalogDb demoBlankCourse) (ObjectId ''65a1'') QUndefined QUndefined =
     (respond 200
        (JobRolesBody (Some ''Engineering'') 2 [jobRoleItem (demoRoles ! 0), jobRoleItem (demoRoles ! 1)]),
      demoCatalogDb demoBlankCourse)"
  "ai_job_roles (demoCatalogDb demoBlankDomain) (ObjectId ''65a1'') QUndefined QUndefined =
     (respond 200 (JobRolesBody (Some []) 1 [jobRoleItem (demoRoles ! 2)]),
      demoCatalogDb demoBlankDomain)"
proof -
  show "ai_job_roles (demoCatalogDb demoAnalysis) (ObjectId ''65a1'') QUndefined QUndefined =
     (respond 200 (JobRolesBody (Some ''Engineering'') 1 [jobRoleItem (demoRoles ! 0)]),
      demoCatalogDb demoAnalysis)"
    by (subst ai_job_roles_ok[OF demo_catalog_find])
       (simp_all add: effectiveDomain_def effectiveCourseTags_def courseNames_def demoAnalysis_def
          demo_tags roleMatches_def demoCatalogDb_def demoRoles_def)
  show "ai_job_roles (demoCatalogDb demoBlankCourse) (ObjectId ''65a1'') QUndefined QUndefined =
     (respond 200
        (JobRolesBody (Some ''Engineering'') 2 [jobRoleItem (demoRoles ! 0), jobRoleItem (demoRoles ! 1)]),
      demoCatalogDb demoBlankCourse)"
    by (subst ai_job_roles_ok[OF demo_catalog_find])
       (simp_all add: effectiveDomain_def effectiveCourseTags_def courseNames_def demoBlankCourse_def
          demo_tags roleMatches_def demoCatalogDb_def demoRoles_def numeral_2_eq_2)
  show "ai_job_roles (demoCatalogDb demoBlankDomain) (ObjectId ''65a1'') QUndefined QUndefined =
     (respond 200 (JobRolesBody (Some []) 1 [jobRoleItem (demoRoles ! 2)]),
      demoCatalogDb demoBlankDomain)"
    by (subst ai_job_roles_ok[OF demo_catalog_find])
       (simp_all add: effectiveDomain_def effectiveCourseTags_def courseNames_def demoBlankDomain_def
          demo_tags roleMatches_def demoCatalogDb_def demoRoles_def)
qed

lemma matchesScholarship_scholarshipMatches:
  "matchesScholarship
     \<lparr>filter_academicLevel = level, filter_category = cat,
      filter_courseTags = (case crs of Some c \<Rightarrow> if c \<noteq> [] then Some [normalizeTag c] else None
                           | None \<Rightarrow> None)\<rparr> s =
   scholarshipMatches level cat crs s"
  by (auto simp: matchesScholarship_def scholarshipMatches_def tags_in_def split: option.splits)

lemma scholarships_missing_level:
  assumes u: "findOneById (users db) userId = Some u"
    and none: "effectiveAcademicLevel (qString academicLevelQ) (profile u) = None \<or>
               effectiveAcademicLevel (qString academicLevelQ) (profile u) = Some []"
  shows "scholarships_handler db userId courseQ categoryQ academicLevelQ =
     (respond 400 (ErrorBody ''Academic level missing. Save /user/profile or pass ?academicLevel=.''),
      db)"
  using u none
  by (auto simp: scholarships_handler_def Let_def effectiveAcademicLevel_def split: option.splits)

lemma scholarships_ok:
  assumes u: "findOneById (users db) userId = Some u"
    and level: "effectiveAcademicLevel (qString academicLevelQ) (profile u) = Some level"
      "level \<noteq> []"
  shows "scholarships_handler db userId courseQ categoryQ academicLevelQ =
     (respond 200
        (ScholarshipsBody (effectiveCourse (qString courseQ) (Option.bind (ai u) analysis))
           (qString categoryQ) level
           (length (take 50 (filter
              (scholarshipMatches level (qString categoryQ)
                 (effectiveCourse (qString courseQ) (Option.bind (ai u) analysis)))
              (scholarships db))))
           (map scholarshipItem (take 50 (filter
              (scholarshipMatches level (qString categoryQ)
                 (effectiveCourse (qString courseQ) (Option.bind (ai u) analysis)))
              (scholarships db))))),
      db)"
proof -
  have f: "\<And>cat crs. matchesScholarship
     \<lparr>filter_academicLevel = level, filter_category = cat,
      filter_courseTags = (case crs of Some c \<Rightarrow> if c \<noteq> [] then Some [normalizeTag c] else None
                           | None \<Rightarrow> None)\<rparr> = scholarshipMatches level cat crs"
    by (rule ext) (rule matchesScholarship_scholarshipMatches)
  have l: "(case (case qString academicLevelQ of Some l \<Rightarrow> Some l
                  | None \<Rightarrow> map_option educationLevel (profile u)) of
              Some l \<Rightarrow> if l = [] then None else Some l | None \<Rightarrow> None) = Some level"
    using level by (simp add: effectiveAcademicLevel_def)
  show ?thesis
    unfolding scholarships_handler_def Let_def
    by (simp only: u option.case l f find_limit_def effectiveCourse_def[symmetric])
qed

lemma demo_level:
  "effectiveAcademicLevel (qString QUndefined)
     (profile (demoUser\<lparr>ai := Some \<lparr>analysis = Some an, portfolio = None, roadmap = None,
                                    ai_createdAt = None, ai_model = None\<rparr>\<rparr>)) = Some ''Undergraduate''"
  "''Undergraduate'' \<noteq> []"
  by (simp_all add: effectiveAcademicLevel_def demoUser_def demoProfile_def)

lemma demo_scholarships:
  "scholarships_handler (demoCatalogDb demoAnalysis) (ObjectId ''65a1'') QUndefined QUndefined QUndefined =
     (respond 200
        (ScholarshipsBody (Some ''Mechanical '') None ''Undergraduate'' 1
           [scholarshipItem (demoScholarships ! 0)]),
      demoCatalogDb demoAnalysis)"
  "scholarships_handler (demoCatalogDb demoBlankCourse) (ObjectId ''65a1'') QUndefined QUndefined QUndefined =
     (respond 200
        (ScholarshipsBody (Some []) None ''Undergraduate'' 2
           [scholarshipItem (demoScholarships ! 0), scholarshipItem (demoScholarships ! 1)]),
      demoCatalogDb demoBlankCourse)"
proof -
  show "scholarships_handler (demoCatalogDb demoAnalysis) (ObjectId ''65a1'') QUndefined QUndefined QUndefined =
     (respond 200
        (ScholarshipsBody (Some ''Mechanical '') None ''Undergraduate'' 1
           [scholarshipItem (demoScholarships ! 0)]),
      demoCatalogDb demoAnalysis)"
    by (subst scholarships_ok[OF demo_catalog_find demo_level])
       (simp add: effectiveCourse_def demoAnalysis_def demo_tags scholarshipMatches_def
          demoCatalogDb_def demoScholarships_def)
  show "scholarships_handler (demoCatalogDb demoBlankCourse) (ObjectId ''65a1'') QUndefined QUndefined QUndefined =
     (respond 200
        (ScholarshipsBody (Some []) None ''Undergraduate'' 2
           [scholarshipItem (demoScholarships ! 0), scholarshipItem (demoScholarships ! 1)]),
      demoCatalogDb demoBlankCourse)"
    by (subst scholarships_ok[OF demo_catalog_find demo_level])
       (simp add: effectiveCourse_def demoBlankCourse_def demo_tags scholarshipMatches_def
          demoCatalogDb_def demoScholarships_def numeral_2_eq_2)
qed

section \<open>Properties\<close>

text \<open>
  Claim C6. A login with a valid body fails in the same way, with status 401 and the body
  \<^verbatim>\<open>{ error: "Invalid email or password" }\<close>, when no account has the lower-cased email
  and when the account exists and the password does not match its hash; the database is
  not changed. The two responses are equal, so status and body do not tell whether the
  account exists.
\<close>

theorem login_failures_indistinguishable:
  assumes "safeParse (loginSchema (isEmail L) body1) = Inr (e1, p1)"
    and "safeParse (loginSchema (isEmail L) body2) = Inr (e2, p2)"
    and "findOneByEmail (users db1) (toLowerCase e1) = None"
    and "findOneByEmail (users db2) (toLowerCase e2) = Some u"
    and "\<not> bcrypt_compare L p2 (passwordHash u)"
  shows "login L db1 body1 = (respond 401 (ErrorBody ''Invalid email or password''), db1) \<and>
         login L db2 body2 = (respond 401 (ErrorBody ''Invalid email or password''), db2) \<and>
         fst (login L db1 body1) = fst (login L db2 body2)"
  using assms by (simp add: login_def)

theorem login_failures_indistinguishable_witness:
  "login demoLib demoDb (credentials ''B@x.com'' ''secret1'') =
     (respond 401 (ErrorBody ''Invalid email or password''), demoDb) \<and>
   login demoLib demoDb (credentials ''A@x.com'' ''wrongpw'') =
     (respond 401 (ErrorBody ''Invalid email or password''), demoDb)"
proof -
  have 1: "safeParse (loginSchema (isEmail demoLib) (credentials ''B@x.com'' ''secret1'')) = Inr (''B@x.com'', ''secret1'')"
    by (simp add: loginSchema_valid credentials_def demoLib_def)
  have 2: "safeParse (loginSchema (isEmail demoLib) (credentials ''A@x.com'' ''wrongpw'')) = Inr (''A@x.com'', ''wrongpw'')"
    by (simp add: loginSchema_valid credentials_def demoLib_def)
  have 3: "findOneByEmail (users demoDb) (toLowerCase ''B@x.com'') = None"
    by (simp add: findOneByEmail_def demoDb_def demoUser_def toLowerCase_def lowerChar_def)
  have 4: "findOneByEmail (users demoDb) (toLowerCase ''A@x.com'') = Some demoUser"
    by (simp add: findOneByEmail_def demoDb_def demoUser_def toLowerCase_def lowerChar_def)
  have 5: "\<not> bcrypt_compare demoLib ''wrongpw'' (passwordHash demoUser)"
    by (simp add: demoLib_def demoUser_def)
  from login_failures_indistinguishable[OF 1 2 3 4 5] show ?thesis by simp
qed

text \<open>
  Claim C10. \<^verbatim>\<open>GET /me\<close> for a user that is found reads the document without its
  \<^verbatim>\<open>passwordHash\<close> and answers with the id, the email, the profile (or null) and the time
  of the psychometric submission (or null): two stored documents that agree on these give
  the same response, whatever their password hashes and their answers are.
\<close>

theorem me_hides_hash_and_answers:
  assumes "findOneById (users db) userId = Some u"
  shows "findOneById_noHash (users db) userId = Some (UserFields.truncate u) \<and>
         me db userId =
           (respond 200
              (MeBody (toHexString (user_id u)) (email u) (profile u)
                 (map_option submittedAt (psychometric u))),
            db) \<and>
         (\<forall>db' u'. findOneById (users db') userId = Some u' \<and> email u' = email u \<and>
             profile u' = profile u \<and>
             map_option submittedAt (psychometric u') = map_option submittedAt (psychometric u)
            \<longrightarrow> fst (me db' userId) = fst (me db userId))"
  using assms findOneById_Some_id[OF assms]
  by (auto simp: me_def findOneById_noHash_def UserFields.truncate_def dest: findOneById_Some_id split: option.splits)

theorem me_hides_hash_and_answers_witness:
  "me demoDb (ObjectId ''65a1'') =
     (respond 200 (MeBody ''65a1'' ''a@x.com'' (Some demoProfile) (Some 2000)), demoDb) \<and>
   fst (me (demoDb\<lparr>users := [demoUser\<lparr>passwordHash := ''other'',
          psychometric := Some \<lparr>answers = [], submittedAt = 2000\<rparr>\<rparr>]\<rparr>) (ObjectId ''65a1'')) =
     fst (me demoDb (ObjectId ''65a1''))"
proof -
  have 1: "findOneById (users demoDb) (ObjectId ''65a1'') = Some demoUser"
    by (simp add: findOneById_def demoDb_def demoUser_def)
  have 2: "findOneById (users (demoDb\<lparr>users := [demoUser\<lparr>passwordHash := ''other'',
          psychometric := Some \<lparr>answers = [], submittedAt = 2000\<rparr>\<rparr>]\<rparr>)) (ObjectId ''65a1'') =
        Some (demoUser\<lparr>passwordHash := ''other'', psychometric := Some \<lparr>answers = [], submittedAt = 2000\<rparr>\<rparr>)"
    by (simp add: findOneById_def demoDb_def demoUser_def)
  from me_hides_hash_and_answers[OF 1] 2 show ?thesis
    by (simp add: demoUser_def)
qed

text \<open>
  Claim C7, as stated, fails. A submitted object of eleven entries, one of them under the
  key \<^verbatim>\<open>__proto__\<close>, is accepted: the answer is \<^verbatim>\<open>{ ok: true }\<close> and the ten other
  entries are stored. A submitted object of eight entries, one of them under that key, is
  refused with the issue of the count, though all its values are non-empty strings.
\<close>

theorem proto_entry_is_not_counted:
  "map_option length (answersOf demoElevenBody) = Some 11 \<and>
   \<not> psychometricAcceptable demoElevenBody \<and>
   user_psychometric 5000 demoDb (ObjectId ''65a1'') demoElevenBody =
     (respond 200 OkTrue,
      demoDb\<lparr>users := [demoUser\<lparr>psychometric := Some \<lparr>answers = demoTenAnswers, submittedAt = 5000\<rparr>,
                                 updatedAt := 5000\<rparr>]\<rparr>) \<and>
   map_option length (answersOf demoEightBody) = Some 8 \<and>
   psychometricAcceptable demoEightBody \<and>
   user_psychometric 5000 demoDb (ObjectId ''65a1'') demoEightBody =
     (respond 400 (ErrorDetails ''Invalid input'' [(custom, [Key ''answers''])]), demoDb)"
proof -
  have 1: "map_option length (answersOf demoElevenBody) = Some 11"
    by (simp add: answersOf_def demoElevenBody_def psychometricBody_def demoTenAnswers_def
        demoAnswers_def)
  have 2: "\<not> psychometricAcceptable demoElevenBody"
    by (simp add: psychometricAcceptable_def answersOf_def demoElevenBody_def psychometricBody_def
        demoTenAnswers_def demoAnswers_def)
  have p11: "psychometricSchema demoElevenBody = ([], Some demoTenAnswers)"
    by (simp add: psychometricSchema_def z_object_def z_record_def z_string_min_def Let_def
        demoElevenBody_def psychometricBody_def demoTenAnswers_def demoAnswers_def)
  have 3: "user_psychometric 5000 demoDb (ObjectId ''65a1'') demoElevenBody =
     (respond 200 OkTrue,
      demoDb\<lparr>users := [demoUser\<lparr>psychometric := Some \<lparr>answers = demoTenAnswers, submittedAt = 5000\<rparr>,
                                 updatedAt := 5000\<rparr>]\<rparr>)"
    by (simp add: user_psychometric_def p11 safeParse_def Let_def demoDb_def demoUser_def)
  have 4: "map_option length (answersOf demoEightBody) = Some 8"
    by (simp add: answersOf_def demoEightBody_def psychometricBody_def demoAnswers_def)
  have 5: "psychometricAcceptable demoEightBody"
    by (simp add: psychometricAcceptable_def answersOf_def demoEightBody_def psychometricBody_def
        demoAnswers_def)
  have p8: "psychometricSchema demoEightBody = ([(custom, [Key ''answers''])], Some (tl demoAnswers))"
    by (simp add: psychometricSchema_def z_object_def z_record_def z_string_min_def Let_def
        demoEightBody_def psychometricBody_def demoAnswers_def)
  have 6: "user_psychometric 5000 demoDb (ObjectId ''65a1'') demoEightBody =
     (respond 400 (ErrorDetails ''Invalid input'' [(custom, [Key ''answers''])]), demoDb)"
    by (simp add: user_psychometric_def p8 safeParse_def)
  from 1 2 3 4 5 6 show ?thesis by (intro conjI)
qed

text \<open>
  Claim C7, amended. For a user whose document exists, \<^verbatim>\<open>POST /user/psychometric\<close> answers
  \<^verbatim>\<open>{ ok: true }\<close> exactly when all values of the \<^verbatim>\<open>answers\<close> object are non-empty
  strings and the object has 8 to 10 entries, not counting an entry under the key
  \<^verbatim>\<open>__proto__\<close>. Then the document holds exactly the counted entries and the time of
  the request, and nothing else in the database is changed. Otherwise the status is 400
  and the database is unchanged. For an object without that key the condition is that of
  the claim; in particular 7 and 11 entries are refused.
\<close>

theorem psychometric_saved_iff_counted_acceptable:
  assumes u: "findOneById (users db) userId = Some u"
  shows "((fst (user_psychometric now db userId reqBody) = respond 200 OkTrue) =
            psychometricAccepted reqBody) \<and>
         (psychometricAccepted reqBody \<longrightarrow>
            (\<exists>entries stored. answersOf reqBody = Some entries \<and>
               map (\<lambda>(k, s). (k, JStr s)) stored = countedEntries entries \<and>
               snd (user_psychometric now db userId reqBody) =
                 db\<lparr>users := fst (updateOne userId
                    (\<lambda>d. d\<lparr>psychometric := Some \<lparr>answers = stored, submittedAt = now\<rparr>,
                           updatedAt := now\<rparr>)
                    (users db))\<rparr> \<and>
               findOneById (users (snd (user_psychometric now db userId reqBody))) userId =
                 Some (u\<lparr>psychometric := Some \<lparr>answers = stored, submittedAt = now\<rparr>,
                         updatedAt := now\<rparr>) \<and>
               (\<forall>other. other \<noteq> userId \<longrightarrow>
                  findOneById (users (snd (user_psychometric now db userId reqBody))) other =
                  findOneById (users db) other))) \<and>
         (\<not> psychometricAccepted reqBody \<longrightarrow>
            status (fst (user_psychometric now db userId reqBody)) = 400 \<and>
            snd (user_psychometric now db userId reqBody) = db) \<and>
         (\<forall>entries. answersOf reqBody = Some entries \<and> ''__proto__'' \<notin> set (map fst entries) \<longrightarrow>
            psychometricAccepted reqBody = psychometricAcceptable reqBody \<and>
            (length entries = 7 \<or> length entries = 11 \<longrightarrow>
               status (fst (user_psychometric now db userId reqBody)) = 400 \<and>
               snd (user_psychometric now db userId reqBody) = db))"
proof -
  have rej: "status (fst (user_psychometric now db userId reqBody)) = 400 \<and>
            snd (user_psychometric now db userId reqBody) = db \<and>
            fst (user_psychometric now db userId reqBody) \<noteq> respond 200 OkTrue"
    if "\<not> psychometricAccepted reqBody"
  proof -
    from that obtain iss where "safeParse (psychometricSchema reqBody) = Inl iss"
      using psychometricSchema_accepts[of reqBody]
      by (cases "safeParse (psychometricSchema reqBody)") auto
    from psychometric_rejected[OF this] show ?thesis by (simp add: respond_def)
  qed
  have acc: "fst (user_psychometric now db userId reqBody) = respond 200 OkTrue \<and>
            (\<exists>entries stored. answersOf reqBody = Some entries \<and>
               map (\<lambda>(k, s). (k, JStr s)) stored = countedEntries entries \<and>
               snd (user_psychometric now db userId reqBody) =
                 db\<lparr>users := fst (updateOne userId
                    (\<lambda>d. d\<lparr>psychometric := Some \<lparr>answers = stored, submittedAt = now\<rparr>,
                           updatedAt := now\<rparr>)
                    (users db))\<rparr> \<and>
               findOneById (users (snd (user_psychometric now db userId reqBody))) userId =
                 Some (u\<lparr>psychometric := Some \<lparr>answers = stored, submittedAt = now\<rparr>,
                         updatedAt := now\<rparr>) \<and>
               (\<forall>other. other \<noteq> userId \<longrightarrow>
                  findOneById (users (snd (user_psychometric now db userId reqBody))) other =
                  findOneById (users db) other))"
    if "psychometricAccepted reqBody"
  proof -
    from that obtain entries where a: "answersOf reqBody = Some entries"
      and p: "safeParse (psychometricSchema reqBody) =
                Inr (map (\<lambda>(k, v). (k, stringOf v)) (countedEntries entries))"
      and w: "map (\<lambda>(k, s). (k, JStr s)) (map (\<lambda>(k, v). (k, stringOf v)) (countedEntries entries)) =
                countedEntries entries"
      by (rule accepted_entries)
    let ?stored = "map (\<lambda>(k, v). (k, stringOf v)) (countedEntries entries)"
    let ?upd = "\<lambda>d. d\<lparr>psychometric := Some \<lparr>answers = ?stored, submittedAt = now\<rparr>, updatedAt := now\<rparr>"
    have r: "user_psychometric now db userId reqBody =
               (respond 200 OkTrue, db\<lparr>users := fst (updateOne userId ?upd (users db))\<rparr>)"
      by (rule psychometric_accepted(1)[OF u p])
    have 1: "fst (user_psychometric now db userId reqBody) = respond 200 OkTrue"
      using r by simp
    have 2: "snd (user_psychometric now db userId reqBody) =
               db\<lparr>users := fst (updateOne userId ?upd (users db))\<rparr>"
      using r by simp
    have 3: "findOneById (users (snd (user_psychometric now db userId reqBody))) userId =
               Some (u\<lparr>psychometric := Some \<lparr>answers = ?stored, submittedAt = now\<rparr>,
                       updatedAt := now\<rparr>)"
      by (rule psychometric_accepted(2)[OF u p])
    have 4: "\<forall>other. other \<noteq> userId \<longrightarrow>
               findOneById (users (snd (user_psychometric now db userId reqBody))) other =
               findOneById (users db) other"
      unfolding 2 using updateOne_find_other[of _ userId ?upd "users db"] by simp
    from a w 2 3 4 have "\<exists>entries stored. answersOf reqBody = Some entries \<and>
               map (\<lambda>(k, s). (k, JStr s)) stored = countedEntries entries \<and>
               snd (user_psychometric now db userId reqBody) =
                 db\<lparr>users := fst (updateOne userId
                    (\<lambda>d. d\<lparr>psychometric := Some \<lparr>answers = stored, submittedAt = now\<rparr>,
                           updatedAt := now\<rparr>)
                    (users db))\<rparr> \<and>
               findOneById (users (snd (user_psychometric now db userId reqBody))) userId =
                 Some (u\<lparr>psychometric := Some \<lparr>answers = stored, submittedAt = now\<rparr>,
                         updatedAt := now\<rparr>) \<and>
               (\<forall>other. other \<noteq> userId \<longrightarrow>
                  findOneById (users (snd (user_psychometric now db userId reqBody))) other =
                  findOneById (users db) other)"
      by (intro exI[of _ entries] exI[of _ ?stored] conjI)
    with 1 show ?thesis by (rule conjI)
  qed
  have same: "psychometricAccepted reqBody = psychometricAcceptable reqBody"
    if "answersOf reqBody = Some entries" "''__proto__'' \<notin> set (map fst entries)" for entries
    using that counted_without_proto[OF that(2)]
    by (simp add: psychometricAccepted_def psychometricAcceptable_def)
  have short: "\<not> psychometricAccepted reqBody"
    if "answersOf reqBody = Some entries" "''__proto__'' \<notin> set (map fst entries)"
       "length entries = 7 \<or> length entries = 11" for entries
    using that counted_without_proto[OF that(2)] by (auto simp: psychometricAccepted_def)
  have last: "\<forall>entries. answersOf reqBody = Some entries \<and> ''__proto__'' \<notin> set (map fst entries) \<longrightarrow>
            psychometricAccepted reqBody = psychometricAcceptable reqBody \<and>
            (length entries = 7 \<or> length entries = 11 \<longrightarrow>
               status (fst (user_psychometric now db userId reqBody)) = 400 \<and>
               snd (user_psychometric now db userId reqBody) = db)"
    using same short rej by blast
  have iff: "(fst (user_psychometric now db userId reqBody) = respond 200 OkTrue) =
            psychometricAccepted reqBody"
    using rej acc by blast
  from iff acc rej last show ?thesis by blast
qed

theorem psychometric_saved_iff_counted_acceptable_witness:
  "user_psychometric 5000 demoDb (ObjectId ''65a1'') (psychometricBody demoAnswers) =
     (respond 200 OkTrue,
      demoDb\<lparr>users := [demoUser\<lparr>psychometric := Some \<lparr>answers = demoAnswers, submittedAt = 5000\<rparr>,
                                 updatedAt := 5000\<rparr>]\<rparr>) \<and>
   psychometricAccepted (psychometricBody demoAnswers) \<and>
   psychometricAccepted demoElevenBody \<and>
   fst (user_psychometric 5000 demoDb (ObjectId ''65a1'') demoElevenBody) = respond 200 OkTrue \<and>
   \<not> psychometricAccepted (psychometricBody (tl demoAnswers)) \<and>
   status (fst (user_psychometric 5000 demoDb (ObjectId ''65a1'') (psychometricBody (tl demoAnswers)))) = 400 \<and>
   snd (user_psychometric 5000 demoDb (ObjectId ''65a1'') (psychometricBody (tl demoAnswers))) = demoDb \<and>
   \<not> psychometricAccepted demoEightBody \<and>
   status (fst (user_psychometric 5000 demoDb (ObjectId ''65a1'') demoEightBody)) = 400 \<and>
   snd (user_psychometric 5000 demoDb (ObjectId ''65a1'') demoEightBody) = demoDb"
proof -
  have u: "findOneById (users demoDb) (ObjectId ''65a1'') = Some demoUser"
    by (simp add: findOneById_def demoDb_def demoUser_def)
  have a8: "psychometricAccepted (psychometricBody demoAnswers)"
    by (simp add: psychometricAccepted_def countedEntries_def answersOf_def psychometricBody_def
        demoAnswers_def)
  have a11: "psychometricAccepted demoElevenBody"
    by (simp add: psychometricAccepted_def countedEntries_def answersOf_def psychometricBody_def
        demoElevenBody_def demoTenAnswers_def demoAnswers_def)
  have a7: "\<not> psychometricAccepted (psychometricBody (tl demoAnswers))"
    by (simp add: psychometricAccepted_def countedEntries_def answersOf_def psychometricBody_def
        demoAnswers_def)
  have a8p: "\<not> psychometricAccepted demoEightBody"
    by (simp add: psychometricAccepted_def countedEntries_def answersOf_def psychometricBody_def
        demoEightBody_def demoAnswers_def)
  have e8: "answersOf (psychometricBody demoAnswers) = Some (map (\<lambda>(k, s). (k, JStr s)) demoAnswers)"
    by (simp add: answersOf_def psychometricBody_def)
  have c8: "countedEntries (map (\<lambda>(k, s). (k, JStr s)) demoAnswers) = map (\<lambda>(k, s). (k, JStr s)) demoAnswers"
    by (simp add: countedEntries_def demoAnswers_def)
  have inj: "stored = demoAnswers" if "map (\<lambda>(k, s). (k, JStr s)) stored = map (\<lambda>(k, s). (k, JStr s)) demoAnswers"
    for stored :: "(string \<times> string) list"
  proof -
    have "inj (\<lambda>(k, s). (k, JStr s))" by (auto simp: inj_on_def)
    from inj_map_eq_map[OF this, of stored demoAnswers] that show ?thesis by simp
  qed
  have upd: "fst (updateOne (ObjectId ''65a1'')
                (\<lambda>d. d\<lparr>psychometric := Some \<lparr>answers = demoAnswers, submittedAt = 5000\<rparr>, updatedAt := 5000\<rparr>)
                (users demoDb)) =
             [demoUser\<lparr>psychometric := Some \<lparr>answers = demoAnswers, submittedAt = 5000\<rparr>, updatedAt := 5000\<rparr>]"
    by (simp add: demoDb_def demoUser_def)
  note w = psychometric_saved_iff_counted_acceptable[OF u, of 5000]
  from w[of "psychometricBody demoAnswers", THEN conjunct2, THEN conjunct1, rule_format, OF a8]
  obtain stored where
    "map (\<lambda>(k, s). (k, JStr s)) stored = map (\<lambda>(k, s). (k, JStr s)) demoAnswers"
    and s: "snd (user_psychometric 5000 demoDb (ObjectId ''65a1'') (psychometricBody demoAnswers)) =
       demoDb\<lparr>users := fst (updateOne (ObjectId ''65a1'')
          (\<lambda>d. d\<lparr>psychometric := Some \<lparr>answers = stored, submittedAt = 5000\<rparr>, updatedAt := 5000\<rparr>)
          (users demoDb))\<rparr>"
    unfolding e8 using c8 by auto
  then have st: "stored = demoAnswers" using inj by blast
  have f: "fst (user_psychometric 5000 demoDb (ObjectId ''65a1'') (psychometricBody demoAnswers)) =
             respond 200 OkTrue"
    using w[of "psychometricBody demoAnswers", THEN conjunct1] a8 by simp
  have 1: "user_psychometric 5000 demoDb (ObjectId ''65a1'') (psychometricBody demoAnswers) =
     (respond 200 OkTrue,
      demoDb\<lparr>users := [demoUser\<lparr>psychometric := Some \<lparr>answers = demoAnswers, submittedAt = 5000\<rparr>,
                                 updatedAt := 5000\<rparr>]\<rparr>)"
    using f s unfolding st upd by (simp add: prod_eq_iff)
  have 2: "fst (user_psychometric 5000 demoDb (ObjectId ''65a1'') demoElevenBody) = respond 200 OkTrue"
    using w[of demoElevenBody, THEN conjunct1] a11 by simp
  have 3: "status (fst (user_psychometric 5000 demoDb (ObjectId ''65a1'') (psychometricBody (tl demoAnswers)))) = 400 \<and>
   snd (user_psychometric 5000 demoDb (ObjectId ''65a1'') (psychometricBody (tl demoAnswers))) = demoDb"
    using w[of "psychometricBody (tl demoAnswers)", THEN conjunct2, THEN conjunct2, THEN conjunct1] a7
    by simp
  have 4: "status (fst (user_psychometric 5000 demoDb (ObjectId ''65a1'') demoEightBody)) = 400 \<and>
   snd (user_psychometric 5000 demoDb (ObjectId ''65a1'') demoEightBody) = demoDb"
    using w[of demoEightBody, THEN conjunct2, THEN conjunct2, THEN conjunct1] a8p
    by simp
  from 1 a8 a11 2 a7 3 a8p 4 show ?thesis by (intro conjI) simp_all
qed

text \<open>
  Claim C2. On a generation attempt of \<^verbatim>\<open>/ai/portfolio\<close> or \<^verbatim>\<open>/ai/career-roadmap\<close>
  (refresh asked for, or no cached value) for a user that is found, the response is the
  error of the first closed gate in the order profile, psychometric submission, analysis,
  provider credential, with no call of the client (so no request to the provider) and no
  change of the database; when no gate is closed the handler calls the client exactly
  once. Whenever a call is made, all four gates are open. The four errors are pairwise different (three 400 responses with their own
  messages, and one 500).
\<close>

theorem generation_gates_in_order:
  assumes u: "findOneById (users db) userId = Some u"
  shows "(qString refreshQ = Some ''1'' \<or> Option.bind (ai u) portfolio = None \<longrightarrow>
            (case firstClosedGate env u of
               Some g \<Rightarrow> ai_portfolio L env provider now db userId refreshQ = (gateError g, db, [])
             | None \<Rightarrow> length (snd (snd (ai_portfolio L env provider now db userId refreshQ))) = 1)) \<and>
         (qString refreshQ = Some ''1'' \<or> Option.bind (ai u) roadmap = None \<longrightarrow>
            (case firstClosedGate env u of
               Some g \<Rightarrow> ai_career_roadmap L env provider now db userId refreshQ = (gateError g, db, [])
             | None \<Rightarrow> length (snd (snd (ai_career_roadmap L env provider now db userId refreshQ))) = 1)) \<and>
         (snd (snd (ai_portfolio L env provider now db userId refreshQ)) \<noteq> [] \<longrightarrow>
            (\<forall>g \<in> set gateOrder. gateOpen env u g)) \<and>
         (snd (snd (ai_career_roadmap L env provider now db userId refreshQ)) \<noteq> [] \<longrightarrow>
            (\<forall>g \<in> set gateOrder. gateOpen env u g)) \<and>
         gateOrder = [ProfileGate, PsychometricGate, AnalysisGate, ProviderGate] \<and>
         distinct (map gateError gateOrder)"
  using ai_portfolio_gates[OF u] ai_career_roadmap_gates[OF u]
    ai_portfolio_calls_only_after_gates[OF u] ai_career_roadmap_calls_only_after_gates[OF u]
    gateError_distinct
  unfolding firstClosedGate_None[symmetric]
  by (simp add: gateOrder_def)

theorem generation_gates_in_order_witness:
  "ai_portfolio demoLib \<lparr>OPENAI_API_KEY = Some ''sk-good''\<rparr> demoProvider 9000
     (demoDb\<lparr>users := [demoUser\<lparr>profile := None, psychometric := None\<rparr>]\<rparr>)
     (ObjectId ''65a1'') (QString ''1'') =
     (respond 400 (ErrorBody ''Profile is missing. Save /user/profile first.''),
      demoDb\<lparr>users := [demoUser\<lparr>profile := None, psychometric := None\<rparr>]\<rparr>, []) \<and>
   ai_career_roadmap demoLib \<lparr>OPENAI_API_KEY = None\<rparr> demoProvider 9000 demoDb
     (ObjectId ''65a1'') QUndefined =
     (respond 500 (ErrorBody ''OpenAI API key not configured''), demoDb, []) \<and>
   length (snd (snd (ai_portfolio demoLib \<lparr>OPENAI_API_KEY = Some ''sk-good''\<rparr> demoProvider 9000
     demoDb (ObjectId ''65a1'') (QString ''1'')))) = 1"
proof -
  have u1: "findOneById (users (demoDb\<lparr>users := [demoUser\<lparr>profile := None, psychometric := None\<rparr>]\<rparr>))
              (ObjectId ''65a1'') = Some (demoUser\<lparr>profile := None, psychometric := None\<rparr>)"
    by (simp add: findOneById_def demoDb_def demoUser_def)
  have g1: "firstClosedGate \<lparr>OPENAI_API_KEY = Some ''sk-good''\<rparr>
              (demoUser\<lparr>profile := None, psychometric := None\<rparr>) = Some ProfileGate"
    by (simp add: firstClosedGate_def gateOrder_def)
  have g2: "firstClosedGate \<lparr>OPENAI_API_KEY = None\<rparr> demoUser = Some ProviderGate"
    by (simp add: firstClosedGate_def gateOrder_def demo_user_fields providerConfigured_def)
  have g3: "firstClosedGate \<lparr>OPENAI_API_KEY = Some ''sk-good''\<rparr> demoUser = None"
    by (simp add: firstClosedGate_def gateOrder_def demo_user_fields providerConfigured_def)
  from generation_gates_in_order[OF u1, where refreshQ = "QString ''1''"
      and env = "\<lparr>OPENAI_API_KEY = Some ''sk-good''\<rparr>" and L = demoLib and provider = demoProvider
      and now = 9000] g1
  have 1: "ai_portfolio demoLib \<lparr>OPENAI_API_KEY = Some ''sk-good''\<rparr> demoProvider 9000
     (demoDb\<lparr>users := [demoUser\<lparr>profile := None, psychometric := None\<rparr>]\<rparr>)
     (ObjectId ''65a1'') (QString ''1'') =
     (respond 400 (ErrorBody ''Profile is missing. Save /user/profile first.''),
      demoDb\<lparr>users := [demoUser\<lparr>profile := None, psychometric := None\<rparr>]\<rparr>, [])"
    by (simp add: trim_def isSpace_def)
  from generation_gates_in_order[OF demo_find, where refreshQ = QUndefined
      and env = "\<lparr>OPENAI_API_KEY = None\<rparr>" and L = demoLib and provider = demoProvider
      and now = 9000] g2
  have 2: "ai_career_roadmap demoLib \<lparr>OPENAI_API_KEY = None\<rparr> demoProvider 9000 demoDb
     (ObjectId ''65a1'') QUndefined =
     (respond 500 (ErrorBody ''OpenAI API key not configured''), demoDb, [])"
    by (simp add: demo_user_fields)
  from generation_gates_in_order[OF demo_find, where refreshQ = "QString ''1''"
      and env = "\<lparr>OPENAI_API_KEY = Some ''sk-good''\<rparr>" and L = demoLib and provider = demoProvider
      and now = 9000] g3
  have 3: "length (snd (snd (ai_portfolio demoLib \<lparr>OPENAI_API_KEY = Some ''sk-good''\<rparr> demoProvider 9000
     demoDb (ObjectId ''65a1'') (QString ''1'')))) = 1"
    by (simp add: trim_def isSpace_def)
  from 1 2 3 show ?thesis by blast
qed

text \<open>
  Claim C3, as stated, fails in its last sentence. The client is built with the library's
  default of two retries: with a provider that fails every request in a way the library
  retries, one invocation of \<^verbatim>\<open>/ai/portfolio\<close> sends three requests before it answers 502;
  with a provider that fails twice and then answers, one invocation of
  \<^verbatim>\<open>/ai/career-roadmap\<close> sends three requests and answers 200.
\<close>

theorem client_retries_failed_requests:
  "ai_portfolio demoLib \<lparr>OPENAI_API_KEY = Some ''sk-down''\<rparr> demoProvider 9000 demoDb
     (ObjectId ''65a1'') (QString ''1'') =
     (respond 502 (ErrorBody ''timeout''), demoDb,
      [\<lparr>call_request = portfolioRequest demoProfile (buildAnswerContext demoAnswers) demoAnalysis,
        requests_sent = 3\<rparr>]) \<and>
   fst (ai_career_roadmap demoLib \<lparr>OPENAI_API_KEY = Some ''sk-flaky''\<rparr> demoProvider 9000 demoDb
     (ObjectId ''65a1'') QUndefined) = respond 200 (RoadmapBody AI_MODEL 9000 demoRoadmap) \<and>
   snd (snd (ai_career_roadmap demoLib \<lparr>OPENAI_API_KEY = Some ''sk-flaky''\<rparr> demoProvider 9000 demoDb
     (ObjectId ''65a1'') QUndefined)) =
     [\<lparr>call_request = roadmapRequest demoProfile (buildAnswerContext demoAnswers) demoAnalysis,
       requests_sent = 3\<rparr>]"
proof -
  have k1: "OPENAI_API_KEY \<lparr>OPENAI_API_KEY = Some ''sk-down''\<rparr> = Some ''sk-down''" "''sk-down'' \<noteq> []"
    and k2: "OPENAI_API_KEY \<lparr>OPENAI_API_KEY = Some ''sk-flaky''\<rparr> = Some ''sk-flaky''" "''sk-flaky'' \<noteq> []"
    by simp_all
  have 1: "ai_portfolio demoLib \<lparr>OPENAI_API_KEY = Some ''sk-down''\<rparr> demoProvider 9000 demoDb
     (ObjectId ''65a1'') (QString ''1'') =
     (respond 502 (ErrorBody ''timeout''), demoDb,
      [\<lparr>call_request = portfolioRequest demoProfile (buildAnswerContext demoAnswers) demoAnalysis,
        requests_sent = 3\<rparr>])"
    unfolding ai_portfolio_called[OF demo_find demo_attempt(1) demo_user_fields(1,2,3) k1]
    by (simp add: demo_last demo_sent)
  have 2: "ai_career_roadmap demoLib \<lparr>OPENAI_API_KEY = Some ''sk-flaky''\<rparr> demoProvider 9000 demoDb
     (ObjectId ''65a1'') QUndefined =
     (respond 200 (RoadmapBody AI_MODEL 9000 demoRoadmap),
      demoDb\<lparr>users := fst (updateOne (ObjectId ''65a1'')
         (set_ai_roadmap \<lparr>data = demoRoadmap, slot_createdAt = 9000, slot_model = AI_MODEL\<rparr> 9000)
         (users demoDb))\<rparr>,
      [\<lparr>call_request = roadmapRequest demoProfile (buildAnswerContext demoAnswers) demoAnalysis,
        requests_sent = 3\<rparr>])"
    unfolding ai_career_roadmap_called[OF demo_find demo_attempt(3) demo_user_fields(1,2,3) k2]
    by (simp add: demo_last demo_sent demo_parse demo_roadmap_parse)
  from 1 2 show ?thesis by simp
qed

text \<open>
  Claim C3, amended. For a generation attempt whose three prerequisites are present:
  without a configured credential the response is 500 and no call is made. With one, the
  handler calls the client exactly once and does not repeat the call; the client sends
  the request, and sends it again after each failure that the library retries, so that
  one to three requests reach the provider: every request before the last failed in a
  retryable way, and a last request that failed so was the third. What the last request
  came to is classified in this order: an error gives 502 with its message (a fixed
  message when the thrown value is not an error); no content or empty content gives 502;
  content that does not parse gives 502 with the raw content; a parsed value outside the
  contract of the schema gives 502 with a non-empty list of issues; a value within the
  contract gives 200. The contracts are \<open>portfolioContract\<close> and \<open>roadmapContract\<close>.
\<close>

theorem provider_failures_classified:
  assumes u: "findOneById (users db) userId = Some u"
    and pr: "profile u = Some pr" and ps: "psychometric u = Some ps"
    and an: "Option.bind (ai u) analysis = Some an"
  shows "(qString refreshQ = Some ''1'' \<or> Option.bind (ai u) portfolio = None \<longrightarrow>
         (\<not> providerConfigured env \<longrightarrow>
            (ai_portfolio L env provider now db userId refreshQ) = (respond 500 (ErrorBody ''OpenAI API key not configured''), db, [])) \<and>
         (\<forall>k. OPENAI_API_KEY env = Some k \<and> k \<noteq> [] \<longrightarrow>
            snd (snd (ai_portfolio L env provider now db userId refreshQ)) =
              [\<lparr>call_request = (portfolioRequest pr (buildAnswerContext (answers ps)) an), requests_sent = requestsSent (provider k (portfolioRequest pr (buildAnswerContext (answers ps)) an))\<rparr>] \<and>
            1 \<le> requestsSent (provider k (portfolioRequest pr (buildAnswerContext (answers ps)) an)) \<and> requestsSent (provider k (portfolioRequest pr (buildAnswerContext (answers ps)) an)) \<le> 3 \<and>
            (\<forall>i. Suc i < requestsSent (provider k (portfolioRequest pr (buildAnswerContext (answers ps)) an)) \<longrightarrow> retried (provider k (portfolioRequest pr (buildAnswerContext (answers ps)) an) i)) \<and>
            (retried (lastAttempt (provider k (portfolioRequest pr (buildAnswerContext (answers ps)) an))) \<longrightarrow> requestsSent (provider k (portfolioRequest pr (buildAnswerContext (answers ps)) an)) = 3) \<and>
            (\<forall>r msg. lastAttempt (provider k (portfolioRequest pr (buildAnswerContext (answers ps)) an)) = Failed r (Some msg) \<longrightarrow>
               fst (ai_portfolio L env provider now db userId refreshQ) = respond 502 (ErrorBody msg)) \<and>
            (\<forall>r. lastAttempt (provider k (portfolioRequest pr (buildAnswerContext (answers ps)) an)) = Failed r None \<longrightarrow>
               fst (ai_portfolio L env provider now db userId refreshQ) = respond 502 (ErrorBody ''OpenAI request failed'')) \<and>
            (lastAttempt (provider k (portfolioRequest pr (buildAnswerContext (answers ps)) an)) = Answered None \<or>
             lastAttempt (provider k (portfolioRequest pr (buildAnswerContext (answers ps)) an)) = Answered (Some []) \<longrightarrow>
               fst (ai_portfolio L env provider now db userId refreshQ) = respond 502 (ErrorBody ''AI returned an empty response'')) \<and>
            (\<forall>c. lastAttempt (provider k (portfolioRequest pr (buildAnswerContext (answers ps)) an)) = Answered (Some c) \<and> c \<noteq> [] \<longrightarrow>
               (JSON_parse L c = None \<longrightarrow>
                  fst (ai_portfolio L env provider now db userId refreshQ) = respond 502 (ErrorRaw ''AI returned non-JSON output'' c)) \<and>
               (\<forall>j. JSON_parse L c = Some j \<longrightarrow>
                  (\<not> portfolioContract j \<longrightarrow>
                     (\<exists>iss. iss \<noteq> [] \<and>
                        fst (ai_portfolio L env provider now db userId refreshQ) = respond 502
                          (ErrorDetails ''AI output did not match expected schema'' iss))) \<and>
                  (portfolioContract j \<longrightarrow> status (fst (ai_portfolio L env provider now db userId refreshQ)) = 200))))) \<and>
        (qString refreshQ = Some ''1'' \<or> Option.bind (ai u) roadmap = None \<longrightarrow>
         (\<not> providerConfigured env \<longrightarrow>
            (ai_career_roadmap L env provider now db userId refreshQ) = (respond 500 (ErrorBody ''OpenAI API key not configured''), db, [])) \<and>
         (\<forall>k. OPENAI_API_KEY env = Some k \<and> k \<noteq> [] \<longrightarrow>
            snd (snd (ai_career_roadmap L env provider now db userId refreshQ)) =
              [\<lparr>call_request = (roadmapRequest pr (buildAnswerContext (answers ps)) an), requests_sent = requestsSent (provider k (roadmapRequest pr (buildAnswerContext (answers ps)) an))\<rparr>] \<and>
            1 \<le> requestsSent (provider k (roadmapRequest pr (buildAnswerContext (answers ps)) an)) \<and> requestsSent (provider k (roadmapRequest pr (buildAnswerContext (answers ps)) an)) \<le> 3 \<and>
            (\<forall>i. Suc i < requestsSent (provider k (roadmapRequest pr (buildAnswerContext (answers ps)) an)) \<longrightarrow> retried (provider k (roadmapRequest pr (buildAnswerContext (answers ps)) an) i)) \<and>
            (retried (lastAttempt (provider k (roadmapRequest pr (buildAnswerContext (answers ps)) an))) \<longrightarrow> requestsSent (provider k (roadmapRequest pr (buildAnswerContext (answers ps)) an)) = 3) \<and>
            (\<forall>r msg. lastAttempt (provider k (roadmapRequest pr (buildAnswerContext (answers ps)) an)) = Failed r (Some msg) \<longrightarrow>
               fst (ai_career_roadmap L env provider now db userId refreshQ) = respond 502 (ErrorBody msg)) \<and>
            (\<forall>r. lastAttempt (provider k (roadmapRequest pr (buildAnswerContext (answers ps)) an)) = Failed r None \<longrightarrow>
               fst (ai_career_roadmap L env provider now db userId refreshQ) = respond 502 (ErrorBody ''OpenAI request failed'')) \<and>
            (lastAttempt (provider k (roadmapRequest pr (buildAnswerContext (answers ps)) an)) = Answered None \<or>
             lastAttempt (provider k (roadmapRequest pr (buildAnswerContext (answers ps)) an)) = Answered (Some []) \<longrightarrow>
               fst (ai_career_roadmap L env provider now db userId refreshQ) = respond 502 (ErrorBody ''AI returned an empty response'')) \<and>
            (\<forall>c. lastAttempt (provider k (roadmapRequest pr (buildAnswerContext (answers ps)) an)) = Answered (Some c) \<and> c \<noteq> [] \<longrightarrow>
               (JSON_parse L c = None \<longrightarrow>
                  fst (ai_career_roadmap L env provider now db userId refreshQ) = respond 502 (ErrorRaw ''AI returned non-JSON output'' c)) \<and>
               (\<forall>j. JSON_parse L c = Some j \<longrightarrow>
                  (\<not> roadmapContract j \<longrightarrow>
                     (\<exists>iss. iss \<noteq> [] \<and>
                        fst (ai_career_roadmap L env provider now db userId refreshQ) = respond 502
                          (ErrorDetails ''AI output did not match expected schema'' iss))) \<and>
                  (roadmapContract j \<longrightarrow> status (fst (ai_career_roadmap L env provider now db userId refreshQ)) = 200)))))"
proof (rule conjI; rule impI)
  assume att: "qString refreshQ = Some ''1'' \<or> Option.bind (ai u) portfolio = None"
  from ai_portfolio_classified[OF u att pr ps an, of env L provider now]
  show "(\<not> providerConfigured env \<longrightarrow>
            (ai_portfolio L env provider now db userId refreshQ) = (respond 500 (ErrorBody ''OpenAI API key not configured''), db, [])) \<and>
         (\<forall>k. OPENAI_API_KEY env = Some k \<and> k \<noteq> [] \<longrightarrow>
            snd (snd (ai_portfolio L env provider now db userId refreshQ)) =
              [\<lparr>call_request = (portfolioRequest pr (buildAnswerContext (answers ps)) an), requests_sent = requestsSent (provider k (portfolioRequest pr (buildAnswerContext (answers ps)) an))\<rparr>] \<and>
            1 \<le> requestsSent (provider k (portfolioRequest pr (buildAnswerContext (answers ps)) an)) \<and> requestsSent (provider k (portfolioRequest pr (buildAnswerContext (answers ps)) an)) \<le> 3 \<and>
            (\<forall>i. Suc i < requestsSent (provider k (portfolioRequest pr (buildAnswerContext (answers ps)) an)) \<longrightarrow> retried (provider k (portfolioRequest pr (buildAnswerContext (answers ps)) an) i)) \<and>
            (retried (lastAttempt (provider k (portfolioRequest pr (buildAnswerContext (answers ps)) an))) \<longrightarrow> requestsSent (provider k (portfolioRequest pr (buildAnswerContext (answers ps)) an)) = 3) \<and>
            (\<forall>r msg. lastAttempt (provider k (portfolioRequest pr (buildAnswerContext (answers ps)) an)) = Failed r (Some msg) \<longrightarrow>
               fst (ai_portfolio L env provider now db userId refreshQ) = respond 502 (ErrorBody msg)) \<and>
            (\<forall>r. lastAttempt (provider k (portfolioRequest pr (buildAnswerContext (answers ps)) an)) = Failed r None \<longrightarrow>
               fst (ai_portfolio L env provider now db userId refreshQ) = respond 502 (ErrorBody ''OpenAI request failed'')) \<and>
            (lastAttempt (provider k (portfolioRequest pr (buildAnswerContext (answers ps)) an)) = Answered None \<or>
             lastAttempt (provider k (portfolioRequest pr (buildAnswerContext (answers ps)) an)) = Answered (Some []) \<longrightarrow>
               fst (ai_portfolio L env provider now db userId refreshQ) = respond 502 (ErrorBody ''AI returned an empty response'')) \<and>
            (\<forall>c. lastAttempt (provider k (portfolioRequest pr (buildAnswerContext (answers ps)) an)) = Answered (Some c) \<and> c \<noteq> [] \<longrightarrow>
               (JSON_parse L c = None \<longrightarrow>
                  fst (ai_portfolio L env provider now db userId refreshQ) = respond 502 (ErrorRaw ''AI returned non-JSON output'' c)) \<and>
               (\<forall>j. JSON_parse L c = Some j \<longrightarrow>
                  (\<not> portfolioContract j \<longrightarrow>
                     (\<exists>iss. iss \<noteq> [] \<and>
                        fst (ai_portfolio L env provider now db userId refreshQ) = respond 502
                          (ErrorDetails ''AI output did not match expected schema'' iss))) \<and>
                  (portfolioContract j \<longrightarrow> status (fst (ai_portfolio L env provider now db userId refreshQ)) = 200))))" .
next
  assume att: "qString refreshQ = Some ''1'' \<or> Option.bind (ai u) roadmap = None"
  from ai_career_roadmap_classified[OF u att pr ps an, of env L provider now]
  show "(\<not> providerConfigured env \<longrightarrow>
            (ai_career_roadmap L env provider now db userId refreshQ) = (respond 500 (ErrorBody ''OpenAI API key not configured''), db, [])) \<and>
         (\<forall>k. OPENAI_API_KEY env = Some k \<and> k \<noteq> [] \<longrightarrow>
            snd (snd (ai_career_roadmap L env provider now db userId refreshQ)) =
              [\<lparr>call_request = (roadmapRequest pr (buildAnswerContext (answers ps)) an), requests_sent = requestsSent (provider k (roadmapRequest pr (buildAnswerContext (answers ps)) an))\<rparr>] \<and>
            1 \<le> requestsSent (provider k (roadmapRequest pr (buildAnswerContext (answers ps)) an)) \<and> requestsSent (provider k (roadmapRequest pr (buildAnswerContext (answers ps)) an)) \<le> 3 \<and>
            (\<forall>i. Suc i < requestsSent (provider k (roadmapRequest pr (buildAnswerContext (answers ps)) an)) \<longrightarrow> retried (provider k (roadmapRequest pr (buildAnswerContext (answers ps)) an) i)) \<and>
            (retried (lastAttempt (provider k (roadmapRequest pr (buildAnswerContext (answers ps)) an))) \<longrightarrow> requestsSent (provider k (roadmapRequest pr (buildAnswerContext (answers ps)) an)) = 3) \<and>
            (\<forall>r msg. lastAttempt (provider k (roadmapRequest pr (buildAnswerContext (answers ps)) an)) = Failed r (Some msg) \<longrightarrow>
               fst (ai_career_roadmap L env provider now db userId refreshQ) = respond 502 (ErrorBody msg)) \<and>
            (\<forall>r. lastAttempt (provider k (roadmapRequest pr (buildAnswerContext (answers ps)) an)) = Failed r None \<longrightarrow>
               fst (ai_career_roadmap L env provider now db userId refreshQ) = respond 502 (ErrorBody ''OpenAI request failed'')) \<and>
            (lastAttempt (provider k (roadmapRequest pr (buildAnswerContext (answers ps)) an)) = Answered None \<or>
             lastAttempt (provider k (roadmapRequest pr (buildAnswerContext (answers ps)) an)) = Answered (Some []) \<longrightarrow>
               fst (ai_career_roadmap L env provider now db userId refreshQ) = respond 502 (ErrorBody ''AI returned an empty response'')) \<and>
            (\<forall>c. lastAttempt (provider k (roadmapRequest pr (buildAnswerContext (answers ps)) an)) = Answered (Some c) \<and> c \<noteq> [] \<longrightarrow>
               (JSON_parse L c = None \<longrightarrow>
                  fst (ai_career_roadmap L env provider now db userId refreshQ) = respond 502 (ErrorRaw ''AI returned non-JSON output'' c)) \<and>
               (\<forall>j. JSON_parse L c = Some j \<longrightarrow>
                  (\<not> roadmapContract j \<longrightarrow>
                     (\<exists>iss. iss \<noteq> [] \<and>
                        fst (ai_career_roadmap L env provider now db userId refreshQ) = respond 502
                          (ErrorDetails ''AI output did not match expected schema'' iss))) \<and>
                  (roadmapContract j \<longrightarrow> status (fst (ai_career_roadmap L env provider now db userId refreshQ)) = 200))))" .
qed

theorem provider_failures_classified_witness:
  "fst (ai_portfolio demoLib \<lparr>OPENAI_API_KEY = Some ''sk-text''\<rparr> demoProvider 9000 demoDb
          (ObjectId ''65a1'') (QString ''1'')) =
     respond 502 (ErrorRaw ''AI returned non-JSON output'' ''not json'') \<and>
   fst (ai_portfolio demoLib \<lparr>OPENAI_API_KEY = Some ''sk-empty''\<rparr> demoProvider 9000 demoDb
          (ObjectId ''65a1'') (QString ''1'')) =
     respond 502 (ErrorBody ''AI returned an empty response'') \<and>
   fst (ai_career_roadmap demoLib \<lparr>OPENAI_API_KEY = Some ''sk-down''\<rparr> demoProvider 9000 demoDb
          (ObjectId ''65a1'') QUndefined) =
     respond 502 (ErrorBody ''timeout'') \<and>
   (\<exists>iss. iss \<noteq> [] \<and>
      fst (ai_career_roadmap demoLib \<lparr>OPENAI_API_KEY = Some ''sk-short''\<rparr> demoProvider 9000 demoDb
             (ObjectId ''65a1'') QUndefined) =
        respond 502 (ErrorDetails ''AI output did not match expected schema'' iss)) \<and>
   status (fst (ai_portfolio demoLib \<lparr>OPENAI_API_KEY = Some ''sk-good''\<rparr> demoProvider 9000 demoDb
          (ObjectId ''65a1'') (QString ''1''))) = 200 \<and>
   snd (snd (ai_portfolio demoLib \<lparr>OPENAI_API_KEY = Some ''sk-good''\<rparr> demoProvider 9000 demoDb
          (ObjectId ''65a1'') (QString ''1''))) =
     [\<lparr>call_request = portfolioRequest demoProfile (buildAnswerContext demoAnswers) demoAnalysis,
       requests_sent = 1\<rparr>] \<and>
   snd (snd (ai_portfolio demoLib \<lparr>OPENAI_API_KEY = Some ''sk-denied''\<rparr> demoProvider 9000 demoDb
          (ObjectId ''65a1'') (QString ''1''))) =
     [\<lparr>call_request = portfolioRequest demoProfile (buildAnswerContext demoAnswers) demoAnalysis,
       requests_sent = 1\<rparr>] \<and>
   fst (ai_portfolio demoLib \<lparr>OPENAI_API_KEY = Some ''sk-denied''\<rparr> demoProvider 9000 demoDb
          (ObjectId ''65a1'') (QString ''1'')) =
     respond 502 (ErrorBody ''invalid key'') \<and>
   snd (snd (ai_portfolio demoLib \<lparr>OPENAI_API_KEY = Some ''sk-down''\<rparr> demoProvider 9000 demoDb
          (ObjectId ''65a1'') (QString ''1''))) =
     [\<lparr>call_request = portfolioRequest demoProfile (buildAnswerContext demoAnswers) demoAnalysis,
       requests_sent = 3\<rparr>] \<and>
   ai_portfolio demoLib \<lparr>OPENAI_API_KEY = Some []\<rparr> demoProvider 9000 demoDb
          (ObjectId ''65a1'') (QString ''1'') =
     (respond 500 (ErrorBody ''OpenAI API key not configured''), demoDb, [])"
proof -
  note classified = provider_failures_classified[OF demo_find demo_user_fields(1,2,3),
      where L = demoLib and provider = demoProvider and now = 9000]
  from classified[where refreshQ = "QString ''1''" and env = "\<lparr>OPENAI_API_KEY = Some ''sk-text''\<rparr>"]
  have 1: "fst (ai_portfolio demoLib \<lparr>OPENAI_API_KEY = Some ''sk-text''\<rparr> demoProvider 9000 demoDb
          (ObjectId ''65a1'') (QString ''1'')) =
     respond 502 (ErrorRaw ''AI returned non-JSON output'' ''not json'')"
    by (simp add: trim_def isSpace_def demo_last demo_parse)
  from classified[where refreshQ = "QString ''1''" and env = "\<lparr>OPENAI_API_KEY = Some ''sk-empty''\<rparr>"]
  have 2: "fst (ai_portfolio demoLib \<lparr>OPENAI_API_KEY = Some ''sk-empty''\<rparr> demoProvider 9000 demoDb
          (ObjectId ''65a1'') (QString ''1'')) =
     respond 502 (ErrorBody ''AI returned an empty response'')"
    by (simp add: trim_def isSpace_def demo_last)
  from classified[where refreshQ = QUndefined and env = "\<lparr>OPENAI_API_KEY = Some ''sk-down''\<rparr>"]
  have 3: "fst (ai_career_roadmap demoLib \<lparr>OPENAI_API_KEY = Some ''sk-down''\<rparr> demoProvider 9000 demoDb
          (ObjectId ''65a1'') QUndefined) =
     respond 502 (ErrorBody ''timeout'')"
    by (auto simp add: demo_user_fields demo_last)
  from classified[where refreshQ = QUndefined and env = "\<lparr>OPENAI_API_KEY = Some ''sk-short''\<rparr>"]
  have 4: "\<exists>iss. iss \<noteq> [] \<and>
      fst (ai_career_roadmap demoLib \<lparr>OPENAI_API_KEY = Some ''sk-short''\<rparr> demoProvider 9000 demoDb
             (ObjectId ''65a1'') QUndefined) =
        respond 502 (ErrorDetails ''AI output did not match expected schema'' iss)"
    by (simp add: demo_user_fields demo_last demo_parse demo_empty_not_contract)
  from classified[where refreshQ = "QString ''1''" and env = "\<lparr>OPENAI_API_KEY = Some ''sk-good''\<rparr>"]
  have 5: "status (fst (ai_portfolio demoLib \<lparr>OPENAI_API_KEY = Some ''sk-good''\<rparr> demoProvider 9000 demoDb
          (ObjectId ''65a1'') (QString ''1''))) = 200"
    by (simp add: trim_def isSpace_def demo_last demo_parse demo_portfolio_contract)
  from classified[where refreshQ = "QString ''1''" and env = "\<lparr>OPENAI_API_KEY = Some ''sk-good''\<rparr>"]
  have 6: "snd (snd (ai_portfolio demoLib \<lparr>OPENAI_API_KEY = Some ''sk-good''\<rparr> demoProvider 9000 demoDb
          (ObjectId ''65a1'') (QString ''1''))) =
     [\<lparr>call_request = portfolioRequest demoProfile (buildAnswerContext demoAnswers) demoAnalysis,
       requests_sent = 1\<rparr>]"
    by (simp add: trim_def isSpace_def demo_sent)
  from classified[where refreshQ = "QString ''1''" and env = "\<lparr>OPENAI_API_KEY = Some ''sk-denied''\<rparr>"]
  have 7: "snd (snd (ai_portfolio demoLib \<lparr>OPENAI_API_KEY = Some ''sk-denied''\<rparr> demoProvider 9000 demoDb
          (ObjectId ''65a1'') (QString ''1''))) =
     [\<lparr>call_request = portfolioRequest demoProfile (buildAnswerContext demoAnswers) demoAnalysis,
       requests_sent = 1\<rparr>]"
    by (simp add: trim_def isSpace_def demo_sent)
  from classified[where refreshQ = "QString ''1''" and env = "\<lparr>OPENAI_API_KEY = Some ''sk-denied''\<rparr>"]
  have 8: "fst (ai_portfolio demoLib \<lparr>OPENAI_API_KEY = Some ''sk-denied''\<rparr> demoProvider 9000 demoDb
          (ObjectId ''65a1'') (QString ''1'')) =
     respond 502 (ErrorBody ''invalid key'')"
    by (auto simp add: trim_def isSpace_def demo_last)
  from classified[where refreshQ = "QString ''1''" and env = "\<lparr>OPENAI_API_KEY = Some ''sk-down''\<rparr>"]
  have 9: "snd (snd (ai_portfolio demoLib \<lparr>OPENAI_API_KEY = Some ''sk-down''\<rparr> demoProvider 9000 demoDb
          (ObjectId ''65a1'') (QString ''1''))) =
     [\<lparr>call_request = portfolioRequest demoProfile (buildAnswerContext demoAnswers) demoAnalysis,
       requests_sent = 3\<rparr>]"
    by (simp add: trim_def isSpace_def demo_sent)
  from classified[where refreshQ = "QString ''1''" and env = "\<lparr>OPENAI_API_KEY = Some []\<rparr>"]
  have 10: "ai_portfolio demoLib \<lparr>OPENAI_API_KEY = Some []\<rparr> demoProvider 9000 demoDb
          (ObjectId ''65a1'') (QString ''1'') =
     (respond 500 (ErrorBody ''OpenAI API key not configured''), demoDb, [])"
    by (simp add: trim_def isSpace_def providerConfigured_def)
  from 1 2 3 4 5 6 7 8 9 10 show ?thesis by (intro conjI)
qed

text \<open>
  Claim C4. Either handler leaves the database as it was, unless a generation succeeded:
  the user was found, no cached value was served, the prerequisites and the credential
  were there, and the content of the provider's last answer parsed and passed the schema.
  A response other than 200 never comes with a write. On a generation attempt, a closed
  gate gives its error with no write; with the gates open and a generation that succeeds,
  the response is 200 with the parsed value, the model and the time of the request, the
  user's document holds the slot with these three, nothing else in the database is
  changed, and every later read without refresh returns the same body from the cache;
  with a generation that does not succeed the response is 502 and nothing is written. A
  generation does not succeed exactly when the last request failed, or came back with
  no content or empty content, or with content that does not parse or that parses to a
  value outside the contract.
\<close>

theorem slot_written_only_on_success:
  "((fst (snd (ai_portfolio L env provider now db userId refreshQ)) = db \<or>
    (\<exists>u pr ps an k parsed.
       findOneById (users db) userId = Some u \<and>
       (qString refreshQ = Some ''1'' \<or> Option.bind (ai u) portfolio = None) \<and>
       profile u = Some pr \<and> psychometric u = Some ps \<and> Option.bind (ai u) analysis = Some an \<and>
       OPENAI_API_KEY env = Some k \<and> k \<noteq> [] \<and>
       generated L aiPortfolioSchema (lastAttempt (provider k (portfolioRequest pr (buildAnswerContext (answers ps)) an))) = Some parsed \<and>
       ai_portfolio L env provider now db userId refreshQ =
         (respond 200 (PortfolioBody AI_MODEL now parsed),
          db\<lparr>users := fst (updateOne userId
             (set_ai_portfolio \<lparr>data = parsed, slot_createdAt = now, slot_model = AI_MODEL\<rparr> now)
             (users db))\<rparr>,
          [\<lparr>call_request = (portfolioRequest pr (buildAnswerContext (answers ps)) an), requests_sent = requestsSent (provider k (portfolioRequest pr (buildAnswerContext (answers ps)) an))\<rparr>]))) \<and>
   (status (fst (ai_portfolio L env provider now db userId refreshQ)) \<noteq> 200 \<longrightarrow>
      fst (snd (ai_portfolio L env provider now db userId refreshQ)) = db) \<and>
   (\<forall>u. findOneById (users db) userId = Some u \<and>
        (qString refreshQ = Some ''1'' \<or> Option.bind (ai u) portfolio = None) \<longrightarrow>
      (\<forall>g. firstClosedGate env u = Some g \<longrightarrow>
         ai_portfolio L env provider now db userId refreshQ = (gateError g, db, [])) \<and>
      (\<forall>pr ps an k.
         profile u = Some pr \<and> psychometric u = Some ps \<and>
         Option.bind (ai u) analysis = Some an \<and> OPENAI_API_KEY env = Some k \<and> k \<noteq> [] \<longrightarrow>
         (case generated L aiPortfolioSchema (lastAttempt (provider k (portfolioRequest pr (buildAnswerContext (answers ps)) an))) of
            Some parsed \<Rightarrow>
              ai_portfolio L env provider now db userId refreshQ =
                (respond 200 (PortfolioBody AI_MODEL now parsed),
                 db\<lparr>users := fst (updateOne userId
                    (set_ai_portfolio \<lparr>data = parsed, slot_createdAt = now, slot_model = AI_MODEL\<rparr> now)
                    (users db))\<rparr>,
                 [\<lparr>call_request = (portfolioRequest pr (buildAnswerContext (answers ps)) an), requests_sent = requestsSent (provider k (portfolioRequest pr (buildAnswerContext (answers ps)) an))\<rparr>]) \<and>
              findOneById (users (fst (snd (ai_portfolio L env provider now db userId refreshQ)))) userId =
                Some (set_ai_portfolio \<lparr>data = parsed, slot_createdAt = now, slot_model = AI_MODEL\<rparr> now u) \<and>
              Option.bind
                (ai (set_ai_portfolio \<lparr>data = parsed, slot_createdAt = now, slot_model = AI_MODEL\<rparr> now u))
                portfolio = Some \<lparr>data = parsed, slot_createdAt = now, slot_model = AI_MODEL\<rparr> \<and>
              job_roles (fst (snd (ai_portfolio L env provider now db userId refreshQ))) = job_roles db \<and>
              scholarships (fst (snd (ai_portfolio L env provider now db userId refreshQ))) = scholarships db \<and>
              (\<forall>other. other \<noteq> userId \<longrightarrow>
                 findOneById (users (fst (snd (ai_portfolio L env provider now db userId refreshQ)))) other =
                 findOneById (users db) other) \<and>
              (\<forall>L' env' provider' now' q'. qString q' \<noteq> Some ''1'' \<longrightarrow>
                 ai_portfolio L' env' provider' now'
                   (fst (snd (ai_portfolio L env provider now db userId refreshQ))) userId q' =
                 (respond 200 (PortfolioBody AI_MODEL now parsed),
                  fst (snd (ai_portfolio L env provider now db userId refreshQ)), []))
          | None \<Rightarrow>
              status (fst (ai_portfolio L env provider now db userId refreshQ)) = 502 \<and>
              fst (snd (ai_portfolio L env provider now db userId refreshQ)) = db \<and>
              snd (snd (ai_portfolio L env provider now db userId refreshQ)) = [\<lparr>call_request = (portfolioRequest pr (buildAnswerContext (answers ps)) an), requests_sent = requestsSent (provider k (portfolioRequest pr (buildAnswerContext (answers ps)) an))\<rparr>]))) \<and>
   (\<forall>a. (generated L aiPortfolioSchema a = None) =
      ((\<exists>retryable err. a = Failed retryable err) \<or> a = Answered None \<or> a = Answered (Some []) \<or>
       (\<exists>c. a = Answered (Some c) \<and> c \<noteq> [] \<and>
          (JSON_parse L c = None \<or> (\<exists>j. JSON_parse L c = Some j \<and> \<not> portfolioContract j)))))) \<and>
   ((fst (snd (ai_career_roadmap L env provider now db userId refreshQ)) = db \<or>
    (\<exists>u pr ps an k parsed.
       findOneById (users db) userId = Some u \<and>
       (qString refreshQ = Some ''1'' \<or> Option.bind (ai u) roadmap = None) \<and>
       profile u = Some pr \<and> psychometric u = Some ps \<and> Option.bind (ai u) analysis = Some an \<and>
       OPENAI_API_KEY env = Some k \<and> k \<noteq> [] \<and>
       generated L aiRoadmapSchema (lastAttempt (provider k (roadmapRequest pr (buildAnswerContext (answers ps)) an))) = Some parsed \<and>
       ai_career_roadmap L env provider now db userId refreshQ =
         (respond 200 (RoadmapBody AI_MODEL now parsed),
          db\<lparr>users := fst (updateOne userId
             (set_ai_roadmap \<lparr>data = parsed, slot_createdAt = now, slot_model = AI_MODEL\<rparr> now)
             (users db))\<rparr>,
          [\<lparr>call_request = (roadmapRequest pr (buildAnswerContext (answers ps)) an), requests_sent = requestsSent (provider k (roadmapRequest pr (buildAnswerContext (answers ps)) an))\<rparr>]))) \<and>
   (status (fst (ai_career_roadmap L env provider now db userId refreshQ)) \<noteq> 200 \<longrightarrow>
      fst (snd (ai_career_roadmap L env provider now db userId refreshQ)) = db) \<and>
   (\<forall>u. findOneById (users db) userId = Some u \<and>
        (qString refreshQ = Some ''1'' \<or> Option.bind (ai u) roadmap = None) \<longrightarrow>
      (\<forall>g. firstClosedGate env u = Some g \<longrightarrow>
         ai_career_roadmap L env provider now db userId refreshQ = (gateError g, db, [])) \<and>
      (\<forall>pr ps an k.
         profile u = Some pr \<and> psychometric u = Some ps \<and>
         Option.bind (ai u) analysis = Some an \<and> OPENAI_API_KEY env = Some k \<and> k \<noteq> [] \<longrightarrow>
         (case generated L aiRoadmapSchema (lastAttempt (provider k (roadmapRequest pr (buildAnswerContext (answers ps)) an))) of
            Some parsed \<Rightarrow>
              ai_career_roadmap L env provider now db userId refreshQ =
                (respond 200 (RoadmapBody AI_MODEL now parsed),
                 db\<lparr>users := fst (updateOne userId
                    (set_ai_roadmap \<lparr>data = parsed, slot_createdAt = now, slot_model = AI_MODEL\<rparr> now)
                    (users db))\<rparr>,
                 [\<lparr>call_request = (roadmapRequest pr (buildAnswerContext (answers ps)) an), requests_sent = requestsSent (provider k (roadmapRequest pr (buildAnswerContext (answers ps)) an))\<rparr>]) \<and>
              findOneById (users (fst (snd (ai_career_roadmap L env provider now db userId refreshQ)))) userId =
                Some (set_ai_roadmap \<lparr>data = parsed, slot_createdAt = now, slot_model = AI_MODEL\<rparr> now u) \<and>
              Option.bind
                (ai (set_ai_roadmap \<lparr>data = parsed, slot_createdAt = now, slot_model = AI_MODEL\<rparr> now u))
                roadmap = Some \<lparr>data = parsed, slot_createdAt = now, slot_model = AI_MODEL\<rparr> \<and>
              job_roles (fst (snd (ai_career_roadmap L env provider now db userId refreshQ))) = job_roles db \<and>
              scholarships (fst (snd (ai_career_roadmap L env provider now db userId refreshQ))) = scholarships db \<and>
              (\<forall>other. other \<noteq> userId \<longrightarrow>
                 findOneById (users (fst (snd (ai_career_roadmap L env provider now db userId refreshQ)))) other =
                 findOneById (users db) other) \<and>
              (\<forall>L' env' provider' now' q'. qString q' \<noteq> Some ''1'' \<longrightarrow>
                 ai_career_roadmap L' env' provider' now'
                   (fst (snd (ai_career_roadmap L env provider now db userId refreshQ))) userId q' =
                 (respond 200 (RoadmapBody AI_MODEL now parsed),
                  fst (snd (ai_career_roadmap L env provider now db userId refreshQ)), []))
          | None \<Rightarrow>
              status (fst (ai_career_roadmap L env provider now db userId refreshQ)) = 502 \<and>
              fst (snd (ai_career_roadmap L env provider now db userId refreshQ)) = db \<and>
              snd (snd (ai_career_roadmap L env provider now db userId refreshQ)) = [\<lparr>call_request = (roadmapRequest pr (buildAnswerContext (answers ps)) an), requests_sent = requestsSent (provider k (roadmapRequest pr (buildAnswerContext (answers ps)) an))\<rparr>]))) \<and>
   (\<forall>a. (generated L aiRoadmapSchema a = None) =
      ((\<exists>retryable err. a = Failed retryable err) \<or> a = Answered None \<or> a = Answered (Some []) \<or>
       (\<exists>c. a = Answered (Some c) \<and> c \<noteq> [] \<and>
          (JSON_parse L c = None \<or> (\<exists>j. JSON_parse L c = Some j \<and> \<not> roadmapContract j))))))"
  using ai_portfolio_slot_written_only_on_success[of L env provider now db userId refreshQ]
    ai_career_roadmap_slot_written_only_on_success[of L env provider now db userId refreshQ]
  by (rule conjI)

theorem slot_written_only_on_success_witness:
  "ai_portfolio demoLib \<lparr>OPENAI_API_KEY = Some ''sk-good''\<rparr> demoProvider 9000 demoDb
     (ObjectId ''65a1'') (QString ''1'') =
     (respond 200 (PortfolioBody AI_MODEL 9000 demoPortfolio),
      demoDb\<lparr>users := [set_ai_portfolio
         \<lparr>data = demoPortfolio, slot_createdAt = 9000, slot_model = AI_MODEL\<rparr> 9000 demoUser]\<rparr>,
      [\<lparr>call_request = portfolioRequest demoProfile (buildAnswerContext demoAnswers) demoAnalysis,
        requests_sent = 1\<rparr>]) \<and>
   ai_portfolio demoLib \<lparr>OPENAI_API_KEY = None\<rparr> demoProvider 9999
     (fst (snd (ai_portfolio demoLib \<lparr>OPENAI_API_KEY = Some ''sk-good''\<rparr> demoProvider 9000 demoDb
        (ObjectId ''65a1'') (QString ''1''))))
     (ObjectId ''65a1'') QUndefined =
     (respond 200 (PortfolioBody AI_MODEL 9000 demoPortfolio),
      demoDb\<lparr>users := [set_ai_portfolio
         \<lparr>data = demoPortfolio, slot_createdAt = 9000, slot_model = AI_MODEL\<rparr> 9000 demoUser]\<rparr>,
      []) \<and>
   ai_career_roadmap demoLib \<lparr>OPENAI_API_KEY = Some ''sk-good''\<rparr> demoProvider 9000 demoDb
     (ObjectId ''65a1'') QUndefined =
     (respond 200 (RoadmapBody AI_MODEL 9000 demoRoadmap),
      demoDb\<lparr>users := [set_ai_roadmap
         \<lparr>data = demoRoadmap, slot_createdAt = 9000, slot_model = AI_MODEL\<rparr> 9000 demoUser]\<rparr>,
      [\<lparr>call_request = roadmapRequest demoProfile (buildAnswerContext demoAnswers) demoAnalysis,
        requests_sent = 1\<rparr>]) \<and>
   ai_career_roadmap demoLib \<lparr>OPENAI_API_KEY = None\<rparr> demoProvider 9999
     (fst (snd (ai_career_roadmap demoLib \<lparr>OPENAI_API_KEY = Some ''sk-good''\<rparr> demoProvider 9000
        demoDb (ObjectId ''65a1'') QUndefined)))
     (ObjectId ''65a1'') QUndefined =
     (respond 200 (RoadmapBody AI_MODEL 9000 demoRoadmap),
      demoDb\<lparr>users := [set_ai_roadmap
         \<lparr>data = demoRoadmap, slot_createdAt = 9000, slot_model = AI_MODEL\<rparr> 9000 demoUser]\<rparr>,
      []) \<and>
   status (fst (ai_portfolio demoLib \<lparr>OPENAI_API_KEY = Some ''sk-down''\<rparr> demoProvider 9000 demoDb
     (ObjectId ''65a1'') (QString ''1''))) = 502 \<and>
   fst (snd (ai_portfolio demoLib \<lparr>OPENAI_API_KEY = Some ''sk-down''\<rparr> demoProvider 9000 demoDb
     (ObjectId ''65a1'') (QString ''1''))) = demoDb \<and>
   status (fst (ai_career_roadmap demoLib \<lparr>OPENAI_API_KEY = Some ''sk-short''\<rparr> demoProvider 9000
     demoDb (ObjectId ''65a1'') QUndefined)) = 502 \<and>
   fst (snd (ai_career_roadmap demoLib \<lparr>OPENAI_API_KEY = Some ''sk-short''\<rparr> demoProvider 9000
     demoDb (ObjectId ''65a1'') QUndefined)) = demoDb \<and>
   ai_portfolio demoLib \<lparr>OPENAI_API_KEY = None\<rparr> demoProvider 9000 demoDb
     (ObjectId ''65a1'') (QString ''1'') =
     (respond 500 (ErrorBody ''OpenAI API key not configured''), demoDb, [])"
proof -
  note w = slot_written_only_on_success[where L = demoLib and provider = demoProvider and now = 9000
      and db = demoDb and userId = "ObjectId ''65a1''"]
  note p = w[THEN conjunct1, THEN conjunct2, THEN conjunct2, THEN conjunct1, rule_format,
      OF conjI[OF demo_find]]
  note r = w[THEN conjunct2, THEN conjunct2, THEN conjunct2, THEN conjunct1, rule_format,
      OF conjI[OF demo_find]]
  note flds = conjI[OF demo_user_fields(1) conjI[OF demo_user_fields(2) conjI[OF demo_user_fields(3)]]]
  have k: "OPENAI_API_KEY \<lparr>OPENAI_API_KEY = Some (c # cs)\<rparr> = Some (c # cs) \<and> c # cs \<noteq> []" for c cs
    by simp
  note pg = p[where refreshQ = "QString ''1''" and env = "\<lparr>OPENAI_API_KEY = Some ''sk-good''\<rparr>",
      OF demo_attempt(1), THEN conjunct2, rule_format, OF flds[OF k],
      unfolded demo_last demo_generated option.case demo_update]
  note pd = p[where refreshQ = "QString ''1''" and env = "\<lparr>OPENAI_API_KEY = Some ''sk-down''\<rparr>",
      OF demo_attempt(1), THEN conjunct2, rule_format, OF flds[OF k],
      unfolded demo_last demo_generated option.case]
  note pn = p[where refreshQ = "QString ''1''" and env = "\<lparr>OPENAI_API_KEY = None\<rparr>",
      OF demo_attempt(1), THEN conjunct1, rule_format, OF demo_keys(3)]
  note rg = r[where refreshQ = QUndefined and env = "\<lparr>OPENAI_API_KEY = Some ''sk-good''\<rparr>",
      OF demo_attempt(3), THEN conjunct2, rule_format, OF flds[OF k],
      unfolded demo_last demo_generated option.case demo_update]
  note rs = r[where refreshQ = QUndefined and env = "\<lparr>OPENAI_API_KEY = Some ''sk-short''\<rparr>",
      OF demo_attempt(3), THEN conjunct2, rule_format, OF flds[OF k],
      unfolded demo_last demo_generated option.case]
  have qU: "qString QUndefined \<noteq> Some ''1''" by simp
  have 1: "ai_portfolio demoLib \<lparr>OPENAI_API_KEY = Some ''sk-good''\<rparr> demoProvider 9000 demoDb
     (ObjectId ''65a1'') (QString ''1'') =
     (respond 200 (PortfolioBody AI_MODEL 9000 demoPortfolio),
      demoDb\<lparr>users := [set_ai_portfolio
         \<lparr>data = demoPortfolio, slot_createdAt = 9000, slot_model = AI_MODEL\<rparr> 9000 demoUser]\<rparr>,
      [\<lparr>call_request = portfolioRequest demoProfile (buildAnswerContext demoAnswers) demoAnalysis,
        requests_sent = 1\<rparr>])"
    using pg[THEN conjunct1] by (simp add: demo_sent)
  have d1: "fst (snd (ai_portfolio demoLib \<lparr>OPENAI_API_KEY = Some ''sk-good''\<rparr> demoProvider 9000 demoDb
        (ObjectId ''65a1'') (QString ''1''))) =
      demoDb\<lparr>users := [set_ai_portfolio
         \<lparr>data = demoPortfolio, slot_createdAt = 9000, slot_model = AI_MODEL\<rparr> 9000 demoUser]\<rparr>"
    unfolding 1 by simp
  have 2: "ai_portfolio demoLib \<lparr>OPENAI_API_KEY = None\<rparr> demoProvider 9999
     (fst (snd (ai_portfolio demoLib \<lparr>OPENAI_API_KEY = Some ''sk-good''\<rparr> demoProvider 9000 demoDb
        (ObjectId ''65a1'') (QString ''1''))))
     (ObjectId ''65a1'') QUndefined =
     (respond 200 (PortfolioBody AI_MODEL 9000 demoPortfolio),
      demoDb\<lparr>users := [set_ai_portfolio
         \<lparr>data = demoPortfolio, slot_createdAt = 9000, slot_model = AI_MODEL\<rparr> 9000 demoUser]\<rparr>,
      [])"
    using pg[THEN conjunct2, THEN conjunct2, THEN conjunct2, THEN conjunct2, THEN conjunct2,
        THEN conjunct2, rule_format, OF qU, of demoLib "\<lparr>OPENAI_API_KEY = None\<rparr>" demoProvider 9999]
    unfolding d1 .
  have 3: "ai_career_roadmap demoLib \<lparr>OPENAI_API_KEY = Some ''sk-good''\<rparr> demoProvider 9000 demoDb
     (ObjectId ''65a1'') QUndefined =
     (respond 200 (RoadmapBody AI_MODEL 9000 demoRoadmap),
      demoDb\<lparr>users := [set_ai_roadmap
         \<lparr>data = demoRoadmap, slot_createdAt = 9000, slot_model = AI_MODEL\<rparr> 9000 demoUser]\<rparr>,
      [\<lparr>call_request = roadmapRequest demoProfile (buildAnswerContext demoAnswers) demoAnalysis,
        requests_sent = 1\<rparr>])"
    using rg[THEN conjunct1] by (simp add: demo_sent)
  have d3: "fst (snd (ai_career_roadmap demoLib \<lparr>OPENAI_API_KEY = Some ''sk-good''\<rparr> demoProvider 9000
        demoDb (ObjectId ''65a1'') QUndefined)) =
      demoDb\<lparr>users := [set_ai_roadmap
         \<lparr>data = demoRoadmap, slot_createdAt = 9000, slot_model = AI_MODEL\<rparr> 9000 demoUser]\<rparr>"
    unfolding 3 by simp
  have 4: "ai_career_roadmap demoLib \<lparr>OPENAI_API_KEY = None\<rparr> demoProvider 9999
     (fst (snd (ai_career_roadmap demoLib \<lparr>OPENAI_API_KEY = Some ''sk-good''\<rparr> demoProvider 9000
        demoDb (ObjectId ''65a1'') QUndefined)))
     (ObjectId ''65a1'') QUndefined =
     (respond 200 (RoadmapBody AI_MODEL 9000 demoRoadmap),
      demoDb\<lparr>users := [set_ai_roadmap
         \<lparr>data = demoRoadmap, slot_createdAt = 9000, slot_model = AI_MODEL\<rparr> 9000 demoUser]\<rparr>,
      [])"
    using rg[THEN conjunct2, THEN conjunct2, THEN conjunct2, THEN conjunct2, THEN conjunct2,
        THEN conjunct2, rule_format, OF qU, of demoLib "\<lparr>OPENAI_API_KEY = None\<rparr>" demoProvider 9999]
    unfolding d3 .
  note 5 = pd[THEN conjunct1]
  note 6 = pd[THEN conjunct2, THEN conjunct1]
  note 7 = rs[THEN conjunct1]
  note 8 = rs[THEN conjunct2, THEN conjunct1]
  have 9: "ai_portfolio demoLib \<lparr>OPENAI_API_KEY = None\<rparr> demoProvider 9000 demoDb
     (ObjectId ''65a1'') (QString ''1'') =
     (respond 500 (ErrorBody ''OpenAI API key not configured''), demoDb, [])"
    using pn by simp
  from 1 2 3 4 5 6 7 8 9 show ?thesis by (intro conjI)
qed

text \<open>
  Claim C1, as stated, fails: with \<^verbatim>\<open>refresh=1\<close> and a cached portfolio, a provider whose
  requests all fail gives 502, and a missing credential gives 500 with no call; in both
  cases the slot keeps its value.
\<close>

theorem refresh_does_not_always_overwrite:
  "qString (QString ''1'') = Some ''1'' \<and>
   findOneById (users demoDb) (ObjectId ''65a1'') = Some demoUser \<and>
   Option.bind (ai demoUser) portfolio =
     Some \<lparr>data = demoStalePortfolio, slot_createdAt = 3000, slot_model = AI_MODEL\<rparr> \<and>
   ai_portfolio demoLib \<lparr>OPENAI_API_KEY = Some ''sk-down''\<rparr> demoProvider 9000 demoDb
     (ObjectId ''65a1'') (QString ''1'') =
     (respond 502 (ErrorBody ''timeout''), demoDb,
      [\<lparr>call_request = portfolioRequest demoProfile (buildAnswerContext demoAnswers) demoAnalysis,
        requests_sent = 3\<rparr>]) \<and>
   ai_portfolio demoLib \<lparr>OPENAI_API_KEY = None\<rparr> demoProvider 9000 demoDb
     (ObjectId ''65a1'') (QString ''1'') =
     (respond 500 (ErrorBody ''OpenAI API key not configured''), demoDb, [])"
proof -
  have k: "OPENAI_API_KEY \<lparr>OPENAI_API_KEY = Some ''sk-down''\<rparr> = Some ''sk-down''" "''sk-down'' \<noteq> []"
    by simp_all
  have 1: "ai_portfolio demoLib \<lparr>OPENAI_API_KEY = Some ''sk-down''\<rparr> demoProvider 9000 demoDb
     (ObjectId ''65a1'') (QString ''1'') =
     (respond 502 (ErrorBody ''timeout''), demoDb,
      [\<lparr>call_request = portfolioRequest demoProfile (buildAnswerContext demoAnswers) demoAnalysis,
        requests_sent = 3\<rparr>])"
    unfolding ai_portfolio_called[OF demo_find demo_attempt(1) demo_user_fields(1,2,3) k]
    by (simp add: demo_last demo_sent)
  have 2: "ai_portfolio demoLib \<lparr>OPENAI_API_KEY = None\<rparr> demoProvider 9000 demoDb
     (ObjectId ''65a1'') (QString ''1'') =
     (respond 500 (ErrorBody ''OpenAI API key not configured''), demoDb, [])"
    by (rule ai_portfolio_not_configured[OF demo_find demo_attempt(1) demo_user_fields(1,2,3)])
       (simp add: providerConfigured_def)
  from demo_refresh(1) demo_find demo_user_fields(4) 1 2 show ?thesis by (intro conjI)
qed

text \<open>
  Claim C1, amended. Without \<^verbatim>\<open>refresh=1\<close> a cached value is returned as stored (data,
  model, time), with no call of the client and no change of the database, so a second
  read without refresh gives the same result. With \<^verbatim>\<open>refresh=1\<close> the cache is not read,
  whatever it holds and whenever it was written: a closed gate gives its error, and with
  the gates open the client is called once. When the generation succeeds (the content of
  the provider's last answer parses and passes the schema) the response is 200 with the
  parsed value, and the slot is overwritten with that value, the time of this request and
  the model. When it does not succeed the response is 502 and the database, hence the
  slot, is unchanged.
\<close>

theorem cache_served_unless_refresh:
  assumes u: "findOneById (users db) userId = Some u"
  shows "((\<forall>cached. qString refreshQ \<noteq> Some ''1'' \<and> Option.bind (ai u) portfolio = Some cached \<longrightarrow>
            ai_portfolio L env provider now db userId refreshQ =
              (respond 200 (PortfolioBody (slot_model cached) (slot_createdAt cached) (data cached)),
               db, []) \<and>
            (\<forall>L' env' provider' now' q'. qString q' \<noteq> Some ''1'' \<longrightarrow>
               ai_portfolio L' env' provider' now'
                 (fst (snd (ai_portfolio L env provider now db userId refreshQ))) userId q' =
               ai_portfolio L env provider now db userId refreshQ)) \<and>
         (qString refreshQ = Some ''1'' \<longrightarrow>
            (case firstClosedGate env u of
               Some g \<Rightarrow> ai_portfolio L env provider now db userId refreshQ = (gateError g, db, [])
             | None \<Rightarrow> length (snd (snd (ai_portfolio L env provider now db userId refreshQ))) = 1) \<and>
            (\<forall>pr ps an k.
               profile u = Some pr \<and> psychometric u = Some ps \<and>
               Option.bind (ai u) analysis = Some an \<and> OPENAI_API_KEY env = Some k \<and> k \<noteq> [] \<longrightarrow>
               (case generated L aiPortfolioSchema (lastAttempt (provider k (portfolioRequest pr (buildAnswerContext (answers ps)) an))) of
                  Some parsed \<Rightarrow>
                    ai_portfolio L env provider now db userId refreshQ =
                      (respond 200 (PortfolioBody AI_MODEL now parsed),
                       db\<lparr>users := fst (updateOne userId
                          (set_ai_portfolio \<lparr>data = parsed, slot_createdAt = now, slot_model = AI_MODEL\<rparr> now)
                          (users db))\<rparr>,
                       [\<lparr>call_request = (portfolioRequest pr (buildAnswerContext (answers ps)) an), requests_sent = requestsSent (provider k (portfolioRequest pr (buildAnswerContext (answers ps)) an))\<rparr>]) \<and>
                    findOneById (users (fst (snd (ai_portfolio L env provider now db userId refreshQ)))) userId =
                      Some (set_ai_portfolio \<lparr>data = parsed, slot_createdAt = now, slot_model = AI_MODEL\<rparr> now u) \<and>
                    Option.bind
                      (ai (set_ai_portfolio \<lparr>data = parsed, slot_createdAt = now, slot_model = AI_MODEL\<rparr> now u))
                      portfolio = Some \<lparr>data = parsed, slot_createdAt = now, slot_model = AI_MODEL\<rparr>
                | None \<Rightarrow>
                    status (fst (ai_portfolio L env provider now db userId refreshQ)) = 502 \<and>
                    fst (snd (ai_portfolio L env provider now db userId refreshQ)) = db \<and>
                    snd (snd (ai_portfolio L env provider now db userId refreshQ)) = [\<lparr>call_request = (portfolioRequest pr (buildAnswerContext (answers ps)) an), requests_sent = requestsSent (provider k (portfolioRequest pr (buildAnswerContext (answers ps)) an))\<rparr>])))) \<and>
   ((\<forall>cached. qString refreshQ \<noteq> Some ''1'' \<and> Option.bind (ai u) roadmap = Some cached \<longrightarrow>
            ai_career_roadmap L env provider now db userId refreshQ =
              (respond 200 (RoadmapBody (slot_model cached) (slot_createdAt cached) (data cached)),
               db, []) \<and>
            (\<forall>L' env' provider' now' q'. qString q' \<noteq> Some ''1'' \<longrightarrow>
               ai_career_roadmap L' env' provider' now'
                 (fst (snd (ai_career_roadmap L env provider now db userId refreshQ))) userId q' =
               ai_career_roadmap L env provider now db userId refreshQ)) \<and>
         (qString refreshQ = Some ''1'' \<longrightarrow>
            (case firstClosedGate env u of
               Some g \<Rightarrow> ai_career_roadmap L env provider now db userId refreshQ = (gateError g, db, [])
             | None \<Rightarrow> length (snd (snd (ai_career_roadmap L env provider now db userId refreshQ))) = 1) \<and>
            (\<forall>pr ps an k.
               profile u = Some pr \<and> psychometric u = Some ps \<and>
               Option.bind (ai u) analysis = Some an \<and> OPENAI_API_KEY env = Some k \<and> k \<noteq> [] \<longrightarrow>
               (case generated L aiRoadmapSchema (lastAttempt (provider k (roadmapRequest pr (buildAnswerContext (answers ps)) an))) of
                  Some parsed \<Rightarrow>
                    ai_career_roadmap L env provider now db userId refreshQ =
                      (respond 200 (RoadmapBody AI_MODEL now parsed),
                       db\<lparr>users := fst (updateOne userId
                          (set_ai_roadmap \<lparr>data = parsed, slot_createdAt = now, slot_model = AI_MODEL\<rparr> now)
                          (users db))\<rparr>,
                       [\<lparr>call_request = (roadmapRequest pr (buildAnswerContext (answers ps)) an), requests_sent = requestsSent (provider k (roadmapRequest pr (buildAnswerContext (answers ps)) an))\<rparr>]) \<and>
                    findOneById (users (fst (snd (ai_career_roadmap L env provider now db userId refreshQ)))) userId =
                      Some (set_ai_roadmap \<lparr>data = parsed, slot_createdAt = now, slot_model = AI_MODEL\<rparr> now u) \<and>
                    Option.bind
                      (ai (set_ai_roadmap \<lparr>data = parsed, slot_createdAt = now, slot_model = AI_MODEL\<rparr> now u))
                      roadmap = Some \<lparr>data = parsed, slot_createdAt = now, slot_model = AI_MODEL\<rparr>
                | None \<Rightarrow>
                    status (fst (ai_career_roadmap L env provider now db userId refreshQ)) = 502 \<and>
                    fst (snd (ai_career_roadmap L env provider now db userId refreshQ)) = db \<and>
                    snd (snd (ai_career_roadmap L env provider now db userId refreshQ)) = [\<lparr>call_request = (roadmapRequest pr (buildAnswerContext (answers ps)) an), requests_sent = requestsSent (provider k (roadmapRequest pr (buildAnswerContext (answers ps)) an))\<rparr>]))))"
  using ai_portfolio_cache_policy[OF u, of refreshQ L env provider now]
    ai_career_roadmap_cache_policy[OF u, of refreshQ L env provider now]
  by (rule conjI)

theorem cache_served_unless_refresh_witness:
  "ai_portfolio demoLib \<lparr>OPENAI_API_KEY = None\<rparr> demoProvider 9000 demoDb (ObjectId ''65a1'')
     QUndefined =
     (respond 200 (PortfolioBody AI_MODEL 3000 demoStalePortfolio), demoDb, []) \<and>
   ai_portfolio demoLib \<lparr>OPENAI_API_KEY = Some ''sk-good''\<rparr> demoProvider 9999
     (fst (snd (ai_portfolio demoLib \<lparr>OPENAI_API_KEY = None\<rparr> demoProvider 9000 demoDb
        (ObjectId ''65a1'') QUndefined)))
     (ObjectId ''65a1'') (QString ''0'') =
     ai_portfolio demoLib \<lparr>OPENAI_API_KEY = None\<rparr> demoProvider 9000 demoDb (ObjectId ''65a1'')
       QUndefined \<and>
   ai_portfolio demoLib \<lparr>OPENAI_API_KEY = Some ''sk-good''\<rparr> demoProvider 9000 demoDb
     (ObjectId ''65a1'') (QString ''1'') =
     (respond 200 (PortfolioBody AI_MODEL 9000 demoPortfolio),
      demoDb\<lparr>users := [set_ai_portfolio
         \<lparr>data = demoPortfolio, slot_createdAt = 9000, slot_model = AI_MODEL\<rparr> 9000 demoUser]\<rparr>,
      [\<lparr>call_request = portfolioRequest demoProfile (buildAnswerContext demoAnswers) demoAnalysis,
        requests_sent = 1\<rparr>]) \<and>
   Option.bind
     (ai (set_ai_portfolio \<lparr>data = demoPortfolio, slot_createdAt = 9000, slot_model = AI_MODEL\<rparr>
            9000 demoUser))
     portfolio = Some \<lparr>data = demoPortfolio, slot_createdAt = 9000, slot_model = AI_MODEL\<rparr> \<and>
   demoPortfolio \<noteq> demoStalePortfolio \<and>
   status (fst (ai_career_roadmap demoLib \<lparr>OPENAI_API_KEY = Some ''sk-down''\<rparr> demoProvider 9000
     demoDb (ObjectId ''65a1'') (QString ''1''))) = 502 \<and>
   fst (snd (ai_career_roadmap demoLib \<lparr>OPENAI_API_KEY = Some ''sk-down''\<rparr> demoProvider 9000
     demoDb (ObjectId ''65a1'') (QString ''1''))) = demoDb \<and>
   ai_portfolio demoLib \<lparr>OPENAI_API_KEY = None\<rparr> demoProvider 9000 demoDb
     (ObjectId ''65a1'') (QString ''1'') =
     (respond 500 (ErrorBody ''OpenAI API key not configured''), demoDb, [])"
proof -
  note policy = cache_served_unless_refresh[OF demo_find, where L = demoLib
      and provider = demoProvider and now = 9000]
  have qU: "qString QUndefined \<noteq> Some ''1''" by simp
  have q0: "qString (QString ''0'') \<noteq> Some ''1''" by (simp add: trim_def isSpace_def)
  note cached = policy[where refreshQ = QUndefined and env = "\<lparr>OPENAI_API_KEY = None\<rparr>",
      THEN conjunct1, THEN conjunct1, rule_format, OF conjI[OF qU demo_user_fields(4)]]
  have 1: "ai_portfolio demoLib \<lparr>OPENAI_API_KEY = None\<rparr> demoProvider 9000 demoDb (ObjectId ''65a1'')
     QUndefined =
     (respond 200 (PortfolioBody AI_MODEL 3000 demoStalePortfolio), demoDb, [])"
    using cached[THEN conjunct1] by simp
  have 2: "ai_portfolio demoLib \<lparr>OPENAI_API_KEY = Some ''sk-good''\<rparr> demoProvider 9999
     (fst (snd (ai_portfolio demoLib \<lparr>OPENAI_API_KEY = None\<rparr> demoProvider 9000 demoDb
        (ObjectId ''65a1'') QUndefined)))
     (ObjectId ''65a1'') (QString ''0'') =
     ai_portfolio demoLib \<lparr>OPENAI_API_KEY = None\<rparr> demoProvider 9000 demoDb (ObjectId ''65a1'')
       QUndefined"
    by (rule cached[THEN conjunct2, rule_format, OF q0])
  note flds = conjI[OF demo_user_fields(1) conjI[OF demo_user_fields(2) conjI[OF demo_user_fields(3)]]]
  have k: "OPENAI_API_KEY \<lparr>OPENAI_API_KEY = Some (c # cs)\<rparr> = Some (c # cs) \<and> c # cs \<noteq> []" for c cs
    by simp
  note fresh = policy[where refreshQ = "QString ''1''", THEN conjunct1, THEN conjunct2,
      rule_format, OF demo_refresh(1)]
  note fresh_r = policy[where refreshQ = "QString ''1''", THEN conjunct2, THEN conjunct2,
      rule_format, OF demo_refresh(1)]
  note good = fresh[where env = "\<lparr>OPENAI_API_KEY = Some ''sk-good''\<rparr>", THEN conjunct2,
      rule_format, OF flds[OF k], unfolded demo_last demo_generated option.case demo_update]
  note down = fresh_r[where env = "\<lparr>OPENAI_API_KEY = Some ''sk-down''\<rparr>", THEN conjunct2,
      rule_format, OF flds[OF k], unfolded demo_last demo_generated option.case]
  have 3: "ai_portfolio demoLib \<lparr>OPENAI_API_KEY = Some ''sk-good''\<rparr> demoProvider 9000 demoDb
     (ObjectId ''65a1'') (QString ''1'') =
     (respond 200 (PortfolioBody AI_MODEL 9000 demoPortfolio),
      demoDb\<lparr>users := [set_ai_portfolio
         \<lparr>data = demoPortfolio, slot_createdAt = 9000, slot_model = AI_MODEL\<rparr> 9000 demoUser]\<rparr>,
      [\<lparr>call_request = portfolioRequest demoProfile (buildAnswerContext demoAnswers) demoAnalysis,
        requests_sent = 1\<rparr>])"
    using good[THEN conjunct1] by (simp add: demo_sent)
  note 4 = good[THEN conjunct2, THEN conjunct2]
  have 5: "demoPortfolio \<noteq> demoStalePortfolio"
    by (simp add: demoStalePortfolio_def demoPortfolio_def)
  note 6 = down[THEN conjunct1]
  note 7 = down[THEN conjunct2, THEN conjunct1]
  have 8: "ai_portfolio demoLib \<lparr>OPENAI_API_KEY = None\<rparr> demoProvider 9000 demoDb
     (ObjectId ''65a1'') (QString ''1'') =
     (respond 500 (ErrorBody ''OpenAI API key not configured''), demoDb, [])"
    using fresh[where env = "\<lparr>OPENAI_API_KEY = None\<rparr>", THEN conjunct1]
    by (simp only: demo_keys(3) option.case gateError.simps)
  from 1 2 3 4 5 6 7 8 show ?thesis by (intro conjI)
qed

text \<open>
  Claim C5. For a signup with a valid body (an address \<open>e\<close>, a password \<open>p\<close>): when no
  stored account has the lower-cased address (and the new id is fresh) the response is 201
  and exactly one document is added, with the lower-cased address and, for the password,
  the value of \<^verbatim>\<open>bcrypt.hash\<close> only. When an account has the lower-cased address the
  response is 409 and nothing is stored. After a signup that answered 201, whatever
  requests follow, every signup with an address that lower-cases to the same string
  answers 409.
\<close>

theorem signup_normalises_email_and_rejects_duplicates:
  assumes valid: "safeParse (signupSchema (isEmail L) reqBody) = Inr (e, p)"
  shows "((\<forall>d \<in> set (users db). email d \<noteq> toLowerCase e \<and> user_id d \<noteq> newId) \<longrightarrow>
            signup L newId salt now db reqBody =
              (respond 201
                 (AuthBody (signToken newId (toLowerCase e)) (toHexString newId) (toLowerCase e)),
               db\<lparr>users := users db @
                  [\<lparr>user_id = newId, email = toLowerCase e, createdAt = now, updatedAt = now,
                    profile = None, psychometric = None, ai = None,
                    passwordHash = bcrypt_hash L salt p 10\<rparr>]\<rparr>)) \<and>
         ((\<exists>d \<in> set (users db). email d = toLowerCase e) \<longrightarrow>
            signup L newId salt now db reqBody =
              (respond 409 (ErrorBody ''Email already exists''), db)) \<and>
         (status (fst (signup L newId salt now db reqBody)) = 201 \<longrightarrow>
            (\<forall>rs reqBody' e' p' newId' salt' now'.
               safeParse (signupSchema (isEmail L) reqBody') = Inr (e', p') \<and>
               toLowerCase e' = toLowerCase e \<longrightarrow>
               signup L newId' salt' now' (run L env (snd (signup L newId salt now db reqBody)) rs)
                 reqBody' =
                 (respond 409 (ErrorBody ''Email already exists''),
                  run L env (snd (signup L newId salt now db reqBody)) rs)))"
proof (intro conjI impI allI)
  assume "\<forall>d \<in> set (users db). email d \<noteq> toLowerCase e \<and> user_id d \<noteq> newId"
  from signup_fresh[OF valid this]
  show "signup L newId salt now db reqBody =
              (respond 201
                 (AuthBody (signToken newId (toLowerCase e)) (toHexString newId) (toLowerCase e)),
               db\<lparr>users := users db @
                  [\<lparr>user_id = newId, email = toLowerCase e, createdAt = now, updatedAt = now,
                    profile = None, psychometric = None, ai = None,
                    passwordHash = bcrypt_hash L salt p 10\<rparr>]\<rparr>)" .
next
  assume "\<exists>d \<in> set (users db). email d = toLowerCase e"
  from signup_duplicate[OF valid this]
  show "signup L newId salt now db reqBody = (respond 409 (ErrorBody ''Email already exists''), db)" .
next
  fix rs reqBody' e' p' newId' salt' now'
  assume ok: "status (fst (signup L newId salt now db reqBody)) = 201"
    and later: "safeParse (signupSchema (isEmail L) reqBody') = Inr (e', p') \<and>
                toLowerCase e' = toLowerCase e"
  let ?db1 = "snd (signup L newId salt now db reqBody)"
  have "toLowerCase e \<in> set (map email (users ?db1))"
    by (rule signup_201_stores_email[OF valid ok])
  then have "toLowerCase e \<in> set (map email (users (run L env ?db1 rs)))"
    using run_keeps_emails[of ?db1 L env rs] by blast
  then have "\<exists>d \<in> set (users (run L env ?db1 rs)). email d = toLowerCase e'"
    using later by auto
  with later show "signup L newId' salt' now' (run L env ?db1 rs) reqBody' =
          (respond 409 (ErrorBody ''Email already exists''), run L env ?db1 rs)"
    using signup_duplicate by blast
qed

theorem signup_normalises_email_and_rejects_duplicates_witness:
  "signup demoLib (ObjectId ''65b2'') ''s2'' 7000 demoDb (credentials ''New@X.com'' ''secret1'') =
     (respond 201 (AuthBody (Token ''65b2'' ''new@x.com'') ''65b2'' ''new@x.com''),
      demoDb\<lparr>users := [demoUser,
         \<lparr>user_id = ObjectId ''65b2'', email = ''new@x.com'', createdAt = 7000, updatedAt = 7000,
           profile = None, psychometric = None, ai = None, passwordHash = ''s2$1terces''\<rparr>]\<rparr>) \<and>
   signup demoLib (ObjectId ''65b3'') ''s3'' 8000
     (run demoLib \<lparr>OPENAI_API_KEY = None\<rparr>
        (snd (signup demoLib (ObjectId ''65b2'') ''s2'' 7000 demoDb (credentials ''New@X.com'' ''secret1'')))
        [GetMe (ObjectId ''65a1'')])
     (credentials ''NEW@x.COM'' ''another1'') =
     (respond 409 (ErrorBody ''Email already exists''),
      run demoLib \<lparr>OPENAI_API_KEY = None\<rparr>
        (snd (signup demoLib (ObjectId ''65b2'') ''s2'' 7000 demoDb (credentials ''New@X.com'' ''secret1'')))
        [GetMe (ObjectId ''65a1'')]) \<and>
   signup demoLib (ObjectId ''65b4'') ''s4'' 8000 demoDb (credentials ''A@X.COM'' ''secret1'') =
     (respond 409 (ErrorBody ''Email already exists''), demoDb)"
proof -
  have v1: "safeParse (signupSchema (isEmail demoLib) (credentials ''New@X.com'' ''secret1'')) =
              Inr (''New@X.com'', ''secret1'')"
    by (rule demo_signup_body) simp_all
  have v2: "safeParse (signupSchema (isEmail demoLib) (credentials ''NEW@x.COM'' ''another1'')) =
              Inr (''NEW@x.COM'', ''another1'')"
    by (rule demo_signup_body) simp_all
  have v3: "safeParse (signupSchema (isEmail demoLib) (credentials ''A@X.COM'' ''secret1'')) =
              Inr (''A@X.COM'', ''secret1'')"
    by (rule demo_signup_body) simp_all
  have fresh: "\<forall>d \<in> set (users demoDb).
                 email d \<noteq> toLowerCase ''New@X.com'' \<and> user_id d \<noteq> ObjectId ''65b2''"
    by (simp add: demoDb_def demoUser_def demo_lower)
  have dup: "\<exists>d \<in> set (users demoDb). email d = toLowerCase ''A@X.COM''"
    by (simp add: demoDb_def demoUser_def demo_lower)
  note t1 = signup_normalises_email_and_rejects_duplicates[OF v1, where db = demoDb
      and newId = "ObjectId ''65b2''" and salt = "''s2''" and now = 7000
      and env = "\<lparr>OPENAI_API_KEY = None\<rparr>"]
  have e1: "signup demoLib (ObjectId ''65b2'') ''s2'' 7000 demoDb (credentials ''New@X.com'' ''secret1'') =
     (respond 201 (AuthBody (Token ''65b2'' ''new@x.com'') ''65b2'' ''new@x.com''),
      demoDb\<lparr>users := [demoUser,
         \<lparr>user_id = ObjectId ''65b2'', email = ''new@x.com'', createdAt = 7000, updatedAt = 7000,
           profile = None, psychometric = None, ai = None, passwordHash = ''s2$1terces''\<rparr>]\<rparr>)"
    using t1[THEN conjunct1, THEN mp, OF fresh]
    by (simp add: demo_lower signToken_def demoLib_def demoDb_def)
  have ok: "status (fst (signup demoLib (ObjectId ''65b2'') ''s2'' 7000 demoDb
              (credentials ''New@X.com'' ''secret1''))) = 201"
    by (simp add: e1 respond_def)
  have e2: "signup demoLib (ObjectId ''65b3'') ''s3'' 8000
     (run demoLib \<lparr>OPENAI_API_KEY = None\<rparr>
        (snd (signup demoLib (ObjectId ''65b2'') ''s2'' 7000 demoDb (credentials ''New@X.com'' ''secret1'')))
        [GetMe (ObjectId ''65a1'')])
     (credentials ''NEW@x.COM'' ''another1'') =
     (respond 409 (ErrorBody ''Email already exists''),
      run demoLib \<lparr>OPENAI_API_KEY = None\<rparr>
        (snd (signup demoLib (ObjectId ''65b2'') ''s2'' 7000 demoDb (credentials ''New@X.com'' ''secret1'')))
        [GetMe (ObjectId ''65a1'')])"
    by (rule t1[THEN conjunct2, THEN conjunct2, rule_format, OF ok,
          where e' = "''NEW@x.COM''" and p' = "''another1''"])
       (simp add: v2 demo_lower)
  have e3: "signup demoLib (ObjectId ''65b4'') ''s4'' 8000 demoDb (credentials ''A@X.COM'' ''secret1'') =
     (respond 409 (ErrorBody ''Email already exists''), demoDb)"
    by (rule signup_normalises_email_and_rejects_duplicates[OF v3,
          THEN conjunct2, THEN conjunct1, THEN mp, OF dup])
  from e1 e2 e3 show ?thesis by (intro conjI)
qed

text \<open>
  Claim C8, as stated, fails at empty strings. With an analysis whose only course name is
  empty, the tag set of the specification is the one empty tag, and the request still
  returns roles that have no such tag (one of them has no course tags at all). With an
  analysis whose primary domain is empty, the response reports the empty domain and
  returns a role of the domain \<^verbatim>\<open>Design\<close>.
\<close>

theorem empty_course_names_and_domain_are_not_filtered:
  "ai_job_roles (demoCatalogDb demoBlankCourse) (ObjectId ''65a1'') QUndefined QUndefined =
     (respond 200
        (JobRolesBody (Some ''Engineering'') 2 [jobRoleItem (demoRoles ! 0), jobRoleItem (demoRoles ! 1)]),
      demoCatalogDb demoBlankCourse) \<and>
   claimedCourseTags (qString QUndefined) (Some demoBlankCourse) = [[]] \<and>
   \<not> tags_in (role_courseTags (demoRoles ! 0)) (claimedCourseTags (qString QUndefined) (Some demoBlankCourse)) \<and>
   \<not> tags_in (role_courseTags (demoRoles ! 1)) (claimedCourseTags (qString QUndefined) (Some demoBlankCourse)) \<and>
   ai_job_roles (demoCatalogDb demoBlankDomain) (ObjectId ''65a1'') QUndefined QUndefined =
     (respond 200 (JobRolesBody (Some []) 1 [jobRoleItem (demoRoles ! 2)]),
      demoCatalogDb demoBlankDomain) \<and>
   effectiveDomain (qString QUndefined) (Some demoBlankDomain) = Some [] \<and>
   domain (demoRoles ! 2) = ''Design''"
  using demo_job_roles(2,3)
  by (simp add: claimedCourseTags_def courseNames_def demoBlankCourse_def demoBlankDomain_def
        demo_tags tags_in_def demoRoles_def effectiveDomain_def)

text \<open>
  Claim C8, amended. For a user that is found: without a domain parameter, a course
  parameter and an analysis the response is 400. Otherwise the response is 200 with the
  effective domain and the first 30, in store order, of the roles that match: the domain
  is the effective domain when that is a non-empty string, and, when there is a tag, one
  of the role's course tags is among the tags, which are the normalised non-empty course
  names.
\<close>

theorem job_roles_filtered:
  assumes u: "findOneById (users db) userId = Some u"
  shows "(Option.bind (ai u) analysis = None \<and> qString domainQ = None \<and> qString courseQ = None \<longrightarrow>
            ai_job_roles db userId domainQ courseQ =
              (respond 400
                 (ErrorBody ''AI analysis missing. Run POST /ai/analyze or pass ?domain= / ?course=.''),
               db)) \<and>
         (\<not> (Option.bind (ai u) analysis = None \<and> qString domainQ = None \<and> qString courseQ = None) \<longrightarrow>
            (\<exists>roles.
               ai_job_roles db userId domainQ courseQ =
                 (respond 200
                    (JobRolesBody (effectiveDomain (qString domainQ) (Option.bind (ai u) analysis))
                       (length roles) (map jobRoleItem roles)),
                  db) \<and>
               roles = take 30 (filter
                  (roleMatches (effectiveDomain (qString domainQ) (Option.bind (ai u) analysis))
                     (effectiveCourseTags (qString courseQ) (Option.bind (ai u) analysis)))
                  (job_roles db)) \<and>
               length roles \<le> 30 \<and>
               (\<forall>r \<in> set roles.
                  r \<in> set (job_roles db) \<and>
                  (\<forall>d. effectiveDomain (qString domainQ) (Option.bind (ai u) analysis) = Some d \<and>
                       d \<noteq> [] \<longrightarrow> domain r = d) \<and>
                  (effectiveCourseTags (qString courseQ) (Option.bind (ai u) analysis) \<noteq> [] \<longrightarrow>
                     (\<exists>ts t. role_courseTags r = Some ts \<and> t \<in> set ts \<and>
                        t \<in> set (effectiveCourseTags (qString courseQ)
                                    (Option.bind (ai u) analysis)))))))"
proof (rule conjI; rule impI)
  assume "Option.bind (ai u) analysis = None \<and> qString domainQ = None \<and> qString courseQ = None"
  from ai_job_roles_missing[OF u this]
  show "ai_job_roles db userId domainQ courseQ =
              (respond 400
                 (ErrorBody ''AI analysis missing. Run POST /ai/analyze or pass ?domain= / ?course=.''),
               db)" .
next
  assume some: "\<not> (Option.bind (ai u) analysis = None \<and> qString domainQ = None \<and>
                    qString courseQ = None)"
  define dm where "dm = effectiveDomain (qString domainQ) (Option.bind (ai u) analysis)"
  define tags where "tags = effectiveCourseTags (qString courseQ) (Option.bind (ai u) analysis)"
  define roles where "roles = take 30 (filter (roleMatches dm tags) (job_roles db))"
  have r: "ai_job_roles db userId domainQ courseQ =
             (respond 200 (JobRolesBody dm (length roles) (map jobRoleItem roles)), db)"
    unfolding roles_def dm_def tags_def by (rule ai_job_roles_ok[OF u some])
  have len: "length roles \<le> 30" by (simp add: roles_def)
  have each: "r \<in> set (job_roles db) \<and> (\<forall>d. dm = Some d \<and> d \<noteq> [] \<longrightarrow> domain r = d) \<and>
              (tags \<noteq> [] \<longrightarrow> (\<exists>ts t. role_courseTags r = Some ts \<and> t \<in> set ts \<and> t \<in> set tags))"
    if "r \<in> set roles" for r
  proof -
    from that have "r \<in> set (filter (roleMatches dm tags) (job_roles db))"
      unfolding roles_def by (rule in_set_takeD)
    then have "r \<in> set (job_roles db)" and "roleMatches dm tags r" by auto
    then show ?thesis by (auto simp: roleMatches_def split: option.splits)
  qed
  from r len each show "\<exists>roles.
               ai_job_roles db userId domainQ courseQ =
                 (respond 200
                    (JobRolesBody (effectiveDomain (qString domainQ) (Option.bind (ai u) analysis))
                       (length roles) (map jobRoleItem roles)),
                  db) \<and>
               roles = take 30 (filter
                  (roleMatches (effectiveDomain (qString domainQ) (Option.bind (ai u) analysis))
                     (effectiveCourseTags (qString courseQ) (Option.bind (ai u) analysis)))
                  (job_roles db)) \<and>
               length roles \<le> 30 \<and>
               (\<forall>r \<in> set roles.
                  r \<in> set (job_roles db) \<and>
                  (\<forall>d. effectiveDomain (qString domainQ) (Option.bind (ai u) analysis) = Some d \<and>
                       d \<noteq> [] \<longrightarrow> domain r = d) \<and>
                  (effectiveCourseTags (qString courseQ) (Option.bind (ai u) analysis) \<noteq> [] \<longrightarrow>
                     (\<exists>ts t. role_courseTags r = Some ts \<and> t \<in> set ts \<and>
                        t \<in> set (effectiveCourseTags (qString courseQ)
                                    (Option.bind (ai u) analysis)))))"
    unfolding dm_def tags_def roles_def by (intro exI[of _ "take 30 (filter
                  (roleMatches (effectiveDomain (qString domainQ) (Option.bind (ai u) analysis))
                     (effectiveCourseTags (qString courseQ) (Option.bind (ai u) analysis)))
                  (job_roles db))"]) blast
qed

theorem job_roles_filtered_witness:
  "ai_job_roles (demoCatalogDb demoAnalysis) (ObjectId ''65a1'') QUndefined QUndefined =
     (respond 200 (JobRolesBody (Some ''Engineering'') 1 [jobRoleItem (demoRoles ! 0)]),
      demoCatalogDb demoAnalysis) \<and>
   ai_job_roles demoDb (ObjectId ''65a1'') (QString ''  '') QUndefined =
     ai_job_roles demoDb (ObjectId ''65a1'') QUndefined QUndefined \<and>
   ai_job_roles (demoDb\<lparr>users := [demoUser\<lparr>ai := None\<rparr>]\<rparr>) (ObjectId ''65a1'') QUndefined QUndefined =
     (respond 400
        (ErrorBody ''AI analysis missing. Run POST /ai/analyze or pass ?domain= / ?course=.''),
      demoDb\<lparr>users := [demoUser\<lparr>ai := None\<rparr>]\<rparr>)"
proof -
  have some: "\<not> (Option.bind (ai (demoUser\<lparr>ai := Some \<lparr>analysis = Some demoAnalysis, portfolio = None,
                   roadmap = None, ai_createdAt = None, ai_model = None\<rparr>\<rparr>)) analysis = None \<and>
                 qString QUndefined = None \<and> qString QUndefined = None)"
    by simp
  from job_roles_filtered[OF demo_catalog_find, THEN conjunct2, THEN mp, OF some]
  obtain roles where
    r: "ai_job_roles (demoCatalogDb demoAnalysis) (ObjectId ''65a1'') QUndefined QUndefined =
         (respond 200
            (JobRolesBody (effectiveDomain (qString QUndefined)
                 (Option.bind (ai (demoUser\<lparr>ai := Some \<lparr>analysis = Some demoAnalysis, portfolio = None,
                   roadmap = None, ai_createdAt = None, ai_model = None\<rparr>\<rparr>)) analysis))
               (length roles) (map jobRoleItem roles)),
          demoCatalogDb demoAnalysis)"
    and roles: "roles = take 30 (filter
          (roleMatches (effectiveDomain (qString QUndefined)
                 (Option.bind (ai (demoUser\<lparr>ai := Some \<lparr>analysis = Some demoAnalysis, portfolio = None,
                   roadmap = None, ai_createdAt = None, ai_model = None\<rparr>\<rparr>)) analysis))
             (effectiveCourseTags (qString QUndefined)
                 (Option.bind (ai (demoUser\<lparr>ai := Some \<lparr>analysis = Some demoAnalysis, portfolio = None,
                   roadmap = None, ai_createdAt = None, ai_model = None\<rparr>\<rparr>)) analysis)))
          (job_roles (demoCatalogDb demoAnalysis)))"
    by blast
  have "roles = [demoRoles ! 0]"
    unfolding roles
    by (simp add: effectiveDomain_def effectiveCourseTags_def courseNames_def demoAnalysis_def
          demo_tags roleMatches_def demoCatalogDb_def demoRoles_def)
  with r have 1: "ai_job_roles (demoCatalogDb demoAnalysis) (ObjectId ''65a1'') QUndefined QUndefined =
     (respond 200 (JobRolesBody (Some ''Engineering'') 1 [jobRoleItem (demoRoles ! 0)]),
      demoCatalogDb demoAnalysis)"
    by (simp add: effectiveDomain_def demoAnalysis_def)
  have 2: "ai_job_roles demoDb (ObjectId ''65a1'') (QString ''  '') QUndefined =
     ai_job_roles demoDb (ObjectId ''65a1'') QUndefined QUndefined"
    by (simp add: ai_job_roles_def trim_def isSpace_def)
  have u0: "findOneById (users (demoDb\<lparr>users := [demoUser\<lparr>ai := None\<rparr>]\<rparr>)) (ObjectId ''65a1'') =
              Some (demoUser\<lparr>ai := None\<rparr>)"
    by (simp add: findOneById_def demoDb_def demoUser_def)
  have none: "Option.bind (ai (demoUser\<lparr>ai := None\<rparr>)) analysis = None \<and>
              qString QUndefined = None \<and> qString QUndefined = None"
    by simp
  have 3: "ai_job_roles (demoDb\<lparr>users := [demoUser\<lparr>ai := None\<rparr>]\<rparr>) (ObjectId ''65a1'') QUndefined QUndefined =
     (respond 400
        (ErrorBody ''AI analysis missing. Run POST /ai/analyze or pass ?domain= / ?course=.''),
      demoDb\<lparr>users := [demoUser\<lparr>ai := None\<rparr>]\<rparr>)"
    by (rule job_roles_filtered[OF u0, THEN conjunct1, THEN mp, OF none])
  from 1 2 3 show ?thesis by (intro conjI)
qed

text \<open>
  Claim C9, as stated, fails at an empty course name. With no course parameter and an
  analysis whose first course name is empty, the response reports the empty string as its
  course filter and returns scholarships whose course tags do not contain it.
\<close>

theorem empty_top_course_is_not_filtered:
  "scholarships_handler (demoCatalogDb demoBlankCourse) (ObjectId ''65a1'') QUndefined QUndefined QUndefined =
     (respond 200
        (ScholarshipsBody (Some []) None ''Undergraduate'' 2
           [scholarshipItem (demoScholarships ! 0), scholarshipItem (demoScholarships ! 1)]),
      demoCatalogDb demoBlankCourse) \<and>
   effectiveCourse (qString QUndefined) (Some demoBlankCourse) = Some [] \<and>
   normalizeTag [] \<notin> set (courseTags (demoScholarships ! 0)) \<and>
   normalizeTag [] \<notin> set (courseTags (demoScholarships ! 1))"
  using demo_scholarships(2)
  by (simp add: effectiveCourse_def demoBlankCourse_def demo_tags demoScholarships_def)

text \<open>
  Claim C9, amended. For a user that is found: without an effective academic level (or with
  an empty one) the response is 400. Otherwise the response is 200 with the effective
  course, the category and the level, and the first 50, in store order, of the scholarships
  that match: the level is the effective level, the category is the given one when one is
  given, and the normalised effective course is among the course tags when the effective
  course is a non-empty string.
\<close>

theorem scholarships_filtered:
  assumes u: "findOneById (users db) userId = Some u"
  shows "(effectiveAcademicLevel (qString academicLevelQ) (profile u) = None \<or>
          effectiveAcademicLevel (qString academicLevelQ) (profile u) = Some [] \<longrightarrow>
            scholarships_handler db userId courseQ categoryQ academicLevelQ =
              (respond 400
                 (ErrorBody ''Academic level missing. Save /user/profile or pass ?academicLevel=.''),
               db)) \<and>
         (\<forall>level. effectiveAcademicLevel (qString academicLevelQ) (profile u) = Some level \<and>
             level \<noteq> [] \<longrightarrow>
            (\<exists>items.
               scholarships_handler db userId courseQ categoryQ academicLevelQ =
                 (respond 200
                    (ScholarshipsBody (effectiveCourse (qString courseQ) (Option.bind (ai u) analysis))
                       (qString categoryQ) level (length items) (map scholarshipItem items)),
                  db) \<and>
               items = take 50 (filter
                  (scholarshipMatches level (qString categoryQ)
                     (effectiveCourse (qString courseQ) (Option.bind (ai u) analysis)))
                  (scholarships db)) \<and>
               length items \<le> 50 \<and>
               (\<forall>s \<in> set items.
                  s \<in> set (scholarships db) \<and>
                  academicLevel s = level \<and>
                  (\<forall>c. qString categoryQ = Some c \<longrightarrow> category s = Some c) \<and>
                  (\<forall>c. effectiveCourse (qString courseQ) (Option.bind (ai u) analysis) = Some c \<and>
                       c \<noteq> [] \<longrightarrow> normalizeTag c \<in> set (courseTags s)))))"
proof (rule conjI)
  show "effectiveAcademicLevel (qString academicLevelQ) (profile u) = None \<or>
          effectiveAcademicLevel (qString academicLevelQ) (profile u) = Some [] \<longrightarrow>
            scholarships_handler db userId courseQ categoryQ academicLevelQ =
              (respond 400
                 (ErrorBody ''Academic level missing. Save /user/profile or pass ?academicLevel=.''),
               db)"
    using scholarships_missing_level[OF u] by blast
next
  show "\<forall>level. effectiveAcademicLevel (qString academicLevelQ) (profile u) = Some level \<and>
             level \<noteq> [] \<longrightarrow>
            (\<exists>items.
               scholarships_handler db userId courseQ categoryQ academicLevelQ =
                 (respond 200
                    (ScholarshipsBody (effectiveCourse (qString courseQ) (Option.bind (ai u) analysis))
                       (qString categoryQ) level (length items) (map scholarshipItem items)),
                  db) \<and>
               items = take 50 (filter
                  (scholarshipMatches level (qString categoryQ)
                     (effectiveCourse (qString courseQ) (Option.bind (ai u) analysis)))
                  (scholarships db)) \<and>
               length items \<le> 50 \<and>
               (\<forall>s \<in> set items.
                  s \<in> set (scholarships db) \<and>
                  academicLevel s = level \<and>
                  (\<forall>c. qString categoryQ = Some c \<longrightarrow> category s = Some c) \<and>
                  (\<forall>c. effectiveCourse (qString courseQ) (Option.bind (ai u) analysis) = Some c \<and>
                       c \<noteq> [] \<longrightarrow> normalizeTag c \<in> set (courseTags s))))"
  proof (intro allI impI)
    fix level
    assume "effectiveAcademicLevel (qString academicLevelQ) (profile u) = Some level \<and> level \<noteq> []"
    then have level: "effectiveAcademicLevel (qString academicLevelQ) (profile u) = Some level"
      "level \<noteq> []" by auto
    define crs where "crs = effectiveCourse (qString courseQ) (Option.bind (ai u) analysis)"
    define items where
      "items = take 50 (filter (scholarshipMatches level (qString categoryQ) crs) (scholarships db))"
    have r: "scholarships_handler db userId courseQ categoryQ academicLevelQ =
               (respond 200
                  (ScholarshipsBody crs (qString categoryQ) level (length items)
                     (map scholarshipItem items)), db)"
      unfolding items_def crs_def by (rule scholarships_ok[OF u level])
    have len: "length items \<le> 50" by (simp add: items_def)
    have each: "s \<in> set (scholarships db) \<and> academicLevel s = level \<and>
                (\<forall>c. qString categoryQ = Some c \<longrightarrow> category s = Some c) \<and>
                (\<forall>c. crs = Some c \<and> c \<noteq> [] \<longrightarrow> normalizeTag c \<in> set (courseTags s))"
      if "s \<in> set items" for s
    proof -
      from that have "s \<in> set (filter (scholarshipMatches level (qString categoryQ) crs) (scholarships db))"
        unfolding items_def by (rule in_set_takeD)
      then have "s \<in> set (scholarships db)" and "scholarshipMatches level (qString categoryQ) crs s"
        by auto
      then show ?thesis by (auto simp: scholarshipMatches_def split: option.splits)
    qed
    from r len each show "\<exists>items.
               scholarships_handler db userId courseQ categoryQ academicLevelQ =
                 (respond 200
                    (ScholarshipsBody (effectiveCourse (qString courseQ) (Option.bind (ai u) analysis))
                       (qString categoryQ) level (length items) (map scholarshipItem items)),
                  db) \<and>
               items = take 50 (filter
                  (scholarshipMatches level (qString categoryQ)
                     (effectiveCourse (qString courseQ) (Option.bind (ai u) analysis)))
                  (scholarships db)) \<and>
               length items \<le> 50 \<and>
               (\<forall>s \<in> set items.
                  s \<in> set (scholarships db) \<and>
                  academicLevel s = level \<and>
                  (\<forall>c. qString categoryQ = Some c \<longrightarrow> category s = Some c) \<and>
                  (\<forall>c. effectiveCourse (qString courseQ) (Option.bind (ai u) analysis) = Some c \<and>
                       c \<noteq> [] \<longrightarrow> normalizeTag c \<in> set (courseTags s)))"
      unfolding crs_def items_def by (intro exI[of _ "take 50 (filter
                  (scholarshipMatches level (qString categoryQ)
                     (effectiveCourse (qString courseQ) (Option.bind (ai u) analysis)))
                  (scholarships db))"]) blast
  qed
qed

theorem scholarships_filtered_witness:
  "scholarships_handler (demoCatalogDb demoAnalysis) (ObjectId ''65a1'') QUndefined QUndefined QUndefined =
     (respond 200
        (ScholarshipsBody (Some ''Mechanical '') None ''Undergraduate'' 1
           [scholarshipItem (demoScholarships ! 0)]),
      demoCatalogDb demoAnalysis) \<and>
   scholarships_handler (demoDb\<lparr>users := [demoUser\<lparr>profile := None\<rparr>]\<rparr>) (ObjectId ''65a1'')
     QUndefined QUndefined QUndefined =
     (respond 400 (ErrorBody ''Academic level missing. Save /user/profile or pass ?academicLevel=.''),
      demoDb\<lparr>users := [demoUser\<lparr>profile := None\<rparr>]\<rparr>)"
proof -
  have level: "effectiveAcademicLevel (qString QUndefined)
     (profile (demoUser\<lparr>ai := Some \<lparr>analysis = Some demoAnalysis, portfolio = None, roadmap = None,
                                    ai_createdAt = None, ai_model = None\<rparr>\<rparr>)) = Some ''Undergraduate'' \<and>
     ''Undergraduate'' \<noteq> []"
    using demo_level by simp
  from scholarships_filtered[OF demo_catalog_find, THEN conjunct2, rule_format, OF level]
  obtain items where
    r: "scholarships_handler (demoCatalogDb demoAnalysis) (ObjectId ''65a1'') QUndefined QUndefined QUndefined =
         (respond 200
            (ScholarshipsBody
               (effectiveCourse (qString QUndefined)
                  (Option.bind (ai (demoUser\<lparr>ai := Some \<lparr>analysis = Some demoAnalysis, portfolio = None,
                     roadmap = None, ai_createdAt = None, ai_model = None\<rparr>\<rparr>)) analysis))
               (qString QUndefined) ''Undergraduate'' (length items) (map scholarshipItem items)),
          demoCatalogDb demoAnalysis)"
    and items: "items = take 50 (filter
          (scholarshipMatches ''Undergraduate'' (qString QUndefined)
             (effectiveCourse (qString QUndefined)
                (Option.bind (ai (demoUser\<lparr>ai := Some \<lparr>analysis = Some demoAnalysis, portfolio = None,
                   roadmap = None, ai_createdAt = None, ai_model = None\<rparr>\<rparr>)) analysis)))
          (scholarships (demoCatalogDb demoAnalysis)))"
    by blast
  have "items = [demoScholarships ! 0]"
    unfolding items
    by (simp add: effectiveCourse_def demoAnalysis_def demo_tags scholarshipMatches_def
          demoCatalogDb_def demoScholarships_def)
  with r have 1: "scholarships_handler (demoCatalogDb demoAnalysis) (ObjectId ''65a1'') QUndefined QUndefined QUndefined =
     (respond 200
        (ScholarshipsBody (Some ''Mechanical '') None ''Undergraduate'' 1
           [scholarshipItem (demoScholarships ! 0)]),
      demoCatalogDb demoAnalysis)"
    by (simp add: effectiveCourse_def demoAnalysis_def)
  have u0: "findOneById (users (demoDb\<lparr>users := [demoUser\<lparr>profile := None\<rparr>]\<rparr>)) (ObjectId ''65a1'') =
              Some (demoUser\<lparr>profile := None\<rparr>)"
    by (simp add: findOneById_def demoDb_def demoUser_def)
  have none: "effectiveAcademicLevel (qString QUndefined) (profile (demoUser\<lparr>profile := None\<rparr>)) = None \<or>
              effectiveAcademicLevel (qString QUndefined) (profile (demoUser\<lparr>profile := None\<rparr>)) = Some []"
    by (simp add: effectiveAcademicLevel_def)
  have 2: "scholarships_handler (demoDb\<lparr>users := [demoUser\<lparr>profile := None\<rparr>]\<rparr>) (ObjectId ''65a1'')
     QUndefined QUndefined QUndefined =
     (respond 400 (ErrorBody ''Academic level missing. Save /user/profile or pass ?academicLevel=.''),
      demoDb\<lparr>users := [demoUser\<lparr>profile := None\<rparr>]\<rparr>)"
    by (rule scholarships_filtered[OF u0, THEN conjunct1, THEN mp, OF none])
  from 1 2 show ?thesis by (intro conjI)
qed

end
